theory Spec2Isabelle
  imports Complex_Main
begin

section \<open>Text\<close>

text \<open>
  A JavaScript string is modelled as a \<^typ>\<open>string\<close> holding its bytes in UTF-8; a
  surrogate that stands alone is held as the three bytes its code would have in UTF-8.
  Every string operation the sources use (\<open>includes\<close>, \<open>split\<close> and \<open>replace\<close> on ASCII
  patterns, \<open>join\<close>, \<open>trim\<close>, the byte size of a \<open>Blob\<close>) reads the same on the bytes
  as on the UTF-16 code units, because a byte below 0x80 never occurs inside a
  multi-byte sequence.
\<close>

abbreviation dquote :: char where "dquote \<equiv> CHR 0x22"
abbreviation backslash :: char where "backslash \<equiv> CHR 0x5C"
abbreviation LF :: char where "LF \<equiv> CHR 0x0A"
abbreviation CR :: char where "CR \<equiv> CHR 0x0D"

text \<open>\<open>Array.prototype.join\<close> on an array of strings.\<close>

fun join_with :: "string \<Rightarrow> string list \<Rightarrow> string" where
  "join_with sep [] = []"
| "join_with sep [x] = x"
| "join_with sep (x # y # ys) = x @ sep @ join_with sep (y # ys)"

text \<open>Decimal digits of a natural number, and the number a digit string denotes.\<close>

definition digit_char :: "nat \<Rightarrow> char" where
  "digit_char d = char_of (48 + d)"

fun show_nat :: "nat \<Rightarrow> string" where
  "show_nat n = (if n < 10 then [digit_char n] else show_nat (n div 10) @ [digit_char (n mod 10)])"

declare show_nat.simps [simp del]

definition show_int :: "int \<Rightarrow> string" where
  "show_int i = (if i < 0 then CHR ''-'' # show_nat (nat (- i)) else show_nat (nat i))"

definition is_digit :: "char \<Rightarrow> bool" where
  "is_digit c = (48 \<le> (of_char c :: nat) \<and> (of_char c :: nat) \<le> 57)"

definition digit_val :: "char \<Rightarrow> nat" where
  "digit_val c = (of_char c :: nat) - 48"

definition read_nat :: "string \<Rightarrow> nat" where
  "read_nat s = foldl (\<lambda>a c. 10 * a + digit_val c) 0 s"

definition hex_digit :: "nat \<Rightarrow> char" where
  "hex_digit d = (if d < 10 then char_of (48 + d) else char_of (87 + d))"

subsection \<open>Code units\<close>

text \<open>
  The UTF-16 code units of a string, each as the bytes of a string of its own. A
  sequence of one, two or three bytes is one code unit; a sequence of four bytes is a
  code point above U+FFFF, which JavaScript holds as a high and a low surrogate. A byte
  that starts no complete sequence is taken as a unit by itself.
\<close>

definition surrogate_bytes :: "nat \<Rightarrow> string" where
  "surrogate_bytes u = [CHR 0xED, char_of (128 + u div 64 mod 64), char_of (128 + u mod 64)]"

definition is_surrogate :: "string \<Rightarrow> bool" where
  "is_surrogate u = (length u = 3 \<and> hd u = CHR 0xED \<and> 160 \<le> (of_char (u ! 1) :: nat))"

function code_units :: "string \<Rightarrow> string list" where
  "code_units [] = []"
| "code_units (c # cs) =
     (let b = (of_char c :: nat)
      in if 240 \<le> b \<and> b < 248 \<and> 3 \<le> length cs
         then (let cp = (b mod 8) * 262144 + ((of_char (cs ! 0) :: nat) mod 64) * 4096
                        + ((of_char (cs ! 1) :: nat) mod 64) * 64 + (of_char (cs ! 2) :: nat) mod 64
                        - 65536
               in surrogate_bytes (55296 + cp div 1024) # surrogate_bytes (56320 + cp mod 1024)
                  # code_units (drop 3 cs))
         else if 224 \<le> b \<and> b < 240 \<and> 2 \<le> length cs
         then (c # take 2 cs) # code_units (drop 2 cs)
         else if 192 \<le> b \<and> b < 224 \<and> 1 \<le> length cs
         then (c # take 1 cs) # code_units (drop 1 cs)
         else [c] # code_units cs)"
  by pat_completeness auto
termination
  by (relation "measure length") auto

section \<open>Numbers\<close>

text \<open>
  A JavaScript number is an IEEE 754 double. \<open>Fin r\<close> is the finite double whose value
  is the real number \<open>r\<close>, with \<open>Fin 0\<close> for the positive zero; \<open>NegZero\<close> is the
  negative zero, and the other three are the infinities and \<open>NaN\<close>.
\<close>

datatype jsnum = Fin real | NegZero | PInf | NInf | NaN

fun sign_bit :: "jsnum \<Rightarrow> bool" where
  "sign_bit (Fin r) = (r < 0)"
| "sign_bit NegZero = True"
| "sign_bit NInf = True"
| "sign_bit PInf = False"
| "sign_bit NaN = False"

fun value_of :: "jsnum \<Rightarrow> real" where
  "value_of (Fin r) = r"
| "value_of _ = 0"

definition is_zero :: "jsnum \<Rightarrow> bool" where
  "is_zero x = (x = Fin 0 \<or> x = NegZero)"

definition is_inf :: "jsnum \<Rightarrow> bool" where
  "is_inf x = (x = PInf \<or> x = NInf)"

definition zero_of :: "bool \<Rightarrow> jsnum" where
  "zero_of negative = (if negative then NegZero else Fin 0)"

definition inf_of :: "bool \<Rightarrow> jsnum" where
  "inf_of negative = (if negative then NInf else PInf)"

subsection \<open>Rounding to a double\<close>

text \<open>
  \<open>binade a\<close> is the exponent \<open>e\<close> with \<open>2^e \<le> a < 2^(e + 1)\<close>, found by bisection
  between \<open>-2048\<close> and \<open>2048\<close>.
\<close>

fun exp_search :: "nat \<Rightarrow> int \<Rightarrow> real \<Rightarrow> int" where
  "exp_search 0 lo a = lo"
| "exp_search (Suc n) lo a =
     (if 2 powi (lo + 2 ^ n) \<le> a then exp_search n (lo + 2 ^ n) a else exp_search n lo a)"

definition binade :: "real \<Rightarrow> int" where
  "binade a = exp_search 12 (- 2048) a"

definition round_half_even :: "real \<Rightarrow> int" where
  "round_half_even q =
     (let f = \<lfloor>q\<rfloor>
      in if q - of_int f < 1 / 2 then f
         else if 1 / 2 < q - of_int f then f + 1
         else if even f then f else f + 1)"

text \<open>
  The double nearest to a real number, the one with the even significand on a tie
  (round to nearest, ties to even): the significand has 53 bits, the exponent of a
  normal number is at least \<open>-1022\<close>, a result of \<open>2^1024\<close> or more is an infinity, and
  a result that rounds to nothing is a zero with the sign of the number.
\<close>

definition fround :: "real \<Rightarrow> jsnum" where
  "fround r =
     (if r = 0 then Fin 0
      else (let a = \<bar>r\<bar>;
                e = max (binade a) (- 1022);
                ulp = 2 powi (e - 52);
                m = of_int (round_half_even (a / ulp)) * ulp
            in if m = 0 then zero_of (r < 0)
               else if 2 powi 1024 \<le> m then inf_of (r < 0)
               else Fin (if r < 0 then - m else m)))"

subsection \<open>Arithmetic and comparison\<close>

text \<open>
  The product and the quotient: \<open>NaN\<close> for an operand that is \<open>NaN\<close>, for zero times
  infinity, infinity by infinity and zero by zero; otherwise the sign is the product of
  the signs, and a finite result that is not a zero is rounded to a double.
\<close>

definition js_mul :: "jsnum \<Rightarrow> jsnum \<Rightarrow> jsnum" where
  "js_mul x y =
     (if x = NaN \<or> y = NaN then NaN
      else if is_inf x \<or> is_inf y
        then (if is_zero x \<or> is_zero y then NaN else inf_of (sign_bit x \<noteq> sign_bit y))
      else if is_zero x \<or> is_zero y then zero_of (sign_bit x \<noteq> sign_bit y)
      else fround (value_of x * value_of y))"

definition js_div :: "jsnum \<Rightarrow> jsnum \<Rightarrow> jsnum" where
  "js_div x y =
     (if x = NaN \<or> y = NaN then NaN
      else if is_inf x then (if is_inf y then NaN else inf_of (sign_bit x \<noteq> sign_bit y))
      else if is_inf y then zero_of (sign_bit x \<noteq> sign_bit y)
      else if is_zero y then (if is_zero x then NaN else inf_of (sign_bit x \<noteq> sign_bit y))
      else if is_zero x then zero_of (sign_bit x \<noteq> sign_bit y)
      else fround (value_of x / value_of y))"

text \<open>
  The comparisons; each is false when an operand is \<open>NaN\<close>, and the two zeros compare
  equal.
\<close>

definition js_lt :: "jsnum \<Rightarrow> jsnum \<Rightarrow> bool" where
  "js_lt x y =
     (x \<noteq> NaN \<and> y \<noteq> NaN
      \<and> (if x = NInf then y \<noteq> NInf
          else if y = PInf then x \<noteq> PInf
          else if x = PInf \<or> y = NInf then False
          else value_of x < value_of y))"

definition js_gt :: "jsnum \<Rightarrow> jsnum \<Rightarrow> bool" where
  "js_gt x y = js_lt y x"

definition js_ge :: "jsnum \<Rightarrow> jsnum \<Rightarrow> bool" where
  "js_ge x y = (x \<noteq> NaN \<and> y \<noteq> NaN \<and> \<not> js_lt x y)"

text \<open>
  \<open>Math.min\<close> of two numbers (the negative zero counts as the smaller zero),
  \<open>Math.abs\<close>, and \<open>Math.round\<close>, which gives the nearest integer, the larger on a tie,
  and the negative zero for a number below zero and not below \<open>-0.5\<close>.
\<close>

definition Math_min :: "jsnum \<Rightarrow> jsnum \<Rightarrow> jsnum" where
  "Math_min x y =
     (if x = NaN \<or> y = NaN then NaN
      else if js_lt y x then y
      else if js_lt x y then x
      else if is_zero x \<and> is_zero y \<and> (x = NegZero \<or> y = NegZero) then NegZero
      else x)"

fun Math_abs :: "jsnum \<Rightarrow> jsnum" where
  "Math_abs (Fin a) = Fin \<bar>a\<bar>"
| "Math_abs NegZero = Fin 0"
| "Math_abs PInf = PInf"
| "Math_abs NInf = PInf"
| "Math_abs NaN = NaN"

fun Math_round :: "jsnum \<Rightarrow> jsnum" where
  "Math_round (Fin a) = (if a < 0 \<and> - (1 / 2) \<le> a then NegZero else Fin (of_int \<lfloor>a + 1 / 2\<rfloor>))"
| "Math_round x = x"

text \<open>
  The text of a number (\<open>String(n)\<close>, a template literal, \<open>JSON.stringify\<close>): the decimal
  digits of an integer below \<open>10^21\<close> in size, \<open>0\<close> for either zero, and the names of the
  special values. \<open>digits\<close> stands for the text JavaScript prints for any other number.
\<close>

definition Number_toString :: "(real \<Rightarrow> string) \<Rightarrow> jsnum \<Rightarrow> string" where
  "Number_toString digits x =
     (case x of
        NaN \<Rightarrow> ''NaN''
      | PInf \<Rightarrow> ''Infinity''
      | NInf \<Rightarrow> ''-Infinity''
      | NegZero \<Rightarrow> ''0''
      | Fin r \<Rightarrow> (if of_int \<lfloor>r\<rfloor> = r \<and> \<bar>r\<bar> < 10 ^ 21 then show_int \<lfloor>r\<rfloor> else digits r))"

section \<open>JSON values\<close>

text \<open>
  The values \<open>JSON.parse\<close> returns and \<open>JSON.stringify\<close> accepts. \<open>JObj\<close> lists the
  own enumerable properties of an object in the order in which JavaScript enumerates
  them.
\<close>

datatype json =
    JNull
  | JBool bool
  | JNum jsnum
  | JStr string
  | JArr "json list"
  | JObj "(string \<times> json) list"

subsection \<open>Serialisation\<close>

text \<open>
  The quoting of a string (\<open>QuoteJSONString\<close>): the quote, the backslash and the
  control characters are escaped, a surrogate that stands alone is written as
  \<open>\udXXX\<close>, and every other character is written as it is.
\<close>

definition quote_char :: "char \<Rightarrow> string" where
  "quote_char c =
     (if c = dquote then [backslash, dquote]
      else if c = backslash then [backslash, backslash]
      else if c = CHR 0x08 then [backslash, CHR ''b'']
      else if c = CHR 0x0C then [backslash, CHR ''f'']
      else if c = LF then [backslash, CHR ''n'']
      else if c = CR then [backslash, CHR ''r'']
      else if c = CHR 0x09 then [backslash, CHR ''t'']
      else if (of_char c :: nat) < 32
        then [backslash, CHR ''u'', CHR ''0'', CHR ''0'',
              hex_digit ((of_char c :: nat) div 16), hex_digit ((of_char c :: nat) mod 16)]
      else [c])"

definition quote_surrogate :: "char \<Rightarrow> char \<Rightarrow> string" where
  "quote_surrogate b2 b3 =
     [backslash, CHR ''u'', CHR ''d'',
      hex_digit ((of_char b2 :: nat) mod 64 div 4),
      hex_digit ((of_char b2 :: nat) mod 4 * 4 + (of_char b3 :: nat) mod 64 div 16),
      hex_digit ((of_char b3 :: nat) mod 16)]"

fun quote_text :: "string \<Rightarrow> string" where
  "quote_text (c # b2 # b3 # cs) =
     (if c = CHR 0xED \<and> 160 \<le> (of_char b2 :: nat)
      then quote_surrogate b2 b3 @ quote_text cs
      else quote_char c @ quote_text (b2 # b3 # cs))"
| "quote_text (c # cs) = quote_char c @ quote_text cs"
| "quote_text [] = []"

definition quote_json :: "string \<Rightarrow> string" where
  "quote_json s = dquote # quote_text s @ [dquote]"

text \<open>
  \<open>JSON.stringify\<close> with no indentation. A finite number is written as its text, an
  infinity and \<open>NaN\<close> as \<open>null\<close>.
\<close>

fun JSON_stringify :: "(real \<Rightarrow> string) \<Rightarrow> json \<Rightarrow> string"
  and stringify_elems :: "(real \<Rightarrow> string) \<Rightarrow> json list \<Rightarrow> string list"
  and stringify_members :: "(real \<Rightarrow> string) \<Rightarrow> (string \<times> json) list \<Rightarrow> string list" where
  "JSON_stringify digits JNull = ''null''"
| "JSON_stringify digits (JBool b) = (if b then ''true'' else ''false'')"
| "JSON_stringify digits (JNum n) =
     (if n = NaN \<or> n = PInf \<or> n = NInf then ''null'' else Number_toString digits n)"
| "JSON_stringify digits (JStr s) = quote_json s"
| "JSON_stringify digits (JArr xs) = ''['' @ join_with '','' (stringify_elems digits xs) @ '']''"
| "JSON_stringify digits (JObj ps) = ''{'' @ join_with '','' (stringify_members digits ps) @ ''}''"
| "stringify_elems digits [] = []"
| "stringify_elems digits (x # xs) = JSON_stringify digits x # stringify_elems digits xs"
| "stringify_members digits [] = []"
| "stringify_members digits (p # ps) =
     (quote_json (fst p) @ '':'' @ JSON_stringify digits (snd p)) # stringify_members digits ps"

subsection \<open>Object spread\<close>

text \<open>
  An array index is the canonical decimal form of an integer below \<open>2^32 - 1\<close>. An
  object enumerates its array-index keys first, in ascending numeric order, and then
  its other string keys in the order of their creation.
\<close>

definition is_array_index :: "string \<Rightarrow> bool" where
  "is_array_index k =
     (k \<noteq> [] \<and> list_all is_digit k \<and> (length k = 1 \<or> hd k \<noteq> CHR ''0'')
      \<and> read_nat k < 4294967295)"

fun insert_index :: "string \<Rightarrow> json \<Rightarrow> (string \<times> json) list \<Rightarrow> (string \<times> json) list" where
  "insert_index k v [] = [(k, v)]"
| "insert_index k v (p # ps) =
     (if is_array_index (fst p) \<and> read_nat (fst p) < read_nat k
      then p # insert_index k v ps
      else (k, v) # p # ps)"

text \<open>
  \<open>CreateDataProperty\<close>: an existing key keeps its place and takes the new value; a new
  key is added where the enumeration order puts it.
\<close>

definition CreateDataProperty :: "(string \<times> json) list \<Rightarrow> string \<Rightarrow> json \<Rightarrow> (string \<times> json) list" where
  "CreateDataProperty ps k v =
     (if k \<in> set (map fst ps) then map (\<lambda>p. if fst p = k then (k, v) else p) ps
      else if is_array_index k then insert_index k v ps
      else ps @ [(k, v)])"

text \<open>
  The own enumerable properties a spread element \<open>...x\<close> copies: those of an object,
  the indexed elements of an array, the indexed code units of a string, and none for
  \<open>null\<close>, a boolean or a number.
\<close>

fun own_properties :: "json \<Rightarrow> (string \<times> json) list" where
  "own_properties (JObj ps) = ps"
| "own_properties (JArr xs) = zip (map show_nat [0..<length xs]) xs"
| "own_properties (JStr s) =
     zip (map show_nat [0..<length (code_units s)]) (map JStr (code_units s))"
| "own_properties _ = []"

definition CopyDataProperties :: "(string \<times> json) list \<Rightarrow> json \<Rightarrow> (string \<times> json) list" where
  "CopyDataProperties target source =
     fold (\<lambda>p t. CreateDataProperty t (fst p) (snd p)) (own_properties source) target"

text \<open>The object literal \<open>{ ...defaultValue, ...parsed }\<close>.\<close>

definition spread2 :: "json \<Rightarrow> json \<Rightarrow> json" where
  "spread2 defaultValue parsed =
     JObj (CopyDataProperties (CopyDataProperties [] defaultValue) parsed)"

text \<open>
  \<open>typeof defaultValue === 'object' && defaultValue !== null && !Array.isArray(defaultValue)\<close>
\<close>

fun is_plain_object :: "json \<Rightarrow> bool" where
  "is_plain_object (JObj ps) = True"
| "is_plain_object _ = False"

text \<open>
  The expression both the initial load and the storage-event handler apply to a parsed
  value: \<open>isObject(defaultValue) ? { ...defaultValue, ...parsed } : parsed\<close>.
\<close>

definition merge_parsed :: "json \<Rightarrow> json \<Rightarrow> json" where
  "merge_parsed defaultValue parsed =
     (if is_plain_object defaultValue then spread2 defaultValue parsed else parsed)"

section \<open>The persistent state container\<close>

subsection \<open>The browser: a key-value store, a timer table and a clock\<close>

text \<open>
  A pending timer holds what its callback closes over: the storage key and the value
  \<open>saveToStorage\<close> was called with.
\<close>

record timer =
  tid :: nat
  due :: nat
  tkey :: string
  tvalue :: json

text \<open>
  \<open>items\<close> are the entries of the store the container uses; \<open>rejects k v\<close> says that
  \<open>setItem(k, v)\<close> throws (storage disabled, quota exceeded). \<open>writes\<close> is a history
  of the \<open>setItem\<close> calls made, kept to count them; no operation reads it. \<open>now\<close> is
  the clock in milliseconds and \<open>next_id\<close> the next timer handle, which is positive and
  never reused. \<open>number_text\<close> is the text the engine prints for a number that is not an
  integer below \<open>10^21\<close>.
\<close>

record env =
  window_defined :: bool
  items :: "string \<Rightarrow> string option"
  rejects :: "string \<Rightarrow> string \<Rightarrow> bool"
  writes :: "(string \<times> string) list"
  timers :: "timer list"
  next_id :: nat
  now :: nat
  number_text :: "real \<Rightarrow> string"

definition getItem :: "env \<Rightarrow> string \<Rightarrow> string option" where
  "getItem e k = items e k"

text \<open>\<open>setItem\<close> returns whether it threw, and the browser afterwards.\<close>

definition setItem :: "env \<Rightarrow> string \<Rightarrow> string \<Rightarrow> bool \<times> env" where
  "setItem e k v =
     (let e' = e\<lparr>writes := writes e @ [(k, v)]\<rparr>
      in if rejects e k v then (True, e') else (False, e'\<lparr>items := (items e)(k \<mapsto> v)\<rparr>))"

definition removeItem :: "env \<Rightarrow> string \<Rightarrow> env" where
  "removeItem e k = e\<lparr>items := (items e)(k := None)\<rparr>"

definition setTimeout :: "env \<Rightarrow> string \<Rightarrow> json \<Rightarrow> nat \<Rightarrow> nat \<times> env" where
  "setTimeout e k v delay =
     (next_id e,
      e\<lparr>timers := timers e @ [\<lparr>tid = next_id e, due = now e + delay, tkey = k, tvalue = v\<rparr>],
        next_id := Suc (next_id e)\<rparr>)"

definition clearTimeout :: "env \<Rightarrow> nat \<Rightarrow> env" where
  "clearTimeout e i = e\<lparr>timers := filter (\<lambda>t. tid t \<noteq> i) (timers e)\<rparr>"

text \<open>
  The callback \<open>saveToStorage\<close> hands to \<open>setTimeout\<close>:
  \<open>try { storage.setItem(key, JSON.stringify(value)) } catch { console.warn(...) }\<close>.
\<close>

definition fire :: "timer \<Rightarrow> env \<Rightarrow> env" where
  "fire t e = snd (setItem e (tkey t) (JSON_stringify (number_text e) (tvalue t)))"

text \<open>
  Time passing: the clock moves on by \<open>d\<close> milliseconds and every timer that is due by
  then runs, the earliest first, and leaves the table.
\<close>

definition advance :: "nat \<Rightarrow> env \<Rightarrow> env" where
  "advance d e =
     (let t' = now e + d;
          ready = filter (\<lambda>t. due t \<le> t') (timers e);
          waiting = filter (\<lambda>t. \<not> due t \<le> t') (timers e)
      in fold fire (sort_key due ready) (e\<lparr>now := t', timers := waiting\<rparr>))"

subsection \<open>The hook\<close>

datatype storage_type = localStorage | sessionStorage

text \<open>
  One instance of \<open>usePersistentState\<close>: its options, the \<open>storage\<close> manager its latest
  render got (\<open>False\<close> for \<open>null\<close>), the React state, the two refs, whether its
  storage-event listener is registered, and whether it has been unmounted.
\<close>

record container =
  key :: string
  defaultValue :: json
  debounceMs :: nat
  storageType :: storage_type
  storage :: bool
  state :: json
  debounceRef :: "nat option"
  isInitializedRef :: bool
  listening :: bool
  unmounted :: bool

text \<open>
  \<open>getStorageManager\<close>: without a window there is no storage; otherwise a throwaway
  entry is written and removed, and a throw means no storage.
\<close>

definition probe_entry :: "string \<times> string" where
  "probe_entry = (''__storage_test__'', ''test'')"

definition getStorageManager :: "env \<Rightarrow> bool \<times> env" where
  "getStorageManager e =
     (if \<not> window_defined e then (False, e)
      else (case setItem e ''__storage_test__'' ''test'' of
              (True, e') \<Rightarrow> (False, e')
            | (False, e') \<Rightarrow> (True, removeItem e' ''__storage_test__'')))"

text \<open>
  The first render. \<open>parse\<close> stands for \<open>JSON.parse\<close>, with \<open>None\<close> for a thrown
  \<open>SyntaxError\<close>. The options' \<open>debounceMs\<close> and \<open>storageType\<close> default to 300 and
  \<open>localStorage\<close>.
\<close>

definition initial_state :: "(string \<Rightarrow> json option) \<Rightarrow> bool \<Rightarrow> env \<Rightarrow> string \<Rightarrow> json \<Rightarrow> json" where
  "initial_state parse st e k dv =
     (if \<not> st then dv
      else (case getItem e k of
              None \<Rightarrow> dv
            | Some stored \<Rightarrow>
                (case parse stored of
                   None \<Rightarrow> dv
                 | Some parsed \<Rightarrow> merge_parsed dv parsed)))"

definition usePersistentState ::
  "(string \<Rightarrow> json option) \<Rightarrow> string \<Rightarrow> json \<Rightarrow> nat option \<Rightarrow> storage_type option \<Rightarrow> env
     \<Rightarrow> container \<times> env" where
  "usePersistentState parse k dv dms stype e =
     (let (st, e') = getStorageManager e
      in (\<lparr>key = k, defaultValue = dv,
           debounceMs = (case dms of None \<Rightarrow> 300 | Some d \<Rightarrow> d),
           storageType = (case stype of None \<Rightarrow> localStorage | Some t \<Rightarrow> t),
           storage = st,
           state = initial_state parse st e' k dv,
           debounceRef = None, isInitializedRef = False, listening = False,
           unmounted = False\<rparr>, e'))"

text \<open>
  Every later render runs the body of the hook again: \<open>getStorageManager\<close> probes the
  store once more, the callbacks are made anew around the storage manager it returns,
  and the effect that registers the storage-event listener follows that manager.
\<close>

definition render :: "container \<Rightarrow> env \<Rightarrow> container \<times> env" where
  "render c e =
     (let (st, e') = getStorageManager e
      in (c\<lparr>storage := st,
            listening := (isInitializedRef c \<and> st \<and> storageType c = localStorage)\<rparr>, e'))"

text \<open>\<open>if (debounceRef.current)\<close>: a handle is set and is not 0.\<close>

definition truthy :: "nat option \<Rightarrow> bool" where
  "truthy r = (case r of None \<Rightarrow> False | Some i \<Rightarrow> i \<noteq> 0)"

definition cancel_pending :: "container \<Rightarrow> env \<Rightarrow> env" where
  "cancel_pending c e = (if truthy (debounceRef c) then clearTimeout e (the (debounceRef c)) else e)"

definition saveToStorage :: "container \<Rightarrow> env \<Rightarrow> json \<Rightarrow> container \<times> env" where
  "saveToStorage c e v =
     (if \<not> storage c then (c, e)
      else (let e1 = cancel_pending c e;
                (i, e2) = setTimeout e1 (key c) v (debounceMs c)
            in (c\<lparr>debounceRef := Some i\<rparr>, e2)))"

text \<open>The argument of \<open>setPersistentState\<close>: a value, or a function of the previous state.\<close>

datatype updater = Value json | Producer "json \<Rightarrow> json"

fun next_state :: "updater \<Rightarrow> json \<Rightarrow> json" where
  "next_state (Value v) prev = v"
| "next_state (Producer f) prev = f prev"

definition setPersistentState :: "container \<Rightarrow> env \<Rightarrow> updater \<Rightarrow> container \<times> env" where
  "setPersistentState c e newValue =
     (let nextState = next_state newValue (state c);
          (c1, e1) = (if isInitializedRef c then saveToStorage c e nextState else (c, e))
      in (c1\<lparr>state := nextState\<rparr>, e1))"

definition clearStoredValue :: "container \<Rightarrow> env \<Rightarrow> env" where
  "clearStoredValue c e =
     (if \<not> storage c then e else removeItem (cancel_pending c e) (key c))"

definition resetToDefault :: "container \<Rightarrow> env \<Rightarrow> container \<times> env" where
  "resetToDefault c e = (c\<lparr>state := defaultValue c\<rparr>, clearStoredValue c e)"

text \<open>
  The effects of the first render mark the container initialized and, with
  \<open>localStorage\<close> at hand, register the storage-event listener; the cleanups cancel
  the timer and remove the listener.
\<close>

definition mount :: "container \<Rightarrow> container" where
  "mount c = c\<lparr>isInitializedRef := True,
              listening := (storage c \<and> storageType c = localStorage)\<rparr>"

definition unmount :: "container \<Rightarrow> env \<Rightarrow> container \<times> env" where
  "unmount c e = (c\<lparr>listening := False, unmounted := True\<rparr>, cancel_pending c e)"

text \<open>
  \<open>handleStorageChange\<close>, for a storage event with the given \<open>key\<close> and \<open>newValue\<close>
  (each may be \<open>null\<close>); \<open>sets_state\<close> says whether it reaches its \<open>setState\<close>.
\<close>

definition handleStorageChange ::
  "(string \<Rightarrow> json option) \<Rightarrow> container \<Rightarrow> string option \<Rightarrow> string option \<Rightarrow> container" where
  "handleStorageChange parse c ekey newValue =
     (if ekey = Some (key c) \<and> newValue \<noteq> None
      then (case parse (the newValue) of
              None \<Rightarrow> c
            | Some parsed \<Rightarrow> c\<lparr>state := merge_parsed (defaultValue c) parsed\<rparr>)
      else c)"

definition sets_state ::
  "(string \<Rightarrow> json option) \<Rightarrow> container \<Rightarrow> string option \<Rightarrow> string option \<Rightarrow> bool" where
  "sets_state parse c ekey newValue =
     (ekey = Some (key c) \<and> newValue \<noteq> None \<and> parse (the newValue) \<noteq> None)"

subsection \<open>Runs\<close>

text \<open>
  What happens to a container: its effects run (\<open>Mount\<close>), a caller updates, clears
  or resets it, another tab writes to the store, time passes, it is unmounted. A call
  of \<open>setState\<close> is followed by a render; a container that has been unmounted takes no
  state and renders no more.
\<close>

datatype event =
    Mount
  | Update updater
  | Clear
  | Reset
  | StorageEvent "string option" "string option"
  | Tick nat
  | Unmount

fun step :: "(string \<Rightarrow> json option) \<Rightarrow> container \<times> env \<Rightarrow> event \<Rightarrow> container \<times> env" where
  "step parse (c, e) Mount = (mount c, e)"
| "step parse (c, e) (Update u) =
     (if unmounted c then (c, e)
      else (let (c1, e1) = setPersistentState c e u in render c1 e1))"
| "step parse (c, e) Clear = (c, clearStoredValue c e)"
| "step parse (c, e) Reset =
     (if unmounted c then (c, clearStoredValue c e)
      else (let (c1, e1) = resetToDefault c e in render c1 e1))"
| "step parse (c, e) (StorageEvent k v) =
     (if listening c \<and> sets_state parse c k v
      then render (handleStorageChange parse c k v) e
      else (c, e))"
| "step parse (c, e) (Tick d) = (c, advance d e)"
| "step parse (c, e) Unmount = unmount c e"

definition run :: "(string \<Rightarrow> json option) \<Rightarrow> container \<times> env \<Rightarrow> event list \<Rightarrow> container \<times> env" where
  "run parse s evs = foldl (step parse) s evs"

text \<open>
  A burst of updates: a first update, then further updates each after a pause.
\<close>

fun burst :: "updater \<Rightarrow> (nat \<times> updater) list \<Rightarrow> event list" where
  "burst u [] = [Update u]"
| "burst u ((gap, u') # rest) = Update u # Tick gap # burst u' rest"

text \<open>The state a burst of updates leads to, from the state \<open>s\<close>.\<close>

fun burst_state :: "json \<Rightarrow> updater \<Rightarrow> (nat \<times> updater) list \<Rightarrow> json" where
  "burst_state s u [] = next_state u s"
| "burst_state s u ((gap, u') # rest) = burst_state (next_state u s) u' rest"

text \<open>
  The probe of \<open>getStorageManager\<close> finds storage in this browser.
\<close>

definition probe_ok :: "env \<Rightarrow> bool" where
  "probe_ok e = (window_defined e \<and> \<not> rejects e ''__storage_test__'' ''test'')"

text \<open>
  What holds of the timer table in every state a container reaches: each pending timer
  is the one \<open>debounceRef\<close> holds, handles are positive, distinct and below \<open>next_id\<close>,
  only a container with storage has a timer, and a container has storage only in a
  browser where the probe finds it.
\<close>

definition consistent :: "container \<Rightarrow> env \<Rightarrow> bool" where
  "consistent c e =
     (list_all (\<lambda>t. debounceRef c = Some (tid t) \<and> tkey t = key c) (timers e)
      \<and> distinct (map tid (timers e))
      \<and> 0 < next_id e
      \<and> (case debounceRef c of None \<Rightarrow> True | Some i \<Rightarrow> 0 < i \<and> i < next_id e)
      \<and> (timers e \<noteq> [] \<longrightarrow> storage c)
      \<and> (storage c \<longrightarrow> probe_ok e))"

text \<open>
  A write is armed: the one pending timer is the one \<open>debounceRef\<close> holds, it is due
  \<open>debounceMs\<close> from now and it will write the current state under the container's key.
\<close>

definition armed :: "container \<Rightarrow> env \<Rightarrow> bool" where
  "armed c e = (\<exists>i. debounceRef c = Some i \<and>
     timers e = [\<lparr>tid = i, due = now e + debounceMs c, tkey = key c, tvalue = state c\<rparr>])"


subsection \<open>The calculator's container\<close>

text \<open>
  \<open>useCalculatorState\<close> binds the key \<open>calculator-values\<close> with a debounce of 500 ms
  in \<open>localStorage\<close>; \<open>updateValue\<close> and \<open>updateValues\<close> are the producers
  \<open>prev => ({ ...prev, [key]: value })\<close> and \<open>prev => ({ ...prev, ...updates })\<close>.
\<close>

definition STORAGE_KEY :: string where
  "STORAGE_KEY = ''calculator-values''"

definition DEBOUNCE_MS :: nat where
  "DEBOUNCE_MS = 500"

definition useCalculatorState :: "(string \<Rightarrow> json option) \<Rightarrow> json \<Rightarrow> env \<Rightarrow> container \<times> env" where
  "useCalculatorState parse defaultValues e =
     usePersistentState parse STORAGE_KEY defaultValues (Some DEBOUNCE_MS) (Some localStorage) e"

definition updateValue :: "string \<Rightarrow> jsnum \<Rightarrow> updater" where
  "updateValue k v = Producer (\<lambda>prev. JObj (CreateDataProperty (CopyDataProperties [] prev) k (JNum v)))"

definition updateValues :: "json \<Rightarrow> updater" where
  "updateValues updates = Producer (\<lambda>prev. spread2 prev updates)"

text \<open>\<open>JSON.stringify(values) !== JSON.stringify(defaultValues)\<close>\<close>

definition hasUnsavedChanges :: "(real \<Rightarrow> string) \<Rightarrow> json \<Rightarrow> json \<Rightarrow> bool" where
  "hasUnsavedChanges digits values defaultValues =
     (JSON_stringify digits values \<noteq> JSON_stringify digits defaultValues)"

text \<open>The default values the application passes to \<open>useCalculatorState\<close>.\<close>

definition defaultValues :: json where
  "defaultValues = JObj
     [(''localCustomers'', JNum (Fin 100)), (''touristCustomers'', JNum (Fin 50)),
      (''localFrequency'', JNum (Fin 7)), (''touristFrequency'', JNum (Fin 30)),
      (''targetDishes'', JNum (Fin 200)), (''avgGroupSize'', JNum (Fin 3)),
      (''dishesPerPerson'', JNum (Fin 2)), (''walkInDaily'', JNum (Fin 20)),
      (''weekdayShowUp'', JNum (Fin 85)), (''weekendShowUp'', JNum (Fin 75)),
      (''noShowRate'', JNum (Fin 15))]"

subsection \<open>Two browsers to run the container in\<close>

text \<open>
  \<open>unprinted\<close> stands in for the text of the numbers that are not integers, where
  only integers are printed. A fresh browser has an empty store that accepts every
  write; the other one throws on every \<open>setItem\<close> (storage disabled). \<open>no_parse\<close> is
  a \<open>JSON.parse\<close> that is never asked, for runs that read nothing from the store.
\<close>

definition unprinted :: "real \<Rightarrow> string" where
  "unprinted r = []"

definition fresh_env :: env where
  "fresh_env = \<lparr>window_defined = True, items = (\<lambda>k. None), rejects = (\<lambda>k v. False),
                 writes = [], timers = [], next_id = 1, now = 0, number_text = unprinted\<rparr>"

definition disabled_env :: env where
  "disabled_env = fresh_env\<lparr>rejects := (\<lambda>k v. True)\<rparr>"

definition no_parse :: "string \<Rightarrow> json option" where
  "no_parse s = None"

definition mounted :: "env \<Rightarrow> container \<times> env" where
  "mounted e = step no_parse (useCalculatorState no_parse defaultValues e) Mount"

subsection \<open>A stored value from another version\<close>

text \<open>
  A value an earlier or later version of the application may have left under the
  calculator's key: one known field and one field the defaults do not have.
  \<open>parse_only v\<close> is \<open>JSON.parse\<close> as far as the text of \<open>v\<close> goes.
\<close>

definition legacy_value :: json where
  "legacy_value = JObj [(''targetDishes'', JNum (Fin 300)), (''tableCount'', JNum (Fin 12))]"

definition parse_only :: "json \<Rightarrow> string \<Rightarrow> json option" where
  "parse_only v s = (if s = JSON_stringify unprinted v then Some v else None)"

definition legacy_env :: env where
  "legacy_env = fresh_env\<lparr>items := (\<lambda>k. if k = STORAGE_KEY then Some (JSON_stringify unprinted legacy_value) else None)\<rparr>"

subsection \<open>Values to compare with the defaults\<close>

text \<open>
  \<open>reordered_values\<close> are the defaults with the first two fields written in the other
  order, as a caller of \<open>setValues\<close> may pass them.
\<close>

definition reordered_values :: json where
  "reordered_values = JObj
     [(''touristCustomers'', JNum (Fin 50)), (''localCustomers'', JNum (Fin 100)),
      (''localFrequency'', JNum (Fin 7)), (''touristFrequency'', JNum (Fin 30)),
      (''targetDishes'', JNum (Fin 200)), (''avgGroupSize'', JNum (Fin 3)),
      (''dishesPerPerson'', JNum (Fin 2)), (''walkInDaily'', JNum (Fin 20)),
      (''weekdayShowUp'', JNum (Fin 85)), (''weekendShowUp'', JNum (Fin 75)),
      (''noShowRate'', JNum (Fin 15))]"

section \<open>The CSV encoder\<close>

text \<open>
  The value of a cell: \<open>string | number | boolean | null | undefined\<close>, or a member
  that every object inherits from \<open>Object.prototype\<close> (a function, or the prototype
  itself), which is held as the text \<open>String\<close> gives for it. A row is a plain object,
  given by its own properties in enumeration order.
\<close>

datatype cell = CNull | CUndefined | CStr string | CNum jsnum | CBool bool | CNative string

type_synonym CsvRow = "(string \<times> cell) list"

record CsvSection =
  title :: string
  headers :: "string list"
  rows :: "CsvRow list"

text \<open>
  \<open>row[header]\<close>: the row's own property of that name; failing that the member of that
  name of \<open>Object.prototype\<close>, where \<open>native k\<close> is its text; failing that
  \<open>undefined\<close>.
\<close>

definition prototype_members :: "string list" where
  "prototype_members =
     [''constructor'', ''__defineGetter__'', ''__defineSetter__'', ''hasOwnProperty'',
      ''__lookupGetter__'', ''__lookupSetter__'', ''isPrototypeOf'', ''propertyIsEnumerable'',
      ''toString'', ''valueOf'', ''__proto__'', ''toLocaleString'']"

definition get_cell :: "(string \<Rightarrow> string) \<Rightarrow> CsvRow \<Rightarrow> string \<Rightarrow> cell" where
  "get_cell native row k =
     (case map_of row k of
        Some v \<Rightarrow> v
      | None \<Rightarrow> if k \<in> set prototype_members then CNative (native k) else CUndefined)"

text \<open>\<open>String(value)\<close> for a value that is neither \<open>null\<close> nor \<open>undefined\<close>.\<close>

fun String_of :: "(real \<Rightarrow> string) \<Rightarrow> cell \<Rightarrow> string" where
  "String_of digits (CStr s) = s"
| "String_of digits (CNum n) = Number_toString digits n"
| "String_of digits (CBool b) = (if b then ''true'' else ''false'')"
| "String_of digits (CNative s) = s"
| "String_of digits CNull = ''null''"
| "String_of digits CUndefined = ''undefined''"

text \<open>\<open>s.includes(c)\<close> for a single character, and \<open>s.replace(/"/g, '""')\<close>.\<close>

definition includes_char :: "string \<Rightarrow> char \<Rightarrow> bool" where
  "includes_char s c = (c \<in> set s)"

definition double_quotes :: "string \<Rightarrow> string" where
  "double_quotes s = concat (map (\<lambda>c. if c = dquote then [dquote, dquote] else [c]) s)"

definition formatCsvValue :: "(real \<Rightarrow> string) \<Rightarrow> cell \<Rightarrow> string" where
  "formatCsvValue digits v =
     (if v = CNull \<or> v = CUndefined then []
      else (let stringValue = String_of digits v
            in if includes_char stringValue CHR '','' \<or> includes_char stringValue dquote
                  \<or> includes_char stringValue LF \<or> includes_char stringValue CR
               then dquote # double_quotes stringValue @ [dquote]
               else stringValue))"

subsection \<open>Sections to text\<close>

text \<open>
  One pass of the \<open>forEach\<close> over the sections: \<open>n\<close> is \<open>sections.length\<close>, \<open>i\<close> the
  index of the section at hand and \<open>csvLines\<close> the lines pushed so far.
\<close>

definition push_row ::
  "(real \<Rightarrow> string) \<Rightarrow> (string \<Rightarrow> string) \<Rightarrow> string list \<Rightarrow> CsvRow \<Rightarrow> string list \<Rightarrow> string list" where
  "push_row digits native hs row csvLines =
     (if hs \<noteq> []
      then csvLines @ [join_with '','' (map (\<lambda>header. formatCsvValue digits (get_cell native row header)) hs)]
      else csvLines @ [join_with '','' (map (formatCsvValue digits) (map snd row))])"

definition push_section ::
  "(real \<Rightarrow> string) \<Rightarrow> (string \<Rightarrow> string) \<Rightarrow> nat \<Rightarrow> nat \<Rightarrow> CsvSection \<Rightarrow> string list \<Rightarrow> string list" where
  "push_section digits native n sectionIndex s csvLines =
     (let l1 = (if title s \<noteq> [] then csvLines @ [formatCsvValue digits (CStr (title s)), []] else csvLines);
          l2 = (if headers s \<noteq> []
                then l1 @ [join_with '','' (map (\<lambda>h. formatCsvValue digits (CStr h)) (headers s))]
                else l1);
          l3 = fold (push_row digits native (headers s)) (rows s) l2
      in if sectionIndex < n - 1 then l3 @ [[]] else l3)"

fun sections_loop ::
  "(real \<Rightarrow> string) \<Rightarrow> (string \<Rightarrow> string) \<Rightarrow> nat \<Rightarrow> nat \<Rightarrow> CsvSection list \<Rightarrow> string list \<Rightarrow> string list" where
  "sections_loop digits native n i [] csvLines = csvLines"
| "sections_loop digits native n i (s # ss) csvLines =
     sections_loop digits native n (Suc i) ss (push_section digits native n i s csvLines)"

definition sectionsToCSV :: "(real \<Rightarrow> string) \<Rightarrow> (string \<Rightarrow> string) \<Rightarrow> CsvSection list \<Rightarrow> string" where
  "sectionsToCSV digits native sections =
     join_with [LF] (sections_loop digits native (length sections) 0 sections [])"

text \<open>
  The same text as the specification describes it: the lines of each section, and one
  blank line between two sections.
\<close>

definition row_line :: "(real \<Rightarrow> string) \<Rightarrow> (string \<Rightarrow> string) \<Rightarrow> string list \<Rightarrow> CsvRow \<Rightarrow> string" where
  "row_line digits native hs row =
     join_with '',''
       (if hs \<noteq> [] then map (\<lambda>h. formatCsvValue digits (get_cell native row h)) hs
        else map (\<lambda>p. formatCsvValue digits (snd p)) row)"

definition header_line :: "(real \<Rightarrow> string) \<Rightarrow> string list \<Rightarrow> string" where
  "header_line digits hs = join_with '','' (map (\<lambda>h. formatCsvValue digits (CStr h)) hs)"

definition section_lines :: "(real \<Rightarrow> string) \<Rightarrow> (string \<Rightarrow> string) \<Rightarrow> CsvSection \<Rightarrow> string list" where
  "section_lines digits native s =
     (if title s \<noteq> [] then [formatCsvValue digits (CStr (title s)), []] else [])
     @ (if headers s \<noteq> [] then [header_line digits (headers s)] else [])
     @ map (row_line digits native (headers s)) (rows s)"

fun sections_lines :: "(real \<Rightarrow> string) \<Rightarrow> (string \<Rightarrow> string) \<Rightarrow> CsvSection list \<Rightarrow> string list" where
  "sections_lines digits native [] = []"
| "sections_lines digits native [s] = section_lines digits native s"
| "sections_lines digits native (s # t # ss) =
     section_lines digits native s @ [[]] @ sections_lines digits native (t # ss)"

text \<open>The text a cell stands for: nothing for \<open>null\<close> and \<open>undefined\<close>.\<close>

definition cell_text :: "(real \<Rightarrow> string) \<Rightarrow> cell \<Rightarrow> string" where
  "cell_text digits v = (if v = CNull \<or> v = CUndefined then [] else String_of digits v)"

subsection \<open>Reading a field and a record back\<close>

text \<open>
  The field rule of RFC 4180, to read back what the encoder writes: a field that
  opens with a quote runs to its closing quote, two quotes inside standing for one; any
  other field runs to the next comma or line break. The reader returns the field and
  the text after it, and \<open>None\<close> for a quoted field that is not closed.
\<close>

fun read_quoted :: "string \<Rightarrow> (string \<times> string) option" where
  "read_quoted [] = None"
| "read_quoted [c] = (if c = dquote then Some ([], []) else None)"
| "read_quoted (c # d # ds) =
     (if c = dquote
      then (if d = dquote
            then map_option (\<lambda>p. (dquote # fst p, snd p)) (read_quoted ds)
            else Some ([], d # ds))
      else map_option (\<lambda>p. (c # fst p, snd p)) (read_quoted (d # ds)))"

definition is_break :: "char \<Rightarrow> bool" where
  "is_break c = (c = CHR '','' \<or> c = LF \<or> c = CR)"

definition csv_read_field :: "string \<Rightarrow> (string \<times> string) option" where
  "csv_read_field s =
     (case s of
        [] \<Rightarrow> Some ([], [])
      | c # cs \<Rightarrow>
          if c = dquote then read_quoted cs
          else Some (takeWhile (\<lambda>x. \<not> is_break x) s, dropWhile (\<lambda>x. \<not> is_break x) s))"

text \<open>
  A record is its fields up to the first line break outside quotes or the end of the
  text, with a comma between two fields; \<open>n\<close> bounds the number of fields read, and
  the text is not a record (\<open>None\<close>) where a quoted field is not closed or is followed
  by anything but a comma or a line break.
\<close>

fun read_fields :: "nat \<Rightarrow> string \<Rightarrow> string list option" where
  "read_fields 0 s = None"
| "read_fields (Suc n) s =
     (case csv_read_field s of
        None \<Rightarrow> None
      | Some (f, rest) \<Rightarrow>
          (case rest of
             [] \<Rightarrow> Some [f]
           | c # cs \<Rightarrow>
               if c = CHR '','' then map_option ((#) f) (read_fields n cs)
               else if c = LF \<or> c = CR then Some [f]
               else None))"

definition csv_read_record :: "string \<Rightarrow> string list option" where
  "csv_read_record s = read_fields (Suc (length s)) s"

subsection \<open>Example sections\<close>

text \<open>
  The text of the inherited members as V8 prints them. The example sections: one with
  a title, headers and a row whose fields are listed in another order than the headers,
  and one with neither title nor headers; a section that is its title alone; and a row
  with a quote and a comma in one cell, read under headers of which the last is no
  field of the row but a member of \<open>Object.prototype\<close>.
\<close>

definition native_text :: "string \<Rightarrow> string" where
  "native_text k =
     (if k = ''__proto__'' then ''[object Object]''
      else ''function '' @ (if k = ''constructor'' then ''Object'' else k) @ ''() { [native code] }'')"

definition example_sections :: "CsvSection list" where
  "example_sections =
     [\<lparr>title = ''Report'', headers = [''item'', ''value''],
        rows = [[(''value'', CNum (Fin 12)), (''item'', CStr ''rice, steamed'')],
                [(''item'', CStr ''tea'')]]\<rparr>,
      \<lparr>title = [], headers = [],
        rows = [[(''note'', CStr ''ok''), (''final'', CBool True)]]\<rparr>]"

definition title_only_sections :: "CsvSection list" where
  "title_only_sections = [\<lparr>title = ''T'', headers = [], rows = []\<rparr>]"

definition quoted_row :: CsvRow where
  "quoted_row = [(''note'', CStr (''6'' @ [dquote] @ '' pan, deep'')), (''count'', CNum (Fin 2))]"

definition quoted_headers :: "string list" where
  "quoted_headers = [''count'', ''note'', ''missing'', ''valueOf'']"

subsection \<open>Validation\<close>

text \<open>
  \<open>s.split(c)\<close> for a one-character separator, and \<open>s.includes(p)\<close>.
\<close>

fun split_on :: "char \<Rightarrow> string \<Rightarrow> string list" where
  "split_on sep [] = [[]]"
| "split_on sep (c # cs) =
     (if c = sep then [] # split_on sep cs
      else (case split_on sep cs of [] \<Rightarrow> [[c]] | x # xs \<Rightarrow> (c # x) # xs))"

fun includes_text :: "string \<Rightarrow> string \<Rightarrow> bool" where
  "includes_text [] p = (p = [])"
| "includes_text (c # cs) p = (take (length p) (c # cs) = p \<or> includes_text cs p)"

text \<open>
  \<open>s.trim()\<close> removes white space and line terminators from both ends. These are
  their code points in UTF-8: tab, line feed, vertical tab, form feed, carriage return,
  space, U+00A0, U+1680, U+2000 to U+200A, U+2028, U+2029, U+202F, U+205F, U+3000 and
  U+FEFF.
\<close>

definition whitespace :: "string list" where
  "whitespace =
     [[CHR 0x09], [CHR 0x0A], [CHR 0x0B], [CHR 0x0C], [CHR 0x0D], [CHR 0x20],
      [CHR 0xC2, CHR 0xA0], [CHR 0xE1, CHR 0x9A, CHR 0x80], [CHR 0xE2, CHR 0x80, CHR 0x80],
      [CHR 0xE2, CHR 0x80, CHR 0x81], [CHR 0xE2, CHR 0x80, CHR 0x82],
      [CHR 0xE2, CHR 0x80, CHR 0x83], [CHR 0xE2, CHR 0x80, CHR 0x84],
      [CHR 0xE2, CHR 0x80, CHR 0x85], [CHR 0xE2, CHR 0x80, CHR 0x86],
      [CHR 0xE2, CHR 0x80, CHR 0x87], [CHR 0xE2, CHR 0x80, CHR 0x88],
      [CHR 0xE2, CHR 0x80, CHR 0x89], [CHR 0xE2, CHR 0x80, CHR 0x8A],
      [CHR 0xE2, CHR 0x80, CHR 0xA8], [CHR 0xE2, CHR 0x80, CHR 0xA9],
      [CHR 0xE2, CHR 0x80, CHR 0xAF], [CHR 0xE2, CHR 0x81, CHR 0x9F],
      [CHR 0xE3, CHR 0x80, CHR 0x80], [CHR 0xEF, CHR 0xBB, CHR 0xBF]]"

text \<open>The length of the first of the sequences that the text starts with, or 0.\<close>

definition lead_len :: "string list \<Rightarrow> string \<Rightarrow> nat" where
  "lead_len seqs s =
     (case filter (\<lambda>w. w \<noteq> [] \<and> take (length w) s = w) seqs of
        [] \<Rightarrow> 0
      | w # ws \<Rightarrow> length w)"

function strip_leading :: "string list \<Rightarrow> string \<Rightarrow> string" where
  "strip_leading seqs s =
     (if lead_len seqs s = 0 then s else strip_leading seqs (drop (lead_len seqs s) s))"
  by pat_completeness auto
termination
proof (relation "measure (\<lambda>(seqs, s). length s)")
  show "wf (measure (\<lambda>(seqs, s). length s))" by simp
next
  fix seqs :: "string list" and s :: string
  assume a: "lead_len seqs s \<noteq> 0"
  then obtain w ws where f: "filter (\<lambda>w. w \<noteq> [] \<and> take (length w) s = w) seqs = w # ws"
    by (auto simp: lead_len_def split: list.splits)
  then have "w \<noteq> [] \<and> take (length w) s = w"
    by (metis (mono_tags, lifting) Cons_eq_filterD)
  then have "s \<noteq> []" by auto
  with a show "((seqs, drop (lead_len seqs s) s), (seqs, s)) \<in> measure (\<lambda>(seqs, s). length s)"
    by simp
qed

declare strip_leading.simps [simp del]

definition trim :: "string \<Rightarrow> string" where
  "trim s = rev (strip_leading (map rev whitespace) (rev (strip_leading whitespace s)))"

text \<open>
  \<open>(size / (1024 * 1024)).toFixed(2)\<close> for a size in bytes: the division by a power
  of two is exact, and \<open>toFixed\<close> rounds the hundredths, a half upwards.
\<close>

definition sizeInMB_toFixed2 :: "nat \<Rightarrow> string" where
  "sizeInMB_toFixed2 bytes =
     (let n = (200 * bytes + 1048576) div 2097152
      in show_nat (n div 100) @ ''.'' @ [digit_char (n div 10 mod 10), digit_char (n mod 10)])"

record validation =
  isValid :: bool
  warnings :: "string list"
  errors :: "string list"

text \<open>
  The text \<open>csvContent.includes\<close> looks for: the three characters U+00EF, U+00BF and
  U+00BD, as the source file has them.
\<close>

definition replacement_text :: string where
  "replacement_text = [CHR 0xC3, CHR 0xAF, CHR 0xC2, CHR 0xBF, CHR 0xC2, CHR 0xBD]"

text \<open>
  The column check: each non-blank line with its index among the non-blank lines,
  kept if its number of comma-separated fields is not that of the first.
\<close>

definition inconsistentLines :: "string list \<Rightarrow> (nat \<times> nat) list" where
  "inconsistentLines nonEmptyLines =
     (let firstLineColumns = length (split_on CHR '','' (hd nonEmptyLines))
      in filter (\<lambda>item. fst item \<noteq> firstLineColumns)
           (zip (map (\<lambda>line. length (split_on CHR '','' line)) nonEmptyLines)
                [0..<length nonEmptyLines]))"

definition validateCsvContent :: "string \<Rightarrow> validation" where
  "validateCsvContent csvContent =
     (let lines = split_on LF csvContent
      in if trim csvContent = []
         then \<lparr>isValid = False, warnings = [], errors = [''CSV content is empty'']\<rparr>
         else (let nonEmptyLines = filter (\<lambda>line. 0 < length (trim line)) lines;
                   w1 = (if 1 < length nonEmptyLines \<and> 0 < length (inconsistentLines nonEmptyLines)
                         then [''Inconsistent column counts found in lines: ''
                               @ join_with '', ''
                                   (map (\<lambda>item. show_nat (snd item + 1)) (inconsistentLines nonEmptyLines))]
                         else []);
                   w2 = (if includes_text csvContent replacement_text
                         then [''Potential encoding issues detected (replacement characters found)'']
                         else []);
                   w3 = (if 10 * 1048576 < length csvContent
                         then [''Large file size: '' @ sizeInMB_toFixed2 (length csvContent) @ ''MB'']
                         else [])
               in \<lparr>isValid = True, warnings = w1 @ w2 @ w3, errors = []\<rparr>))"

text \<open>
  A text with a blank second line, whose third line has one field where the first has
  two.
\<close>

definition blank_line_csv :: string where
  "blank_line_csv = ''a,b'' @ [LF] @ [LF] @ ''c''"

text \<open>A printable ASCII character other than the space.\<close>

definition plain :: "char \<Rightarrow> bool" where
  "plain c = (32 < (of_char c :: nat) \<and> (of_char c :: nat) < 127)"

section \<open>The export aggregator\<close>

text \<open>
  The calculator's values as the export reads them, by field. \<open>CalculationResults\<close> is
  declared in \<open>utils/calculations\<close>, which is not among the sources at hand; its
  fields here are the ones the export reads (its \<open>utilizationRate\<close> is named
  \<open>results_utilizationRate\<close>, apart from the field of the analysis).
\<close>

record CalculatorValues =
  localCustomers :: jsnum
  touristCustomers :: jsnum
  localFrequency :: jsnum
  touristFrequency :: jsnum
  targetDishes :: jsnum
  avgGroupSize :: jsnum
  dishesPerPerson :: jsnum
  walkInDaily :: jsnum
  weekdayShowUp :: jsnum
  weekendShowUp :: jsnum
  noShowRate :: jsnum

record CalculationResults =
  localActiveBase :: jsnum
  touristActiveBase :: jsnum
  localCapacity :: jsnum
  touristCapacity :: jsnum
  walkInCapacity :: jsnum
  totalCapacity :: jsnum
  groupsPerDay :: jsnum
  gap :: jsnum
  results_utilizationRate :: jsnum

record ExportMetadata =
  exportDate :: string
  exportTime :: string
  appName :: string
  version :: string
  timezone :: string

record AnalysisSummary =
  status :: string
  recommendation :: string
  utilizationRate :: jsnum
  capacityStatus :: string

record FullExportData =
  metadata :: ExportMetadata
  inputValues :: CalculatorValues
  calculatedResults :: CalculationResults
  analysis :: AnalysisSummary

subsection \<open>The analysis summary\<close>

text \<open>
  The texts of the two states, the two capacity states and the four recommendations,
  as the UTF-8 bytes of the source's Thai literals.
\<close>

definition status_exceeds :: string where \<comment> \<open>exceeds target\<close>
  "status_exceeds =
     [CHR 0xE0, CHR 0xB9, CHR 0x80, CHR 0xE0, CHR 0xB8, CHR 0x81, CHR 0xE0, CHR 0xB8, CHR 0xB4,
     CHR 0xE0, CHR 0xB8, CHR 0x99, CHR 0xE0, CHR 0xB9, CHR 0x80, CHR 0xE0, CHR 0xB8, CHR 0x9B,
     CHR 0xE0, CHR 0xB9, CHR 0x89, CHR 0xE0, CHR 0xB8, CHR 0xB2, CHR 0xE0, CHR 0xB8, CHR 0xAB,
     CHR 0xE0, CHR 0xB8, CHR 0xA1, CHR 0xE0, CHR 0xB8, CHR 0xB2, CHR 0xE0, CHR 0xB8, CHR 0xA2]"

definition capacity_sufficient :: string where \<comment> \<open>sufficient\<close>
  "capacity_sufficient =
     [CHR 0xE0, CHR 0xB9, CHR 0x80, CHR 0xE0, CHR 0xB8, CHR 0x9E, CHR 0xE0, CHR 0xB8, CHR 0xB5,
     CHR 0xE0, CHR 0xB8, CHR 0xA2, CHR 0xE0, CHR 0xB8, CHR 0x87, CHR 0xE0, CHR 0xB8, CHR 0x9E,
     CHR 0xE0, CHR 0xB8, CHR 0xAD]"

definition status_below :: string where \<comment> \<open>below target\<close>
  "status_below =
     [CHR 0xE0, CHR 0xB8, CHR 0x95, CHR 0xE0, CHR 0xB9, CHR 0x88, CHR 0xE0, CHR 0xB8, CHR 0xB3,
     CHR 0xE0, CHR 0xB8, CHR 0x81, CHR 0xE0, CHR 0xB8, CHR 0xA7, CHR 0xE0, CHR 0xB9, CHR 0x88,
     CHR 0xE0, CHR 0xB8, CHR 0xB2, CHR 0xE0, CHR 0xB9, CHR 0x80, CHR 0xE0, CHR 0xB8, CHR 0x9B,
     CHR 0xE0, CHR 0xB9, CHR 0x89, CHR 0xE0, CHR 0xB8, CHR 0xB2, CHR 0xE0, CHR 0xB8, CHR 0xAB,
     CHR 0xE0, CHR 0xB8, CHR 0xA1, CHR 0xE0, CHR 0xB8, CHR 0xB2, CHR 0xE0, CHR 0xB8, CHR 0xA2]"

definition capacity_insufficient :: string where \<comment> \<open>insufficient\<close>
  "capacity_insufficient =
     [CHR 0xE0, CHR 0xB9, CHR 0x84, CHR 0xE0, CHR 0xB8, CHR 0xA1, CHR 0xE0, CHR 0xB9, CHR 0x88,
     CHR 0xE0, CHR 0xB9, CHR 0x80, CHR 0xE0, CHR 0xB8, CHR 0x9E, CHR 0xE0, CHR 0xB8, CHR 0xB5,
     CHR 0xE0, CHR 0xB8, CHR 0xA2, CHR 0xE0, CHR 0xB8, CHR 0x87, CHR 0xE0, CHR 0xB8, CHR 0x9E,
     CHR 0xE0, CHR 0xB8, CHR 0xAD]"

definition recommend_expand :: string where \<comment> \<open>large surplus: expand the marketing or raise the target\<close>
  "recommend_expand =
     [CHR 0xE0, CHR 0xB8, CHR 0xA1, CHR 0xE0, CHR 0xB8, CHR 0xB5, CHR 0xE0, CHR 0xB8, CHR 0xA8,
     CHR 0xE0, CHR 0xB8, CHR 0xB1, CHR 0xE0, CHR 0xB8, CHR 0x81, CHR 0xE0, CHR 0xB8, CHR 0xA2,
     CHR 0xE0, CHR 0xB8, CHR 0xA0, CHR 0xE0, CHR 0xB8, CHR 0xB2, CHR 0xE0, CHR 0xB8, CHR 0x9E,
     CHR 0xE0, CHR 0xB8, CHR 0xA3, CHR 0xE0, CHR 0xB8, CHR 0xAD, CHR 0xE0, CHR 0xB8, CHR 0x87,
     CHR 0xE0, CHR 0xB8, CHR 0xA3, CHR 0xE0, CHR 0xB8, CHR 0xB1, CHR 0xE0, CHR 0xB8, CHR 0x9A,
     CHR 0xE0, CHR 0xB8, CHR 0xA5, CHR 0xE0, CHR 0xB8, CHR 0xB9, CHR 0xE0, CHR 0xB8, CHR 0x81,
     CHR 0xE0, CHR 0xB8, CHR 0x84, CHR 0xE0, CHR 0xB9, CHR 0x89, CHR 0xE0, CHR 0xB8, CHR 0xB2,
     CHR 0xE0, CHR 0xB9, CHR 0x80, CHR 0xE0, CHR 0xB8, CHR 0x9E, CHR 0xE0, CHR 0xB8, CHR 0xB4,
     CHR 0xE0, CHR 0xB9, CHR 0x88, CHR 0xE0, CHR 0xB8, CHR 0xA1, CHR 0xE0, CHR 0xB9, CHR 0x80,
     CHR 0xE0, CHR 0xB8, CHR 0x95, CHR 0xE0, CHR 0xB8, CHR 0xB4, CHR 0xE0, CHR 0xB8, CHR 0xA1,
     CHR 0xE0, CHR 0xB9, CHR 0x84, CHR 0xE0, CHR 0xB8, CHR 0x94, CHR 0xE0, CHR 0xB9, CHR 0x89,
     CHR 0xE0, CHR 0xB8, CHR 0xA1, CHR 0xE0, CHR 0xB8, CHR 0xB2, CHR 0xE0, CHR 0xB8,
     CHR 0x81] @ '' '' @ [CHR 0xE0, CHR 0xB8, CHR 0x84, CHR 0xE0, CHR 0xB8, CHR 0xA7, CHR 0xE0,
     CHR 0xB8, CHR 0xA3, CHR 0xE0, CHR 0xB8, CHR 0x82, CHR 0xE0, CHR 0xB8, CHR 0xA2, CHR 0xE0,
     CHR 0xB8, CHR 0xB2, CHR 0xE0, CHR 0xB8, CHR 0xA2, CHR 0xE0, CHR 0xB8, CHR 0x81, CHR 0xE0,
     CHR 0xB8, CHR 0xB2, CHR 0xE0, CHR 0xB8, CHR 0xA3, CHR 0xE0, CHR 0xB8, CHR 0x95, CHR 0xE0,
     CHR 0xB8, CHR 0xA5, CHR 0xE0, CHR 0xB8, CHR 0xB2, CHR 0xE0, CHR 0xB8, CHR 0x94, CHR 0xE0,
     CHR 0xB8, CHR 0xAB, CHR 0xE0, CHR 0xB8, CHR 0xA3, CHR 0xE0, CHR 0xB8, CHR 0xB7, CHR 0xE0,
     CHR 0xB8, CHR 0xAD, CHR 0xE0, CHR 0xB9, CHR 0x80, CHR 0xE0, CHR 0xB8, CHR 0x9E, CHR 0xE0,
     CHR 0xB8, CHR 0xB4, CHR 0xE0, CHR 0xB9, CHR 0x88, CHR 0xE0, CHR 0xB8, CHR 0xA1, CHR 0xE0,
     CHR 0xB9, CHR 0x80, CHR 0xE0, CHR 0xB8, CHR 0x9B, CHR 0xE0, CHR 0xB9, CHR 0x89, CHR 0xE0,
     CHR 0xB8, CHR 0xB2, CHR 0xE0, CHR 0xB8, CHR 0xAB, CHR 0xE0, CHR 0xB8, CHR 0xA1, CHR 0xE0,
     CHR 0xB8, CHR 0xB2, CHR 0xE0, CHR 0xB8, CHR 0xA2]"

definition recommend_adequate :: string where \<comment> \<open>moderate surplus: the capacity is adequate, with a buffer\<close>
  "recommend_adequate =
     [CHR 0xE0, CHR 0xB8, CHR 0x81, CHR 0xE0, CHR 0xB8, CHR 0xB3, CHR 0xE0, CHR 0xB8, CHR 0xA5,
     CHR 0xE0, CHR 0xB8, CHR 0xB1, CHR 0xE0, CHR 0xB8, CHR 0x87, CHR 0xE0, CHR 0xB8, CHR 0x81,
     CHR 0xE0, CHR 0xB8, CHR 0xB2, CHR 0xE0, CHR 0xB8, CHR 0xA3, CHR 0xE0, CHR 0xB8, CHR 0x9C,
     CHR 0xE0, CHR 0xB8, CHR 0xA5, CHR 0xE0, CHR 0xB8, CHR 0xB4, CHR 0xE0, CHR 0xB8, CHR 0x95,
     CHR 0xE0, CHR 0xB9, CHR 0x80, CHR 0xE0, CHR 0xB8, CHR 0xAB, CHR 0xE0, CHR 0xB8, CHR 0xA1,
     CHR 0xE0, CHR 0xB8, CHR 0xB2, CHR 0xE0, CHR 0xB8, CHR 0xB0, CHR 0xE0, CHR 0xB8, CHR 0xAA,
     CHR 0xE0, CHR 0xB8, CHR 0xA1] @ '' '' @ [CHR 0xE0, CHR 0xB8, CHR 0xA1, CHR 0xE0, CHR 0xB8,
     CHR 0xB5, CHR 0xE0, CHR 0xB8, CHR 0xAA, CHR 0xE0, CHR 0xB9, CHR 0x88, CHR 0xE0, CHR 0xB8,
     CHR 0xA7, CHR 0xE0, CHR 0xB8, CHR 0x99, CHR 0xE0, CHR 0xB9, CHR 0x80, CHR 0xE0, CHR 0xB8,
     CHR 0x9C, CHR 0xE0, CHR 0xB8, CHR 0xB7, CHR 0xE0, CHR 0xB9, CHR 0x88, CHR 0xE0, CHR 0xB8,
     CHR 0xAD, CHR 0xE0, CHR 0xB9, CHR 0x83, CHR 0xE0, CHR 0xB8, CHR 0x99, CHR 0xE0, CHR 0xB8,
     CHR 0x81, CHR 0xE0, CHR 0xB8, CHR 0xB2, CHR 0xE0, CHR 0xB8, CHR 0xA3, CHR 0xE0, CHR 0xB8,
     CHR 0xA3, CHR 0xE0, CHR 0xB8, CHR 0xAD, CHR 0xE0, CHR 0xB8, CHR 0x87, CHR 0xE0, CHR 0xB8,
     CHR 0xA3, CHR 0xE0, CHR 0xB8, CHR 0xB1, CHR 0xE0, CHR 0xB8, CHR 0x9A, CHR 0xE0, CHR 0xB8,
     CHR 0xA5, CHR 0xE0, CHR 0xB8, CHR 0xB9, CHR 0xE0, CHR 0xB8, CHR 0x81, CHR 0xE0, CHR 0xB8,
     CHR 0x84, CHR 0xE0, CHR 0xB9, CHR 0x89, CHR 0xE0, CHR 0xB8, CHR 0xB2, CHR 0xE0, CHR 0xB9,
     CHR 0x80, CHR 0xE0, CHR 0xB8, CHR 0x9E, CHR 0xE0, CHR 0xB8, CHR 0xB4, CHR 0xE0, CHR 0xB9,
     CHR 0x88, CHR 0xE0, CHR 0xB8, CHR 0xA1, CHR 0xE0, CHR 0xB9, CHR 0x80, CHR 0xE0, CHR 0xB8,
     CHR 0x95, CHR 0xE0, CHR 0xB8, CHR 0xB4, CHR 0xE0, CHR 0xB8, CHR 0xA1]"

definition recommend_urgent :: string where \<comment> \<open>large shortfall: more customers or better service, urgently\<close>
  "recommend_urgent =
     [CHR 0xE0, CHR 0xB8, CHR 0x95, CHR 0xE0, CHR 0xB9, CHR 0x89, CHR 0xE0, CHR 0xB8, CHR 0xAD,
     CHR 0xE0, CHR 0xB8, CHR 0x87, CHR 0xE0, CHR 0xB9, CHR 0x80, CHR 0xE0, CHR 0xB8, CHR 0x9E,
     CHR 0xE0, CHR 0xB8, CHR 0xB4, CHR 0xE0, CHR 0xB9, CHR 0x88, CHR 0xE0, CHR 0xB8, CHR 0xA1,
     CHR 0xE0, CHR 0xB8, CHR 0x88, CHR 0xE0, CHR 0xB8, CHR 0xB3, CHR 0xE0, CHR 0xB8, CHR 0x99,
     CHR 0xE0, CHR 0xB8, CHR 0xA7, CHR 0xE0, CHR 0xB8, CHR 0x99, CHR 0xE0, CHR 0xB8, CHR 0xA5,
     CHR 0xE0, CHR 0xB8, CHR 0xB9, CHR 0xE0, CHR 0xB8, CHR 0x81, CHR 0xE0, CHR 0xB8, CHR 0x84,
     CHR 0xE0, CHR 0xB9, CHR 0x89, CHR 0xE0, CHR 0xB8, CHR 0xB2, CHR 0xE0, CHR 0xB8, CHR 0xAB,
     CHR 0xE0, CHR 0xB8, CHR 0xA3, CHR 0xE0, CHR 0xB8, CHR 0xB7, CHR 0xE0, CHR 0xB8, CHR 0xAD,
     CHR 0xE0, CHR 0xB8, CHR 0x9B, CHR 0xE0, CHR 0xB8, CHR 0xA3, CHR 0xE0, CHR 0xB8, CHR 0xB1,
     CHR 0xE0, CHR 0xB8, CHR 0x9A, CHR 0xE0, CHR 0xB8, CHR 0x9B, CHR 0xE0, CHR 0xB8, CHR 0xA3,
     CHR 0xE0, CHR 0xB8, CHR 0xB8, CHR 0xE0, CHR 0xB8, CHR 0x87, CHR 0xE0, CHR 0xB8, CHR 0x9B,
     CHR 0xE0, CHR 0xB8, CHR 0xA3, CHR 0xE0, CHR 0xB8, CHR 0xB0, CHR 0xE0, CHR 0xB8, CHR 0xAA,
     CHR 0xE0, CHR 0xB8, CHR 0xB4, CHR 0xE0, CHR 0xB8, CHR 0x97, CHR 0xE0, CHR 0xB8, CHR 0x98,
     CHR 0xE0, CHR 0xB8, CHR 0xB4, CHR 0xE0, CHR 0xB8, CHR 0xA0, CHR 0xE0, CHR 0xB8, CHR 0xB2,
     CHR 0xE0, CHR 0xB8, CHR 0x9E, CHR 0xE0, CHR 0xB8, CHR 0x81, CHR 0xE0, CHR 0xB8, CHR 0xB2,
     CHR 0xE0, CHR 0xB8, CHR 0xA3, CHR 0xE0, CHR 0xB8, CHR 0x9A, CHR 0xE0, CHR 0xB8, CHR 0xA3,
     CHR 0xE0, CHR 0xB8, CHR 0xB4, CHR 0xE0, CHR 0xB8, CHR 0x81, CHR 0xE0, CHR 0xB8, CHR 0xB2,
     CHR 0xE0, CHR 0xB8, CHR 0xA3, CHR 0xE0, CHR 0xB8, CHR 0xAD, CHR 0xE0, CHR 0xB8, CHR 0xA2,
     CHR 0xE0, CHR 0xB9, CHR 0x88, CHR 0xE0, CHR 0xB8, CHR 0xB2, CHR 0xE0, CHR 0xB8, CHR 0x87,
     CHR 0xE0, CHR 0xB9, CHR 0x80, CHR 0xE0, CHR 0xB8, CHR 0xA3, CHR 0xE0, CHR 0xB9, CHR 0x88,
     CHR 0xE0, CHR 0xB8, CHR 0x87, CHR 0xE0, CHR 0xB8, CHR 0x94, CHR 0xE0, CHR 0xB9, CHR 0x88,
     CHR 0xE0, CHR 0xB8, CHR 0xA7, CHR 0xE0, CHR 0xB8, CHR 0x99]"

definition recommend_moderate :: string where \<comment> \<open>minor shortfall: more customers or a better show-up rate\<close>
  "recommend_moderate =
     [CHR 0xE0, CHR 0xB8, CHR 0x84, CHR 0xE0, CHR 0xB8, CHR 0xA7, CHR 0xE0, CHR 0xB8, CHR 0xA3,
     CHR 0xE0, CHR 0xB9, CHR 0x80, CHR 0xE0, CHR 0xB8, CHR 0x9E, CHR 0xE0, CHR 0xB8, CHR 0xB4,
     CHR 0xE0, CHR 0xB9, CHR 0x88, CHR 0xE0, CHR 0xB8, CHR 0xA1, CHR 0xE0, CHR 0xB8, CHR 0x88,
     CHR 0xE0, CHR 0xB8, CHR 0xB3, CHR 0xE0, CHR 0xB8, CHR 0x99, CHR 0xE0, CHR 0xB8, CHR 0xA7,
     CHR 0xE0, CHR 0xB8, CHR 0x99, CHR 0xE0, CHR 0xB8, CHR 0xA5, CHR 0xE0, CHR 0xB8, CHR 0xB9,
     CHR 0xE0, CHR 0xB8, CHR 0x81, CHR 0xE0, CHR 0xB8, CHR 0x84, CHR 0xE0, CHR 0xB9, CHR 0x89,
     CHR 0xE0, CHR 0xB8, CHR 0xB2, CHR 0xE0, CHR 0xB8, CHR 0xAB, CHR 0xE0, CHR 0xB8, CHR 0xA3,
     CHR 0xE0, CHR 0xB8, CHR 0xB7, CHR 0xE0, CHR 0xB8, CHR 0xAD, CHR 0xE0, CHR 0xB8, CHR 0x9B,
     CHR 0xE0, CHR 0xB8, CHR 0xA3, CHR 0xE0, CHR 0xB8, CHR 0xB1, CHR 0xE0, CHR 0xB8, CHR 0x9A,
     CHR 0xE0, CHR 0xB8, CHR 0x9B, CHR 0xE0, CHR 0xB8, CHR 0xA3, CHR 0xE0, CHR 0xB8, CHR 0xB8,
     CHR 0xE0, CHR 0xB8, CHR 0x87, CHR 0xE0, CHR 0xB8, CHR 0xAD, CHR 0xE0, CHR 0xB8, CHR 0xB1,
     CHR 0xE0, CHR 0xB8, CHR 0x95, CHR 0xE0, CHR 0xB8, CHR 0xA3, CHR 0xE0, CHR 0xB8, CHR 0xB2,
     CHR 0xE0, CHR 0xB8, CHR 0x81, CHR 0xE0, CHR 0xB8, CHR 0xB2, CHR 0xE0, CHR 0xB8, CHR 0xA3,
     CHR 0xE0, CHR 0xB8, CHR 0xA1, CHR 0xE0, CHR 0xB8, CHR 0xB2, CHR 0xE0, CHR 0xB9, CHR 0x83,
     CHR 0xE0, CHR 0xB8, CHR 0x8A, CHR 0xE0, CHR 0xB9, CHR 0x89, CHR 0xE0, CHR 0xB8, CHR 0x9A,
     CHR 0xE0, CHR 0xB8, CHR 0xA3, CHR 0xE0, CHR 0xB8, CHR 0xB4, CHR 0xE0, CHR 0xB8, CHR 0x81,
     CHR 0xE0, CHR 0xB8, CHR 0xB2, CHR 0xE0, CHR 0xB8, CHR 0xA3]"

text \<open>
  \<open>createAnalysisSummary\<close>. The literals \<open>0.2\<close> and \<open>0.1\<close> are the doubles nearest
  to two tenths and to one tenth.
\<close>

definition createAnalysisSummary :: "CalculatorValues \<Rightarrow> CalculationResults \<Rightarrow> AnalysisSummary" where
  "createAnalysisSummary values results =
     (let utilizationRate =
            Math_min (Fin 100) (js_mul (js_div (targetDishes values) (totalCapacity results)) (Fin 100))
      in if js_ge (gap results) (Fin 0)
         then \<lparr>status = status_exceeds,
               recommendation =
                 (if js_gt (gap results) (js_mul (targetDishes values) (fround (2 / 10)))
                  then recommend_expand else recommend_adequate),
               utilizationRate = Math_round utilizationRate,
               capacityStatus = capacity_sufficient\<rparr>
         else \<lparr>status = status_below,
               recommendation =
                 (if js_gt (Math_abs (gap results)) (js_mul (targetDishes values) (fround (1 / 10)))
                  then recommend_urgent else recommend_moderate),
               utilizationRate = Math_round utilizationRate,
               capacityStatus = capacity_insufficient\<rparr>)"

text \<open>
  \<open>aggregateExportData\<close>; the metadata is what \<open>createExportMetadata\<close> reads from
  the clock and the locale.
\<close>

definition aggregateExportData ::
  "ExportMetadata \<Rightarrow> CalculatorValues \<Rightarrow> CalculationResults \<Rightarrow> FullExportData" where
  "aggregateExportData md values results =
     \<lparr>metadata = md, inputValues = values, calculatedResults = results,
      analysis = createAnalysisSummary values results\<rparr>"

subsection \<open>Fixed-point texts\<close>

text \<open>
  \<open>x.toFixed(1)\<close>: the tenths nearest to the size of the double \<open>x\<close>, the larger on a
  tie, after the sign of a number below zero; the plain text of \<open>x\<close> from \<open>10^21\<close> on
  and for the special values. And \<open>Number(x.toFixed(1))\<close>, the double nearest to the
  number that text denotes.
\<close>

definition toFixed1 :: "(real \<Rightarrow> string) \<Rightarrow> jsnum \<Rightarrow> string" where
  "toFixed1 digits x =
     (case x of
        Fin r \<Rightarrow>
          (if 10 ^ 21 \<le> \<bar>r\<bar> then Number_toString digits x
           else (let n = nat \<lfloor>10 * \<bar>r\<bar> + 1 / 2\<rfloor>
                 in (if r < 0 then ''-'' else []) @ show_nat (n div 10) @ ''.'' @ [digit_char (n mod 10)]))
      | NegZero \<Rightarrow> ''0.0''
      | _ \<Rightarrow> Number_toString digits x)"

definition Number_of_toFixed1 :: "jsnum \<Rightarrow> jsnum" where
  "Number_of_toFixed1 x =
     (case x of
        Fin r \<Rightarrow>
          (if 10 ^ 21 \<le> \<bar>r\<bar> then x
           else (let n = \<lfloor>10 * \<bar>r\<bar> + 1 / 2\<rfloor>
                 in if n = 0 then zero_of (r < 0)
                    else fround ((if r < 0 then - 1 else 1) * of_int n / 10)))
      | NegZero \<Rightarrow> Fin 0
      | _ \<Rightarrow> x)"

text \<open>
  The percentage cell of the capacity breakdown, which the source writes out in each of
  the three rows:
  \<open>totalCapacity > 0 ? `${((x / totalCapacity) * 100).toFixed(1)}%` : '0%'\<close>.
\<close>

definition percent_of_total :: "(real \<Rightarrow> string) \<Rightarrow> jsnum \<Rightarrow> jsnum \<Rightarrow> cell" where
  "percent_of_total digits x totalCap =
     (if js_gt totalCap (Fin 0)
      then CStr (toFixed1 digits (js_mul (js_div x totalCap) (Fin 100)) @ ''%'')
      else CStr ''0%'')"

subsection \<open>The labels\<close>

text \<open>
  The Thai labels that serve as headers, row keys and units, as the UTF-8 bytes of the
  source's literals; the English meaning of each is given with it.
\<close>

definition k_item :: string where \<comment> \<open>item\<close>
  "k_item =
     [CHR 0xE0, CHR 0xB8, CHR 0xA3, CHR 0xE0, CHR 0xB8, CHR 0xB2, CHR 0xE0, CHR 0xB8, CHR 0xA2,
     CHR 0xE0, CHR 0xB8, CHR 0x81, CHR 0xE0, CHR 0xB8, CHR 0xB2, CHR 0xE0, CHR 0xB8, CHR 0xA3]"

definition k_value :: string where \<comment> \<open>value\<close>
  "k_value =
     [CHR 0xE0, CHR 0xB8, CHR 0x84, CHR 0xE0, CHR 0xB9, CHR 0x88, CHR 0xE0, CHR 0xB8, CHR 0xB2]"

definition k_unit :: string where \<comment> \<open>unit\<close>
  "k_unit =
     [CHR 0xE0, CHR 0xB8, CHR 0xAB, CHR 0xE0, CHR 0xB8, CHR 0x99, CHR 0xE0, CHR 0xB9, CHR 0x88,
     CHR 0xE0, CHR 0xB8, CHR 0xA7, CHR 0xE0, CHR 0xB8, CHR 0xA2]"

definition k_description :: string where \<comment> \<open>description\<close>
  "k_description =
     [CHR 0xE0, CHR 0xB8, CHR 0x84, CHR 0xE0, CHR 0xB8, CHR 0xB3, CHR 0xE0, CHR 0xB8, CHR 0xAD,
     CHR 0xE0, CHR 0xB8, CHR 0x98, CHR 0xE0, CHR 0xB8, CHR 0xB4, CHR 0xE0, CHR 0xB8, CHR 0x9A,
     CHR 0xE0, CHR 0xB8, CHR 0xB2, CHR 0xE0, CHR 0xB8, CHR 0xA2]"

definition k_parameter :: string where \<comment> \<open>parameter\<close>
  "k_parameter =
     [CHR 0xE0, CHR 0xB8, CHR 0x9E, CHR 0xE0, CHR 0xB8, CHR 0xB2, CHR 0xE0, CHR 0xB8, CHR 0xA3,
     CHR 0xE0, CHR 0xB8, CHR 0xB2, CHR 0xE0, CHR 0xB8, CHR 0xA1, CHR 0xE0, CHR 0xB8, CHR 0xB4,
     CHR 0xE0, CHR 0xB9, CHR 0x80, CHR 0xE0, CHR 0xB8, CHR 0x95, CHR 0xE0, CHR 0xB8, CHR 0xAD,
     CHR 0xE0, CHR 0xB8, CHR 0xA3, CHR 0xE0, CHR 0xB9, CHR 0x8C]"

definition k_metric :: string where \<comment> \<open>indicator\<close>
  "k_metric =
     [CHR 0xE0, CHR 0xB8, CHR 0x95, CHR 0xE0, CHR 0xB8, CHR 0xB1, CHR 0xE0, CHR 0xB8, CHR 0xA7,
     CHR 0xE0, CHR 0xB8, CHR 0x8A, CHR 0xE0, CHR 0xB8, CHR 0xB5, CHR 0xE0, CHR 0xB9, CHR 0x89,
     CHR 0xE0, CHR 0xB8, CHR 0xA7, CHR 0xE0, CHR 0xB8, CHR 0xB1, CHR 0xE0, CHR 0xB8, CHR 0x94]"

definition k_formula :: string where \<comment> \<open>calculation formula\<close>
  "k_formula =
     [CHR 0xE0, CHR 0xB8, CHR 0xAA, CHR 0xE0, CHR 0xB8, CHR 0xB9, CHR 0xE0, CHR 0xB8, CHR 0x95,
     CHR 0xE0, CHR 0xB8, CHR 0xA3, CHR 0xE0, CHR 0xB8, CHR 0x81, CHR 0xE0, CHR 0xB8, CHR 0xB2,
     CHR 0xE0, CHR 0xB8, CHR 0xA3, CHR 0xE0, CHR 0xB8, CHR 0x84, CHR 0xE0, CHR 0xB8, CHR 0xB3,
     CHR 0xE0, CHR 0xB8, CHR 0x99, CHR 0xE0, CHR 0xB8, CHR 0xA7, CHR 0xE0, CHR 0xB8, CHR 0x93]"

definition k_topic :: string where \<comment> \<open>topic\<close>
  "k_topic =
     [CHR 0xE0, CHR 0xB8, CHR 0xAB, CHR 0xE0, CHR 0xB8, CHR 0xB1, CHR 0xE0, CHR 0xB8, CHR 0xA7,
     CHR 0xE0, CHR 0xB8, CHR 0x82, CHR 0xE0, CHR 0xB9, CHR 0x89, CHR 0xE0, CHR 0xB8, CHR 0xAD]"

definition k_result :: string where \<comment> \<open>result\<close>
  "k_result =
     [CHR 0xE0, CHR 0xB8, CHR 0x9C, CHR 0xE0, CHR 0xB8, CHR 0xA5, CHR 0xE0, CHR 0xB8, CHR 0xA5,
     CHR 0xE0, CHR 0xB8, CHR 0xB1, CHR 0xE0, CHR 0xB8, CHR 0x9E, CHR 0xE0, CHR 0xB8, CHR 0x98,
     CHR 0xE0, CHR 0xB9, CHR 0x8C]"

definition k_customer_type :: string where \<comment> \<open>customer type\<close>
  "k_customer_type =
     [CHR 0xE0, CHR 0xB8, CHR 0x9B, CHR 0xE0, CHR 0xB8, CHR 0xA3, CHR 0xE0, CHR 0xB8, CHR 0xB0,
     CHR 0xE0, CHR 0xB9, CHR 0x80, CHR 0xE0, CHR 0xB8, CHR 0xA0, CHR 0xE0, CHR 0xB8, CHR 0x97,
     CHR 0xE0, CHR 0xB8, CHR 0xA5, CHR 0xE0, CHR 0xB8, CHR 0xB9, CHR 0xE0, CHR 0xB8, CHR 0x81,
     CHR 0xE0, CHR 0xB8, CHR 0x84, CHR 0xE0, CHR 0xB9, CHR 0x89, CHR 0xE0, CHR 0xB8, CHR 0xB2]"

definition k_capacity :: string where \<comment> \<open>Capacity (dishes/day)\<close>
  "k_capacity =
     ''Capacity ('' @ [CHR 0xE0, CHR 0xB8, CHR 0x88, CHR 0xE0, CHR 0xB8, CHR 0xB2, CHR 0xE0,
     CHR 0xB8, CHR 0x99] @ ''/'' @ [CHR 0xE0, CHR 0xB8, CHR 0xA7, CHR 0xE0, CHR 0xB8, CHR 0xB1,
     CHR 0xE0, CHR 0xB8, CHR 0x99] @ '')''"

definition k_percent_of_total :: string where \<comment> \<open>% of Total Capacity\<close>
  "k_percent_of_total =
     ''% '' @ [CHR 0xE0, CHR 0xB8, CHR 0x82, CHR 0xE0, CHR 0xB8, CHR 0xAD, CHR 0xE0, CHR 0xB8,
     CHR 0x87] @ '' Total Capacity''"

definition k_recommended_share :: string where \<comment> \<open>recommended proportion\<close>
  "k_recommended_share =
     [CHR 0xE0, CHR 0xB8, CHR 0xAA, CHR 0xE0, CHR 0xB8, CHR 0xB1, CHR 0xE0, CHR 0xB8, CHR 0x94,
     CHR 0xE0, CHR 0xB8, CHR 0xAA, CHR 0xE0, CHR 0xB9, CHR 0x88, CHR 0xE0, CHR 0xB8, CHR 0xA7,
     CHR 0xE0, CHR 0xB8, CHR 0x99, CHR 0xE0, CHR 0xB8, CHR 0x97, CHR 0xE0, CHR 0xB8, CHR 0xB5,
     CHR 0xE0, CHR 0xB9, CHR 0x88, CHR 0xE0, CHR 0xB9, CHR 0x81, CHR 0xE0, CHR 0xB8, CHR 0x99,
     CHR 0xE0, CHR 0xB8, CHR 0xB0, CHR 0xE0, CHR 0xB8, CHR 0x99, CHR 0xE0, CHR 0xB8, CHR 0xB3]"

definition u_people :: string where \<comment> \<open>people\<close>
  "u_people =
     [CHR 0xE0, CHR 0xB8, CHR 0x84, CHR 0xE0, CHR 0xB8, CHR 0x99]"

definition u_days :: string where \<comment> \<open>days\<close>
  "u_days =
     [CHR 0xE0, CHR 0xB8, CHR 0xA7, CHR 0xE0, CHR 0xB8, CHR 0xB1, CHR 0xE0, CHR 0xB8, CHR 0x99]"

definition u_dishes :: string where \<comment> \<open>dishes\<close>
  "u_dishes =
     [CHR 0xE0, CHR 0xB8, CHR 0x88, CHR 0xE0, CHR 0xB8, CHR 0xB2, CHR 0xE0, CHR 0xB8, CHR 0x99]"

definition u_dishes_per_day :: string where \<comment> \<open>dishes/day\<close>
  "u_dishes_per_day =
     [CHR 0xE0, CHR 0xB8, CHR 0x88, CHR 0xE0, CHR 0xB8, CHR 0xB2, CHR 0xE0, CHR 0xB8,
     CHR 0x99] @ ''/'' @ [CHR 0xE0, CHR 0xB8, CHR 0xA7, CHR 0xE0, CHR 0xB8, CHR 0xB1, CHR 0xE0,
     CHR 0xB8, CHR 0x99]"

definition u_groups :: string where \<comment> \<open>groups\<close>
  "u_groups =
     [CHR 0xE0, CHR 0xB8, CHR 0x81, CHR 0xE0, CHR 0xB8, CHR 0xA5, CHR 0xE0, CHR 0xB8, CHR 0xB8,
     CHR 0xE0, CHR 0xB9, CHR 0x88, CHR 0xE0, CHR 0xB8, CHR 0xA1]"

subsection \<open>The five sections\<close>

text \<open>The metadata section.\<close>

definition metadata_section :: "FullExportData \<Rightarrow> CsvSection" where
  "metadata_section exportData =
     \<lparr>title =
         [CHR 0xF0, CHR 0x9F, CHR 0x8F, CHR 0xAA] @ '' '' @ [CHR 0xE0, CHR 0xB8, CHR 0xA3,
         CHR 0xE0, CHR 0xB8, CHR 0xB2, CHR 0xE0, CHR 0xB8, CHR 0xA2, CHR 0xE0, CHR 0xB8,
         CHR 0x87, CHR 0xE0, CHR 0xB8, CHR 0xB2, CHR 0xE0, CHR 0xB8, CHR 0x99, CHR 0xE0,
         CHR 0xB8, CHR 0x81, CHR 0xE0, CHR 0xB8, CHR 0xB2, CHR 0xE0, CHR 0xB8, CHR 0xA3,
         CHR 0xE0, CHR 0xB8, CHR 0xA7, CHR 0xE0, CHR 0xB8, CHR 0xB4, CHR 0xE0, CHR 0xB9,
         CHR 0x80, CHR 0xE0, CHR 0xB8, CHR 0x84, CHR 0xE0, CHR 0xB8, CHR 0xA3, CHR 0xE0,
         CHR 0xB8, CHR 0xB2, CHR 0xE0, CHR 0xB8, CHR 0xB0, CHR 0xE0, CHR 0xB8, CHR 0xAB,
         CHR 0xE0, CHR 0xB9, CHR 0x8C, CHR 0xE0, CHR 0xB8, CHR 0x81, CHR 0xE0, CHR 0xB8,
         CHR 0xB2, CHR 0xE0, CHR 0xB8, CHR 0xA3, CHR 0xE0, CHR 0xB8, CHR 0xAB, CHR 0xE0,
         CHR 0xB8, CHR 0xA1, CHR 0xE0, CHR 0xB8, CHR 0xB8, CHR 0xE0, CHR 0xB8, CHR 0x99,
         CHR 0xE0, CHR 0xB9, CHR 0x80, CHR 0xE0, CHR 0xB8, CHR 0xA7, CHR 0xE0, CHR 0xB8,
         CHR 0xB5, CHR 0xE0, CHR 0xB8, CHR 0xA2, CHR 0xE0, CHR 0xB8, CHR 0x99, CHR 0xE0,
         CHR 0xB8, CHR 0xA5, CHR 0xE0, CHR 0xB8, CHR 0xB9, CHR 0xE0, CHR 0xB8, CHR 0x81,
         CHR 0xE0, CHR 0xB8, CHR 0x84, CHR 0xE0, CHR 0xB9, CHR 0x89, CHR 0xE0, CHR 0xB8,
         CHR 0xB2],
       headers = [k_item, k_value],
       rows =
         [[(k_item, CStr ([CHR 0xE0, CHR 0xB8, CHR 0xA7, CHR 0xE0, CHR 0xB8, CHR 0xB1,
          CHR 0xE0, CHR 0xB8, CHR 0x99, CHR 0xE0, CHR 0xB8, CHR 0x97, CHR 0xE0, CHR 0xB8,
          CHR 0xB5, CHR 0xE0, CHR 0xB9, CHR 0x88, CHR 0xE0, CHR 0xB8, CHR 0xAA, CHR 0xE0,
          CHR 0xB9, CHR 0x88, CHR 0xE0, CHR 0xB8, CHR 0x87, CHR 0xE0, CHR 0xB8, CHR 0xAD,
          CHR 0xE0, CHR 0xB8, CHR 0xAD, CHR 0xE0, CHR 0xB8, CHR 0x81, CHR 0xE0, CHR 0xB8,
          CHR 0x82, CHR 0xE0, CHR 0xB9, CHR 0x89, CHR 0xE0, CHR 0xB8, CHR 0xAD, CHR 0xE0,
          CHR 0xB8, CHR 0xA1, CHR 0xE0, CHR 0xB8, CHR 0xB9, CHR 0xE0, CHR 0xB8, CHR 0xA5])),
          (k_value, CStr (exportDate (metadata exportData)))],
          [(k_item, CStr ([CHR 0xE0, CHR 0xB9, CHR 0x80, CHR 0xE0, CHR 0xB8, CHR 0xA7,
          CHR 0xE0, CHR 0xB8, CHR 0xA5, CHR 0xE0, CHR 0xB8, CHR 0xB2, CHR 0xE0, CHR 0xB8,
          CHR 0x97, CHR 0xE0, CHR 0xB8, CHR 0xB5, CHR 0xE0, CHR 0xB9, CHR 0x88, CHR 0xE0,
          CHR 0xB8, CHR 0xAA, CHR 0xE0, CHR 0xB9, CHR 0x88, CHR 0xE0, CHR 0xB8, CHR 0x87,
          CHR 0xE0, CHR 0xB8, CHR 0xAD, CHR 0xE0, CHR 0xB8, CHR 0xAD, CHR 0xE0, CHR 0xB8,
          CHR 0x81, CHR 0xE0, CHR 0xB8, CHR 0x82, CHR 0xE0, CHR 0xB9, CHR 0x89, CHR 0xE0,
          CHR 0xB8, CHR 0xAD, CHR 0xE0, CHR 0xB8, CHR 0xA1, CHR 0xE0, CHR 0xB8, CHR 0xB9,
          CHR 0xE0, CHR 0xB8, CHR 0xA5])), (k_value, CStr (exportTime (metadata exportData)))],
          [(k_item, CStr ([CHR 0xE0, CHR 0xB8, CHR 0x8A, CHR 0xE0, CHR 0xB8, CHR 0xB7,
          CHR 0xE0, CHR 0xB9, CHR 0x88, CHR 0xE0, CHR 0xB8, CHR 0xAD, CHR 0xE0, CHR 0xB9,
          CHR 0x81, CHR 0xE0, CHR 0xB8, CHR 0xAD, CHR 0xE0, CHR 0xB8, CHR 0x9B, CHR 0xE0,
          CHR 0xB8, CHR 0x9E, CHR 0xE0, CHR 0xB8, CHR 0xA5, CHR 0xE0, CHR 0xB8, CHR 0xB4,
          CHR 0xE0, CHR 0xB9, CHR 0x80, CHR 0xE0, CHR 0xB8, CHR 0x84, CHR 0xE0, CHR 0xB8,
          CHR 0x8A, CHR 0xE0, CHR 0xB8, CHR 0xB1, CHR 0xE0, CHR 0xB8, CHR 0x99])), (k_value,
          CStr (appName (metadata exportData)))],
          [(k_item, CStr ([CHR 0xE0, CHR 0xB9, CHR 0x80, CHR 0xE0, CHR 0xB8, CHR 0xA7,
          CHR 0xE0, CHR 0xB8, CHR 0xAD, CHR 0xE0, CHR 0xB8, CHR 0xA3, CHR 0xE0, CHR 0xB9,
          CHR 0x8C, CHR 0xE0, CHR 0xB8, CHR 0x8A, CHR 0xE0, CHR 0xB8, CHR 0xB1, CHR 0xE0,
          CHR 0xB8, CHR 0x99])), (k_value, CStr (version (metadata exportData)))],
          [(k_item, CStr ([CHR 0xE0, CHR 0xB9, CHR 0x80, CHR 0xE0, CHR 0xB8, CHR 0x82,
          CHR 0xE0, CHR 0xB8, CHR 0x95, CHR 0xE0, CHR 0xB9, CHR 0x80, CHR 0xE0, CHR 0xB8,
          CHR 0xA7, CHR 0xE0, CHR 0xB8, CHR 0xA5, CHR 0xE0, CHR 0xB8, CHR 0xB2])), (k_value,
          CStr (timezone (metadata exportData)))]]\<rparr>"

text \<open>The section of the input values.\<close>

definition input_section :: "FullExportData \<Rightarrow> CsvSection" where
  "input_section exportData =
     \<lparr>title =
         [CHR 0xF0, CHR 0x9F, CHR 0x93, CHR 0x8A] @ '' '' @ [CHR 0xE0, CHR 0xB8, CHR 0x82,
         CHR 0xE0, CHR 0xB9, CHR 0x89, CHR 0xE0, CHR 0xB8, CHR 0xAD, CHR 0xE0, CHR 0xB8,
         CHR 0xA1, CHR 0xE0, CHR 0xB8, CHR 0xB9, CHR 0xE0, CHR 0xB8, CHR 0xA5, CHR 0xE0,
         CHR 0xB8, CHR 0x99, CHR 0xE0, CHR 0xB8, CHR 0xB3, CHR 0xE0, CHR 0xB9, CHR 0x80,
         CHR 0xE0, CHR 0xB8, CHR 0x82, CHR 0xE0, CHR 0xB9, CHR 0x89, CHR 0xE0, CHR 0xB8,
         CHR 0xB2] @ '' (Input Parameters)'',
       headers = [k_parameter, k_value, k_unit, k_description],
       rows =
         [[(k_parameter, CStr ([CHR 0xE0, CHR 0xB8, CHR 0x88, CHR 0xE0, CHR 0xB8, CHR 0xB3,
          CHR 0xE0, CHR 0xB8, CHR 0x99, CHR 0xE0, CHR 0xB8, CHR 0xA7, CHR 0xE0, CHR 0xB8,
          CHR 0x99, CHR 0xE0, CHR 0xB8, CHR 0xA5, CHR 0xE0, CHR 0xB8, CHR 0xB9, CHR 0xE0,
          CHR 0xB8, CHR 0x81, CHR 0xE0, CHR 0xB8, CHR 0x84, CHR 0xE0, CHR 0xB9, CHR 0x89,
          CHR 0xE0, CHR 0xB8, CHR 0xB2, CHR 0xE0, CHR 0xB8, CHR 0x97, CHR 0xE0, CHR 0xB9,
          CHR 0x89, CHR 0xE0, CHR 0xB8, CHR 0xAD, CHR 0xE0, CHR 0xB8, CHR 0x87, CHR 0xE0,
          CHR 0xB8, CHR 0x96, CHR 0xE0, CHR 0xB8, CHR 0xB4, CHR 0xE0, CHR 0xB9, CHR 0x88,
          CHR 0xE0, CHR 0xB8, CHR 0x99])), (k_value,
          CNum (localCustomers (inputValues exportData))), (k_unit, CStr u_people),
          (k_description, CStr ([CHR 0xE0, CHR 0xB8, CHR 0x88, CHR 0xE0, CHR 0xB8, CHR 0xB3,
          CHR 0xE0, CHR 0xB8, CHR 0x99, CHR 0xE0, CHR 0xB8, CHR 0xA7, CHR 0xE0, CHR 0xB8,
          CHR 0x99, CHR 0xE0, CHR 0xB8, CHR 0xA5, CHR 0xE0, CHR 0xB8, CHR 0xB9, CHR 0xE0,
          CHR 0xB8, CHR 0x81, CHR 0xE0, CHR 0xB8, CHR 0x84, CHR 0xE0, CHR 0xB9, CHR 0x89,
          CHR 0xE0, CHR 0xB8, CHR 0xB2, CHR 0xE0, CHR 0xB8, CHR 0x9B, CHR 0xE0, CHR 0xB8,
          CHR 0xA3, CHR 0xE0, CHR 0xB8, CHR 0xB0, CHR 0xE0, CHR 0xB8, CHR 0x88, CHR 0xE0,
          CHR 0xB8, CHR 0xB3, CHR 0xE0, CHR 0xB9, CHR 0x83, CHR 0xE0, CHR 0xB8, CHR 0x99,
          CHR 0xE0, CHR 0xB8, CHR 0x9E, CHR 0xE0, CHR 0xB8, CHR 0xB7, CHR 0xE0, CHR 0xB9,
          CHR 0x89, CHR 0xE0, CHR 0xB8, CHR 0x99, CHR 0xE0, CHR 0xB8, CHR 0x97, CHR 0xE0,
          CHR 0xB8, CHR 0xB5, CHR 0xE0, CHR 0xB9, CHR 0x88]))],
          [(k_parameter, CStr ([CHR 0xE0, CHR 0xB8, CHR 0x88, CHR 0xE0, CHR 0xB8, CHR 0xB3,
          CHR 0xE0, CHR 0xB8, CHR 0x99, CHR 0xE0, CHR 0xB8, CHR 0xA7, CHR 0xE0, CHR 0xB8,
          CHR 0x99, CHR 0xE0, CHR 0xB8, CHR 0xA5, CHR 0xE0, CHR 0xB8, CHR 0xB9, CHR 0xE0,
          CHR 0xB8, CHR 0x81, CHR 0xE0, CHR 0xB8, CHR 0x84, CHR 0xE0, CHR 0xB9, CHR 0x89,
          CHR 0xE0, CHR 0xB8, CHR 0xB2, CHR 0xE0, CHR 0xB8, CHR 0x99, CHR 0xE0, CHR 0xB8,
          CHR 0xB1, CHR 0xE0, CHR 0xB8, CHR 0x81, CHR 0xE0, CHR 0xB8, CHR 0x97, CHR 0xE0,
          CHR 0xB9, CHR 0x88, CHR 0xE0, CHR 0xB8, CHR 0xAD, CHR 0xE0, CHR 0xB8, CHR 0x87,
          CHR 0xE0, CHR 0xB9, CHR 0x80, CHR 0xE0, CHR 0xB8, CHR 0x97, CHR 0xE0, CHR 0xB8,
          CHR 0xB5, CHR 0xE0, CHR 0xB9, CHR 0x88, CHR 0xE0, CHR 0xB8, CHR 0xA2, CHR 0xE0,
          CHR 0xB8, CHR 0xA7])), (k_value, CNum (touristCustomers (inputValues exportData))),
          (k_unit, CStr u_people), (k_description, CStr ([CHR 0xE0, CHR 0xB8, CHR 0x88,
          CHR 0xE0, CHR 0xB8, CHR 0xB3, CHR 0xE0, CHR 0xB8, CHR 0x99, CHR 0xE0, CHR 0xB8,
          CHR 0xA7, CHR 0xE0, CHR 0xB8, CHR 0x99, CHR 0xE0, CHR 0xB8, CHR 0xA5, CHR 0xE0,
          CHR 0xB8, CHR 0xB9, CHR 0xE0, CHR 0xB8, CHR 0x81, CHR 0xE0, CHR 0xB8, CHR 0x84,
          CHR 0xE0, CHR 0xB9, CHR 0x89, CHR 0xE0, CHR 0xB8, CHR 0xB2, CHR 0xE0, CHR 0xB8,
          CHR 0x99, CHR 0xE0, CHR 0xB8, CHR 0xB1, CHR 0xE0, CHR 0xB8, CHR 0x81, CHR 0xE0,
          CHR 0xB8, CHR 0x97, CHR 0xE0, CHR 0xB9, CHR 0x88, CHR 0xE0, CHR 0xB8, CHR 0xAD,
          CHR 0xE0, CHR 0xB8, CHR 0x87, CHR 0xE0, CHR 0xB9, CHR 0x80, CHR 0xE0, CHR 0xB8,
          CHR 0x97, CHR 0xE0, CHR 0xB8, CHR 0xB5, CHR 0xE0, CHR 0xB9, CHR 0x88, CHR 0xE0,
          CHR 0xB8, CHR 0xA2, CHR 0xE0, CHR 0xB8, CHR 0xA7, CHR 0xE0, CHR 0xB8, CHR 0x97,
          CHR 0xE0, CHR 0xB8, CHR 0xB5, CHR 0xE0, CHR 0xB9, CHR 0x88, CHR 0xE0, CHR 0xB8,
          CHR 0x84, CHR 0xE0, CHR 0xB8, CHR 0xB2, CHR 0xE0, CHR 0xB8, CHR 0x94, CHR 0xE0,
          CHR 0xB8, CHR 0xA7, CHR 0xE0, CHR 0xB9, CHR 0x88, CHR 0xE0, CHR 0xB8, CHR 0xB2,
          CHR 0xE0, CHR 0xB8, CHR 0x88, CHR 0xE0, CHR 0xB8, CHR 0xB0, CHR 0xE0, CHR 0xB8,
          CHR 0xA1, CHR 0xE0, CHR 0xB8, CHR 0xB2]))],
          [(k_parameter, CStr ([CHR 0xE0, CHR 0xB8, CHR 0x84, CHR 0xE0, CHR 0xB8, CHR 0xA7,
          CHR 0xE0, CHR 0xB8, CHR 0xB2, CHR 0xE0, CHR 0xB8, CHR 0xA1, CHR 0xE0, CHR 0xB8,
          CHR 0x96, CHR 0xE0, CHR 0xB8, CHR 0xB5, CHR 0xE0, CHR 0xB9, CHR 0x88, CHR 0xE0,
          CHR 0xB8, CHR 0x81, CHR 0xE0, CHR 0xB8, CHR 0xB2, CHR 0xE0, CHR 0xB8, CHR 0xA3,
          CHR 0xE0, CHR 0xB8, CHR 0xA1, CHR 0xE0, CHR 0xB8, CHR 0xB2] @ '' ('' @ [CHR 0xE0,
          CHR 0xB8, CHR 0x97, CHR 0xE0, CHR 0xB9, CHR 0x89, CHR 0xE0, CHR 0xB8, CHR 0xAD,
          CHR 0xE0, CHR 0xB8, CHR 0x87, CHR 0xE0, CHR 0xB8, CHR 0x96, CHR 0xE0, CHR 0xB8,
          CHR 0xB4, CHR 0xE0, CHR 0xB9, CHR 0x88, CHR 0xE0, CHR 0xB8, CHR 0x99] @ '')'')),
          (k_value, CNum (localFrequency (inputValues exportData))), (k_unit, CStr u_days),
          (k_description, CStr ([CHR 0xE0, CHR 0xB8, CHR 0x88, CHR 0xE0, CHR 0xB8, CHR 0xB3,
          CHR 0xE0, CHR 0xB8, CHR 0x99, CHR 0xE0, CHR 0xB8, CHR 0xA7, CHR 0xE0, CHR 0xB8,
          CHR 0x99, CHR 0xE0, CHR 0xB8, CHR 0xA7, CHR 0xE0, CHR 0xB8, CHR 0xB1, CHR 0xE0,
          CHR 0xB8, CHR 0x99, CHR 0xE0, CHR 0xB8, CHR 0x97, CHR 0xE0, CHR 0xB8, CHR 0xB5,
          CHR 0xE0, CHR 0xB9, CHR 0x88, CHR 0xE0, CHR 0xB8, CHR 0xA5, CHR 0xE0, CHR 0xB8,
          CHR 0xB9, CHR 0xE0, CHR 0xB8, CHR 0x81, CHR 0xE0, CHR 0xB8, CHR 0x84, CHR 0xE0,
          CHR 0xB9, CHR 0x89, CHR 0xE0, CHR 0xB8, CHR 0xB2, CHR 0xE0, CHR 0xB8, CHR 0x97,
          CHR 0xE0, CHR 0xB9, CHR 0x89, CHR 0xE0, CHR 0xB8, CHR 0xAD, CHR 0xE0, CHR 0xB8,
          CHR 0x87, CHR 0xE0, CHR 0xB8, CHR 0x96, CHR 0xE0, CHR 0xB8, CHR 0xB4, CHR 0xE0,
          CHR 0xB9, CHR 0x88, CHR 0xE0, CHR 0xB8, CHR 0x99, CHR 0xE0, CHR 0xB8, CHR 0x81,
          CHR 0xE0, CHR 0xB8, CHR 0xA5, CHR 0xE0, CHR 0xB8, CHR 0xB1, CHR 0xE0, CHR 0xB8,
          CHR 0x9A, CHR 0xE0, CHR 0xB8, CHR 0xA1, CHR 0xE0, CHR 0xB8, CHR 0xB2, CHR 0xE0,
          CHR 0xB9, CHR 0x83, CHR 0xE0, CHR 0xB8, CHR 0xAB, CHR 0xE0, CHR 0xB8, CHR 0xA1,
          CHR 0xE0, CHR 0xB9, CHR 0x88] @ '' ('' @ [CHR 0xCF, CHR 0x84] @ '')''))],
          [(k_parameter, CStr ([CHR 0xE0, CHR 0xB8, CHR 0x84, CHR 0xE0, CHR 0xB8, CHR 0xA7,
          CHR 0xE0, CHR 0xB8, CHR 0xB2, CHR 0xE0, CHR 0xB8, CHR 0xA1, CHR 0xE0, CHR 0xB8,
          CHR 0x96, CHR 0xE0, CHR 0xB8, CHR 0xB5, CHR 0xE0, CHR 0xB9, CHR 0x88, CHR 0xE0,
          CHR 0xB8, CHR 0x81, CHR 0xE0, CHR 0xB8, CHR 0xB2, CHR 0xE0, CHR 0xB8, CHR 0xA3,
          CHR 0xE0, CHR 0xB8, CHR 0xA1, CHR 0xE0, CHR 0xB8, CHR 0xB2] @ '' ('' @ [CHR 0xE0,
          CHR 0xB8, CHR 0x99, CHR 0xE0, CHR 0xB8, CHR 0xB1, CHR 0xE0, CHR 0xB8, CHR 0x81,
          CHR 0xE0, CHR 0xB8, CHR 0x97, CHR 0xE0, CHR 0xB9, CHR 0x88, CHR 0xE0, CHR 0xB8,
          CHR 0xAD, CHR 0xE0, CHR 0xB8, CHR 0x87, CHR 0xE0, CHR 0xB9, CHR 0x80, CHR 0xE0,
          CHR 0xB8, CHR 0x97, CHR 0xE0, CHR 0xB8, CHR 0xB5, CHR 0xE0, CHR 0xB9, CHR 0x88,
          CHR 0xE0, CHR 0xB8, CHR 0xA2, CHR 0xE0, CHR 0xB8, CHR 0xA7] @ '')'')), (k_value,
          CNum (touristFrequency (inputValues exportData))), (k_unit, CStr u_days),
          (k_description, CStr ([CHR 0xE0, CHR 0xB8, CHR 0x88, CHR 0xE0, CHR 0xB8, CHR 0xB3,
          CHR 0xE0, CHR 0xB8, CHR 0x99, CHR 0xE0, CHR 0xB8, CHR 0xA7, CHR 0xE0, CHR 0xB8,
          CHR 0x99, CHR 0xE0, CHR 0xB8, CHR 0xA7, CHR 0xE0, CHR 0xB8, CHR 0xB1, CHR 0xE0,
          CHR 0xB8, CHR 0x99, CHR 0xE0, CHR 0xB8, CHR 0x97, CHR 0xE0, CHR 0xB8, CHR 0xB5,
          CHR 0xE0, CHR 0xB9, CHR 0x88, CHR 0xE0, CHR 0xB8, CHR 0x99, CHR 0xE0, CHR 0xB8,
          CHR 0xB1, CHR 0xE0, CHR 0xB8, CHR 0x81, CHR 0xE0, CHR 0xB8, CHR 0x97, CHR 0xE0,
          CHR 0xB9, CHR 0x88, CHR 0xE0, CHR 0xB8, CHR 0xAD, CHR 0xE0, CHR 0xB8, CHR 0x87,
          CHR 0xE0, CHR 0xB9, CHR 0x80, CHR 0xE0, CHR 0xB8, CHR 0x97, CHR 0xE0, CHR 0xB8,
          CHR 0xB5, CHR 0xE0, CHR 0xB9, CHR 0x88, CHR 0xE0, CHR 0xB8, CHR 0xA2, CHR 0xE0,
          CHR 0xB8, CHR 0xA7, CHR 0xE0, CHR 0xB8, CHR 0x81, CHR 0xE0, CHR 0xB8, CHR 0xA5,
          CHR 0xE0, CHR 0xB8, CHR 0xB1, CHR 0xE0, CHR 0xB8, CHR 0x9A, CHR 0xE0, CHR 0xB8,
          CHR 0xA1, CHR 0xE0, CHR 0xB8, CHR 0xB2, CHR 0xE0, CHR 0xB9, CHR 0x83, CHR 0xE0,
          CHR 0xB8, CHR 0xAB, CHR 0xE0, CHR 0xB8, CHR 0xA1, CHR 0xE0, CHR 0xB9, CHR 0x88] @
          '' ('' @ [CHR 0xCF, CHR 0x84] @ '')''))],
          [(k_parameter, CStr (''Target '' @ [CHR 0xE0, CHR 0xB8, CHR 0x88, CHR 0xE0, CHR 0xB8,
          CHR 0xB2, CHR 0xE0, CHR 0xB8, CHR 0x99, CHR 0xE0, CHR 0xB8, CHR 0x95, CHR 0xE0,
          CHR 0xB9, CHR 0x88, CHR 0xE0, CHR 0xB8, CHR 0xAD, CHR 0xE0, CHR 0xB8, CHR 0xA7,
          CHR 0xE0, CHR 0xB8, CHR 0xB1, CHR 0xE0, CHR 0xB8, CHR 0x99])), (k_value,
          CNum (targetDishes (inputValues exportData))), (k_unit, CStr u_dishes),
          (k_description, CStr ([CHR 0xE0, CHR 0xB9, CHR 0x80, CHR 0xE0, CHR 0xB8, CHR 0x9B,
          CHR 0xE0, CHR 0xB9, CHR 0x89, CHR 0xE0, CHR 0xB8, CHR 0xB2, CHR 0xE0, CHR 0xB8,
          CHR 0xAB, CHR 0xE0, CHR 0xB8, CHR 0xA1, CHR 0xE0, CHR 0xB8, CHR 0xB2, CHR 0xE0,
          CHR 0xB8, CHR 0xA2, CHR 0xE0, CHR 0xB8, CHR 0x88, CHR 0xE0, CHR 0xB8, CHR 0xB3,
          CHR 0xE0, CHR 0xB8, CHR 0x99, CHR 0xE0, CHR 0xB8, CHR 0xA7, CHR 0xE0, CHR 0xB8,
          CHR 0x99, CHR 0xE0, CHR 0xB8, CHR 0x88, CHR 0xE0, CHR 0xB8, CHR 0xB2, CHR 0xE0,
          CHR 0xB8, CHR 0x99, CHR 0xE0, CHR 0xB8, CHR 0x97, CHR 0xE0, CHR 0xB8, CHR 0xB5,
          CHR 0xE0, CHR 0xB9, CHR 0x88, CHR 0xE0, CHR 0xB8, CHR 0x95, CHR 0xE0, CHR 0xB9,
          CHR 0x89, CHR 0xE0, CHR 0xB8, CHR 0xAD, CHR 0xE0, CHR 0xB8, CHR 0x87, CHR 0xE0,
          CHR 0xB8, CHR 0x81, CHR 0xE0, CHR 0xB8, CHR 0xB2, CHR 0xE0, CHR 0xB8, CHR 0xA3,
          CHR 0xE0, CHR 0xB8, CHR 0x82, CHR 0xE0, CHR 0xB8, CHR 0xB2, CHR 0xE0, CHR 0xB8,
          CHR 0xA2, CHR 0xE0, CHR 0xB8, CHR 0x95, CHR 0xE0, CHR 0xB9, CHR 0x88, CHR 0xE0,
          CHR 0xB8, CHR 0xAD, CHR 0xE0, CHR 0xB8, CHR 0xA7, CHR 0xE0, CHR 0xB8, CHR 0xB1,
          CHR 0xE0, CHR 0xB8, CHR 0x99]))],
          [(k_parameter, CStr ([CHR 0xE0, CHR 0xB8, CHR 0x82, CHR 0xE0, CHR 0xB8, CHR 0x99,
          CHR 0xE0, CHR 0xB8, CHR 0xB2, CHR 0xE0, CHR 0xB8, CHR 0x94, CHR 0xE0, CHR 0xB8,
          CHR 0x81, CHR 0xE0, CHR 0xB8, CHR 0xA5, CHR 0xE0, CHR 0xB8, CHR 0xB8, CHR 0xE0,
          CHR 0xB9, CHR 0x88, CHR 0xE0, CHR 0xB8, CHR 0xA1, CHR 0xE0, CHR 0xB9, CHR 0x80,
          CHR 0xE0, CHR 0xB8, CHR 0x89, CHR 0xE0, CHR 0xB8, CHR 0xA5, CHR 0xE0, CHR 0xB8,
          CHR 0xB5, CHR 0xE0, CHR 0xB9, CHR 0x88, CHR 0xE0, CHR 0xB8, CHR 0xA2])), (k_value,
          CNum (avgGroupSize (inputValues exportData))), (k_unit, CStr u_people),
          (k_description, CStr ([CHR 0xE0, CHR 0xB8, CHR 0x88, CHR 0xE0, CHR 0xB8, CHR 0xB3,
          CHR 0xE0, CHR 0xB8, CHR 0x99, CHR 0xE0, CHR 0xB8, CHR 0xA7, CHR 0xE0, CHR 0xB8,
          CHR 0x99, CHR 0xE0, CHR 0xB8, CHR 0x84, CHR 0xE0, CHR 0xB8, CHR 0x99, CHR 0xE0,
          CHR 0xB9, CHR 0x80, CHR 0xE0, CHR 0xB8, CHR 0x89, CHR 0xE0, CHR 0xB8, CHR 0xA5,
          CHR 0xE0, CHR 0xB8, CHR 0xB5, CHR 0xE0, CHR 0xB9, CHR 0x88, CHR 0xE0, CHR 0xB8,
          CHR 0xA2, CHR 0xE0, CHR 0xB8, CHR 0x95, CHR 0xE0, CHR 0xB9, CHR 0x88, CHR 0xE0,
          CHR 0xB8, CHR 0xAD, CHR 0xE0, CHR 0xB9, CHR 0x82, CHR 0xE0, CHR 0xB8, CHR 0x95,
          CHR 0xE0, CHR 0xB9, CHR 0x8A, CHR 0xE0, CHR 0xB8, CHR 0xB0]))],
          [(k_parameter, CStr ([CHR 0xE0, CHR 0xB8, CHR 0x88, CHR 0xE0, CHR 0xB8, CHR 0xB2,
          CHR 0xE0, CHR 0xB8, CHR 0x99, CHR 0xE0, CHR 0xB8, CHR 0x95, CHR 0xE0, CHR 0xB9,
          CHR 0x88, CHR 0xE0, CHR 0xB8, CHR 0xAD, CHR 0xE0, CHR 0xB8, CHR 0x84, CHR 0xE0,
          CHR 0xB8, CHR 0x99, CHR 0xE0, CHR 0xB8, CHR 0x95, CHR 0xE0, CHR 0xB9, CHR 0x88,
          CHR 0xE0, CHR 0xB8, CHR 0xAD, CHR 0xE0, CHR 0xB8, CHR 0x84, CHR 0xE0, CHR 0xB8,
          CHR 0xA3, CHR 0xE0, CHR 0xB8, CHR 0xB1, CHR 0xE0, CHR 0xB9, CHR 0x89, CHR 0xE0,
          CHR 0xB8, CHR 0x87] @ '' ('' @ [CHR 0xCE, CHR 0xBC] @ '')'')), (k_value,
          CNum (dishesPerPerson (inputValues exportData))), (k_unit, CStr u_dishes),
          (k_description, CStr ([CHR 0xE0, CHR 0xB8, CHR 0x88, CHR 0xE0, CHR 0xB8, CHR 0xB3,
          CHR 0xE0, CHR 0xB8, CHR 0x99, CHR 0xE0, CHR 0xB8, CHR 0xA7, CHR 0xE0, CHR 0xB8,
          CHR 0x99, CHR 0xE0, CHR 0xB8, CHR 0x88, CHR 0xE0, CHR 0xB8, CHR 0xB2, CHR 0xE0,
          CHR 0xB8, CHR 0x99, CHR 0xE0, CHR 0xB9, CHR 0x80, CHR 0xE0, CHR 0xB8, CHR 0x89,
          CHR 0xE0, CHR 0xB8, CHR 0xA5, CHR 0xE0, CHR 0xB8, CHR 0xB5, CHR 0xE0, CHR 0xB9,
          CHR 0x88, CHR 0xE0, CHR 0xB8, CHR 0xA2, CHR 0xE0, CHR 0xB8, CHR 0x97, CHR 0xE0,
          CHR 0xB8, CHR 0xB5, CHR 0xE0, CHR 0xB9, CHR 0x88, CHR 0xE0, CHR 0xB8, CHR 0xA5,
          CHR 0xE0, CHR 0xB8, CHR 0xB9, CHR 0xE0, CHR 0xB8, CHR 0x81, CHR 0xE0, CHR 0xB8,
          CHR 0x84, CHR 0xE0, CHR 0xB9, CHR 0x89, CHR 0xE0, CHR 0xB8, CHR 0xB2, CHR 0xE0,
          CHR 0xB8, CHR 0xAB, CHR 0xE0, CHR 0xB8, CHR 0x99, CHR 0xE0, CHR 0xB8, CHR 0xB6,
          CHR 0xE0, CHR 0xB9, CHR 0x88, CHR 0xE0, CHR 0xB8, CHR 0x87, CHR 0xE0, CHR 0xB8,
          CHR 0x84, CHR 0xE0, CHR 0xB8, CHR 0x99, CHR 0xE0, CHR 0xB8, CHR 0xAA, CHR 0xE0,
          CHR 0xB8, CHR 0xB1, CHR 0xE0, CHR 0xB9, CHR 0x88, CHR 0xE0, CHR 0xB8, CHR 0x87,
          CHR 0xE0, CHR 0xB8, CHR 0x95, CHR 0xE0, CHR 0xB9, CHR 0x88, CHR 0xE0, CHR 0xB8,
          CHR 0xAD, CHR 0xE0, CHR 0xB8, CHR 0x84, CHR 0xE0, CHR 0xB8, CHR 0xA3, CHR 0xE0,
          CHR 0xB8, CHR 0xB1, CHR 0xE0, CHR 0xB9, CHR 0x89, CHR 0xE0, CHR 0xB8, CHR 0x87] @
          '' ('' @ [CHR 0xCE, CHR 0xBC] @ '')''))],
          [(k_parameter, CStr (''Walk-in '' @ [CHR 0xE0, CHR 0xB8, CHR 0x95, CHR 0xE0,
          CHR 0xB9, CHR 0x88, CHR 0xE0, CHR 0xB8, CHR 0xAD, CHR 0xE0, CHR 0xB8, CHR 0xA7,
          CHR 0xE0, CHR 0xB8, CHR 0xB1, CHR 0xE0, CHR 0xB8, CHR 0x99])), (k_value,
          CNum (walkInDaily (inputValues exportData))), (k_unit, CStr u_people),
          (k_description, CStr ([CHR 0xE0, CHR 0xB8, CHR 0x88, CHR 0xE0, CHR 0xB8, CHR 0xB3,
          CHR 0xE0, CHR 0xB8, CHR 0x99, CHR 0xE0, CHR 0xB8, CHR 0xA7, CHR 0xE0, CHR 0xB8,
          CHR 0x99, CHR 0xE0, CHR 0xB8, CHR 0xA5, CHR 0xE0, CHR 0xB8, CHR 0xB9, CHR 0xE0,
          CHR 0xB8, CHR 0x81, CHR 0xE0, CHR 0xB8, CHR 0x84, CHR 0xE0, CHR 0xB9, CHR 0x89,
          CHR 0xE0, CHR 0xB8, CHR 0xB2] @ '' Walk-in '' @ [CHR 0xE0, CHR 0xB9, CHR 0x80,
          CHR 0xE0, CHR 0xB8, CHR 0x89, CHR 0xE0, CHR 0xB8, CHR 0xA5, CHR 0xE0, CHR 0xB8,
          CHR 0xB5, CHR 0xE0, CHR 0xB9, CHR 0x88, CHR 0xE0, CHR 0xB8, CHR 0xA2, CHR 0xE0,
          CHR 0xB8, CHR 0x95, CHR 0xE0, CHR 0xB9, CHR 0x88, CHR 0xE0, CHR 0xB8, CHR 0xAD,
          CHR 0xE0, CHR 0xB8, CHR 0xA7, CHR 0xE0, CHR 0xB8, CHR 0xB1, CHR 0xE0, CHR 0xB8,
          CHR 0x99]))],
          [(k_parameter, CStr ([CHR 0xE0, CHR 0xB9, CHR 0x82, CHR 0xE0, CHR 0xB8, CHR 0xAD,
          CHR 0xE0, CHR 0xB8, CHR 0x81, CHR 0xE0, CHR 0xB8, CHR 0xB2, CHR 0xE0, CHR 0xB8,
          CHR 0xAA, CHR 0xE0, CHR 0xB8, CHR 0xA1, CHR 0xE0, CHR 0xB8, CHR 0xB2, CHR 0xE0,
          CHR 0xB8, CHR 0xA7, CHR 0xE0, CHR 0xB8, CHR 0xB1, CHR 0xE0, CHR 0xB8, CHR 0x99,
          CHR 0xE0, CHR 0xB8, CHR 0x98, CHR 0xE0, CHR 0xB8, CHR 0xA3, CHR 0xE0, CHR 0xB8,
          CHR 0xA3, CHR 0xE0, CHR 0xB8, CHR 0xA1, CHR 0xE0, CHR 0xB8, CHR 0x94, CHR 0xE0,
          CHR 0xB8, CHR 0xB2])), (k_value, CNum (weekdayShowUp (inputValues exportData))),
          (k_unit, CStr ''%''), (k_description, CStr ([CHR 0xE0, CHR 0xB9, CHR 0x82, CHR 0xE0,
          CHR 0xB8, CHR 0xAD, CHR 0xE0, CHR 0xB8, CHR 0x81, CHR 0xE0, CHR 0xB8, CHR 0xB2,
          CHR 0xE0, CHR 0xB8, CHR 0xAA, CHR 0xE0, CHR 0xB8, CHR 0x97, CHR 0xE0, CHR 0xB8,
          CHR 0xB5, CHR 0xE0, CHR 0xB9, CHR 0x88, CHR 0xE0, CHR 0xB8, CHR 0xA5, CHR 0xE0,
          CHR 0xB8, CHR 0xB9, CHR 0xE0, CHR 0xB8, CHR 0x81, CHR 0xE0, CHR 0xB8, CHR 0x84,
          CHR 0xE0, CHR 0xB9, CHR 0x89, CHR 0xE0, CHR 0xB8, CHR 0xB2, CHR 0xE0, CHR 0xB8,
          CHR 0x88, CHR 0xE0, CHR 0xB8, CHR 0xB0, CHR 0xE0, CHR 0xB8, CHR 0xA1, CHR 0xE0,
          CHR 0xB8, CHR 0xB2, CHR 0xE0, CHR 0xB9, CHR 0x83, CHR 0xE0, CHR 0xB8, CHR 0x99,
          CHR 0xE0, CHR 0xB8, CHR 0xA7, CHR 0xE0, CHR 0xB8, CHR 0xB1, CHR 0xE0, CHR 0xB8,
          CHR 0x99, CHR 0xE0, CHR 0xB8, CHR 0x98, CHR 0xE0, CHR 0xB8, CHR 0xA3, CHR 0xE0,
          CHR 0xB8, CHR 0xA3, CHR 0xE0, CHR 0xB8, CHR 0xA1, CHR 0xE0, CHR 0xB8, CHR 0x94,
          CHR 0xE0, CHR 0xB8, CHR 0xB2]))],
          [(k_parameter, CStr ([CHR 0xE0, CHR 0xB9, CHR 0x82, CHR 0xE0, CHR 0xB8, CHR 0xAD,
          CHR 0xE0, CHR 0xB8, CHR 0x81, CHR 0xE0, CHR 0xB8, CHR 0xB2, CHR 0xE0, CHR 0xB8,
          CHR 0xAA, CHR 0xE0, CHR 0xB8, CHR 0xA1, CHR 0xE0, CHR 0xB8, CHR 0xB2, CHR 0xE0,
          CHR 0xB8, CHR 0xA7, CHR 0xE0, CHR 0xB8, CHR 0xB1, CHR 0xE0, CHR 0xB8, CHR 0x99,
          CHR 0xE0, CHR 0xB8, CHR 0xAB, CHR 0xE0, CHR 0xB8, CHR 0xA2, CHR 0xE0, CHR 0xB8,
          CHR 0xB8, CHR 0xE0, CHR 0xB8, CHR 0x94])), (k_value,
          CNum (weekendShowUp (inputValues exportData))), (k_unit, CStr ''%''), (k_description,
          CStr ([CHR 0xE0, CHR 0xB9, CHR 0x82, CHR 0xE0, CHR 0xB8, CHR 0xAD, CHR 0xE0,
          CHR 0xB8, CHR 0x81, CHR 0xE0, CHR 0xB8, CHR 0xB2, CHR 0xE0, CHR 0xB8, CHR 0xAA,
          CHR 0xE0, CHR 0xB8, CHR 0x97, CHR 0xE0, CHR 0xB8, CHR 0xB5, CHR 0xE0, CHR 0xB9,
          CHR 0x88, CHR 0xE0, CHR 0xB8, CHR 0xA5, CHR 0xE0, CHR 0xB8, CHR 0xB9, CHR 0xE0,
          CHR 0xB8, CHR 0x81, CHR 0xE0, CHR 0xB8, CHR 0x84, CHR 0xE0, CHR 0xB9, CHR 0x89,
          CHR 0xE0, CHR 0xB8, CHR 0xB2, CHR 0xE0, CHR 0xB8, CHR 0x88, CHR 0xE0, CHR 0xB8,
          CHR 0xB0, CHR 0xE0, CHR 0xB8, CHR 0xA1, CHR 0xE0, CHR 0xB8, CHR 0xB2, CHR 0xE0,
          CHR 0xB9, CHR 0x83, CHR 0xE0, CHR 0xB8, CHR 0x99, CHR 0xE0, CHR 0xB8, CHR 0xA7,
          CHR 0xE0, CHR 0xB8, CHR 0xB1, CHR 0xE0, CHR 0xB8, CHR 0x99, CHR 0xE0, CHR 0xB8,
          CHR 0xAB, CHR 0xE0, CHR 0xB8, CHR 0xA2, CHR 0xE0, CHR 0xB8, CHR 0xB8, CHR 0xE0,
          CHR 0xB8, CHR 0x94]))],
          [(k_parameter, CStr ([CHR 0xE0, CHR 0xB8, CHR 0xAD, CHR 0xE0, CHR 0xB8, CHR 0xB1,
          CHR 0xE0, CHR 0xB8, CHR 0x95, CHR 0xE0, CHR 0xB8, CHR 0xA3, CHR 0xE0, CHR 0xB8,
          CHR 0xB2] @ '' No-show'')), (k_value, CNum (noShowRate (inputValues exportData))),
          (k_unit, CStr ''%''), (k_description, CStr ([CHR 0xE0, CHR 0xB9, CHR 0x80, CHR 0xE0,
          CHR 0xB8, CHR 0x9B, CHR 0xE0, CHR 0xB8, CHR 0xAD, CHR 0xE0, CHR 0xB8, CHR 0xA3,
          CHR 0xE0, CHR 0xB9, CHR 0x8C, CHR 0xE0, CHR 0xB9, CHR 0x80, CHR 0xE0, CHR 0xB8,
          CHR 0x8B, CHR 0xE0, CHR 0xB9, CHR 0x87, CHR 0xE0, CHR 0xB8, CHR 0x99, CHR 0xE0,
          CHR 0xB8, CHR 0x95, CHR 0xE0, CHR 0xB9, CHR 0x8C, CHR 0xE0, CHR 0xB8, CHR 0xA5,
          CHR 0xE0, CHR 0xB8, CHR 0xB9, CHR 0xE0, CHR 0xB8, CHR 0x81, CHR 0xE0, CHR 0xB8,
          CHR 0x84, CHR 0xE0, CHR 0xB9, CHR 0x89, CHR 0xE0, CHR 0xB8, CHR 0xB2, CHR 0xE0,
          CHR 0xB8, CHR 0x97, CHR 0xE0, CHR 0xB8, CHR 0xB5, CHR 0xE0, CHR 0xB9, CHR 0x88,
          CHR 0xE0, CHR 0xB8, CHR 0x88, CHR 0xE0, CHR 0xB8, CHR 0xAD, CHR 0xE0, CHR 0xB8,
          CHR 0x87, CHR 0xE0, CHR 0xB9, CHR 0x81, CHR 0xE0, CHR 0xB8, CHR 0xA5, CHR 0xE0,
          CHR 0xB9, CHR 0x89, CHR 0xE0, CHR 0xB8, CHR 0xA7, CHR 0xE0, CHR 0xB9, CHR 0x84,
          CHR 0xE0, CHR 0xB8, CHR 0xA1, CHR 0xE0, CHR 0xB9, CHR 0x88, CHR 0xE0, CHR 0xB8,
          CHR 0xA1, CHR 0xE0, CHR 0xB8, CHR 0xB2]))]]\<rparr>"

text \<open>The section of the calculated results.\<close>

definition results_section :: "FullExportData \<Rightarrow> CsvSection" where
  "results_section exportData =
     \<lparr>title =
         [CHR 0xF0, CHR 0x9F, CHR 0xA7, CHR 0xAE] @ '' '' @ [CHR 0xE0, CHR 0xB8, CHR 0x9C,
         CHR 0xE0, CHR 0xB8, CHR 0xA5, CHR 0xE0, CHR 0xB8, CHR 0x81, CHR 0xE0, CHR 0xB8,
         CHR 0xB2, CHR 0xE0, CHR 0xB8, CHR 0xA3, CHR 0xE0, CHR 0xB8, CHR 0x84, CHR 0xE0,
         CHR 0xB8, CHR 0xB3, CHR 0xE0, CHR 0xB8, CHR 0x99, CHR 0xE0, CHR 0xB8, CHR 0xA7,
         CHR 0xE0, CHR 0xB8, CHR 0x93] @ '' (Calculated Results)'',
       headers = [k_metric, k_value, k_unit, k_formula],
       rows =
         [[(k_metric, CStr (''Active Base ('' @ [CHR 0xE0, CHR 0xB8, CHR 0x97, CHR 0xE0,
          CHR 0xB9, CHR 0x89, CHR 0xE0, CHR 0xB8, CHR 0xAD, CHR 0xE0, CHR 0xB8, CHR 0x87,
          CHR 0xE0, CHR 0xB8, CHR 0x96, CHR 0xE0, CHR 0xB8, CHR 0xB4, CHR 0xE0, CHR 0xB9,
          CHR 0x88, CHR 0xE0, CHR 0xB8, CHR 0x99] @ '')'')), (k_value,
          CNum (localActiveBase (calculatedResults exportData))), (k_unit, CStr u_people),
          (k_formula, CStr (''A = D '' @ [CHR 0xC3, CHR 0x97] @ '' '' @ [CHR 0xCF, CHR 0x84] @
          '' / '' @ [CHR 0xCE, CHR 0xBC]))],
          [(k_metric, CStr (''Active Base ('' @ [CHR 0xE0, CHR 0xB8, CHR 0x99, CHR 0xE0,
          CHR 0xB8, CHR 0xB1, CHR 0xE0, CHR 0xB8, CHR 0x81, CHR 0xE0, CHR 0xB8, CHR 0x97,
          CHR 0xE0, CHR 0xB9, CHR 0x88, CHR 0xE0, CHR 0xB8, CHR 0xAD, CHR 0xE0, CHR 0xB8,
          CHR 0x87, CHR 0xE0, CHR 0xB9, CHR 0x80, CHR 0xE0, CHR 0xB8, CHR 0x97, CHR 0xE0,
          CHR 0xB8, CHR 0xB5, CHR 0xE0, CHR 0xB9, CHR 0x88, CHR 0xE0, CHR 0xB8, CHR 0xA2,
          CHR 0xE0, CHR 0xB8, CHR 0xA7] @ '')'')), (k_value,
          CNum (touristActiveBase (calculatedResults exportData))), (k_unit, CStr u_people),
          (k_formula, CStr (''A = D '' @ [CHR 0xC3, CHR 0x97] @ '' '' @ [CHR 0xCF, CHR 0x84] @
          '' / '' @ [CHR 0xCE, CHR 0xBC]))],
          [(k_metric, CStr (''Capacity ('' @ [CHR 0xE0, CHR 0xB8, CHR 0x97, CHR 0xE0, CHR 0xB9,
          CHR 0x89, CHR 0xE0, CHR 0xB8, CHR 0xAD, CHR 0xE0, CHR 0xB8, CHR 0x87, CHR 0xE0,
          CHR 0xB8, CHR 0x96, CHR 0xE0, CHR 0xB8, CHR 0xB4, CHR 0xE0, CHR 0xB9, CHR 0x88,
          CHR 0xE0, CHR 0xB8, CHR 0x99] @ '')'')), (k_value,
          CNum (localCapacity (calculatedResults exportData))), (k_unit,
          CStr u_dishes_per_day), (k_formula, CStr (''C = N '' @ [CHR 0xC3, CHR 0x97] @ '' '' @
          [CHR 0xCE, CHR 0xBC] @ '' '' @ [CHR 0xC3, CHR 0x97] @ '' S / '' @ [CHR 0xCF,
          CHR 0x84]))],
          [(k_metric, CStr (''Capacity ('' @ [CHR 0xE0, CHR 0xB8, CHR 0x99, CHR 0xE0, CHR 0xB8,
          CHR 0xB1, CHR 0xE0, CHR 0xB8, CHR 0x81, CHR 0xE0, CHR 0xB8, CHR 0x97, CHR 0xE0,
          CHR 0xB9, CHR 0x88, CHR 0xE0, CHR 0xB8, CHR 0xAD, CHR 0xE0, CHR 0xB8, CHR 0x87,
          CHR 0xE0, CHR 0xB9, CHR 0x80, CHR 0xE0, CHR 0xB8, CHR 0x97, CHR 0xE0, CHR 0xB8,
          CHR 0xB5, CHR 0xE0, CHR 0xB9, CHR 0x88, CHR 0xE0, CHR 0xB8, CHR 0xA2, CHR 0xE0,
          CHR 0xB8, CHR 0xA7] @ '')'')), (k_value,
          CNum (touristCapacity (calculatedResults exportData))), (k_unit,
          CStr u_dishes_per_day), (k_formula, CStr (''C = N '' @ [CHR 0xC3, CHR 0x97] @ '' '' @
          [CHR 0xCE, CHR 0xBC] @ '' '' @ [CHR 0xC3, CHR 0x97] @ '' S / '' @ [CHR 0xCF,
          CHR 0x84]))],
          [(k_metric, CStr (''Capacity (Walk-in)'')), (k_value,
          CNum (walkInCapacity (calculatedResults exportData))), (k_unit,
          CStr u_dishes_per_day), (k_formula, CStr (''C = W '' @ [CHR 0xC3, CHR 0x97] @ '' '' @
          [CHR 0xCE, CHR 0xBC] @ '' '' @ [CHR 0xC3, CHR 0x97] @ '' S''))],
          [(k_metric, CStr (''Total Capacity'')), (k_value,
          CNum (totalCapacity (calculatedResults exportData))), (k_unit,
          CStr u_dishes_per_day), (k_formula, CStr (''TC = LC + TouC + WC''))],
          [(k_metric, CStr (''Groups '' @ [CHR 0xE0, CHR 0xB8, CHR 0x95, CHR 0xE0, CHR 0xB9,
          CHR 0x88, CHR 0xE0, CHR 0xB8, CHR 0xAD, CHR 0xE0, CHR 0xB8, CHR 0xA7, CHR 0xE0,
          CHR 0xB8, CHR 0xB1, CHR 0xE0, CHR 0xB8, CHR 0x99])), (k_value,
          CNum (Number_of_toFixed1 (groupsPerDay (calculatedResults exportData)))), (k_unit,
          CStr u_groups), (k_formula, CStr (''G = Total Customers / Group Size''))],
          [(k_metric, CStr (''Gap ('' @ [CHR 0xE0, CHR 0xB9, CHR 0x80, CHR 0xE0, CHR 0xB8,
          CHR 0x81, CHR 0xE0, CHR 0xB8, CHR 0xB4, CHR 0xE0, CHR 0xB8, CHR 0x99] @ ''/'' @
          [CHR 0xE0, CHR 0xB8, CHR 0x82, CHR 0xE0, CHR 0xB8, CHR 0xB2, CHR 0xE0, CHR 0xB8,
          CHR 0x94] @ '')'')), (k_value, CNum (gap (calculatedResults exportData))), (k_unit,
          CStr u_dishes), (k_formula, CStr (''Gap = Total Capacity - Target''))],
          [(k_metric, CStr (''Utilization Rate'')), (k_value,
          CNum (results_utilizationRate (calculatedResults exportData))), (k_unit, CStr ''%''),
          (k_formula, CStr (''UR = (Target / Total Capacity) '' @ [CHR 0xC3, CHR 0x97] @
          '' 100''))]]\<rparr>"

text \<open>The analysis summary.\<close>

definition analysis_section :: "(real \<Rightarrow> string) \<Rightarrow> FullExportData \<Rightarrow> CsvSection" where
  "analysis_section digits exportData =
     \<lparr>title =
         [CHR 0xF0, CHR 0x9F, CHR 0x93, CHR 0x88] @ '' '' @ [CHR 0xE0, CHR 0xB8, CHR 0xAA,
         CHR 0xE0, CHR 0xB8, CHR 0xA3, CHR 0xE0, CHR 0xB8, CHR 0xB8, CHR 0xE0, CHR 0xB8,
         CHR 0x9B, CHR 0xE0, CHR 0xB8, CHR 0x81, CHR 0xE0, CHR 0xB8, CHR 0xB2, CHR 0xE0,
         CHR 0xB8, CHR 0xA3, CHR 0xE0, CHR 0xB8, CHR 0xA7, CHR 0xE0, CHR 0xB8, CHR 0xB4,
         CHR 0xE0, CHR 0xB9, CHR 0x80, CHR 0xE0, CHR 0xB8, CHR 0x84, CHR 0xE0, CHR 0xB8,
         CHR 0xA3, CHR 0xE0, CHR 0xB8, CHR 0xB2, CHR 0xE0, CHR 0xB8, CHR 0xB0, CHR 0xE0,
         CHR 0xB8, CHR 0xAB, CHR 0xE0, CHR 0xB9, CHR 0x8C] @ '' (Analysis Summary)'',
       headers = [k_topic, k_result],
       rows =
         [[(k_topic, CStr ([CHR 0xE0, CHR 0xB8, CHR 0xAA, CHR 0xE0, CHR 0xB8, CHR 0x96,
          CHR 0xE0, CHR 0xB8, CHR 0xB2, CHR 0xE0, CHR 0xB8, CHR 0x99, CHR 0xE0, CHR 0xB8,
          CHR 0xB0, CHR 0xE0, CHR 0xB8, CHR 0x9B, CHR 0xE0, CHR 0xB8, CHR 0xB1, CHR 0xE0,
          CHR 0xB8, CHR 0x88, CHR 0xE0, CHR 0xB8, CHR 0x88, CHR 0xE0, CHR 0xB8, CHR 0xB8,
          CHR 0xE0, CHR 0xB8, CHR 0x9A, CHR 0xE0, CHR 0xB8, CHR 0xB1, CHR 0xE0, CHR 0xB8,
          CHR 0x99])), (k_result, CStr (status (analysis exportData)))],
          [(k_topic, CStr ([CHR 0xE0, CHR 0xB8, CHR 0xAA, CHR 0xE0, CHR 0xB8, CHR 0x96,
          CHR 0xE0, CHR 0xB8, CHR 0xB2, CHR 0xE0, CHR 0xB8, CHR 0x99, CHR 0xE0, CHR 0xB8,
          CHR 0xB0, CHR 0xE0, CHR 0xB8, CHR 0x81, CHR 0xE0, CHR 0xB8, CHR 0xB3, CHR 0xE0,
          CHR 0xB8, CHR 0xA5, CHR 0xE0, CHR 0xB8, CHR 0xB1, CHR 0xE0, CHR 0xB8, CHR 0x87,
          CHR 0xE0, CHR 0xB8, CHR 0x81, CHR 0xE0, CHR 0xB8, CHR 0xB2, CHR 0xE0, CHR 0xB8,
          CHR 0xA3, CHR 0xE0, CHR 0xB8, CHR 0x9C, CHR 0xE0, CHR 0xB8, CHR 0xA5, CHR 0xE0,
          CHR 0xB8, CHR 0xB4, CHR 0xE0, CHR 0xB8, CHR 0x95])), (k_result,
          CStr (capacityStatus (analysis exportData)))],
          [(k_topic, CStr ([CHR 0xE0, CHR 0xB8, CHR 0xAD, CHR 0xE0, CHR 0xB8, CHR 0xB1,
          CHR 0xE0, CHR 0xB8, CHR 0x95, CHR 0xE0, CHR 0xB8, CHR 0xA3, CHR 0xE0, CHR 0xB8,
          CHR 0xB2, CHR 0xE0, CHR 0xB8, CHR 0x81, CHR 0xE0, CHR 0xB8, CHR 0xB2, CHR 0xE0,
          CHR 0xB8, CHR 0xA3, CHR 0xE0, CHR 0xB9, CHR 0x83, CHR 0xE0, CHR 0xB8, CHR 0x8A,
          CHR 0xE0, CHR 0xB9, CHR 0x89, CHR 0xE0, CHR 0xB8, CHR 0x81, CHR 0xE0, CHR 0xB8,
          CHR 0xB3, CHR 0xE0, CHR 0xB8, CHR 0xA5, CHR 0xE0, CHR 0xB8, CHR 0xB1, CHR 0xE0,
          CHR 0xB8, CHR 0x87, CHR 0xE0, CHR 0xB8, CHR 0x81, CHR 0xE0, CHR 0xB8, CHR 0xB2,
          CHR 0xE0, CHR 0xB8, CHR 0xA3, CHR 0xE0, CHR 0xB8, CHR 0x9C, CHR 0xE0, CHR 0xB8,
          CHR 0xA5, CHR 0xE0, CHR 0xB8, CHR 0xB4, CHR 0xE0, CHR 0xB8, CHR 0x95])), (k_result,
          CStr (Number_toString digits (utilizationRate (analysis exportData)) @ ''%''))],
          [(k_topic, CStr ([CHR 0xE0, CHR 0xB8, CHR 0x84, CHR 0xE0, CHR 0xB8, CHR 0xB3,
          CHR 0xE0, CHR 0xB9, CHR 0x81, CHR 0xE0, CHR 0xB8, CHR 0x99, CHR 0xE0, CHR 0xB8,
          CHR 0xB0, CHR 0xE0, CHR 0xB8, CHR 0x99, CHR 0xE0, CHR 0xB8, CHR 0xB3])), (k_result,
          CStr (recommendation (analysis exportData)))]]\<rparr>"

text \<open>The capacity breakdown; \<open>totalCap\<close> is the source's \<open>totalCapacity\<close>.\<close>

definition breakdown_section :: "(real \<Rightarrow> string) \<Rightarrow> FullExportData \<Rightarrow> CsvSection" where
  "breakdown_section digits exportData =
     (let totalCap = totalCapacity (calculatedResults exportData)
      in \<lparr>title =
             [CHR 0xF0, CHR 0x9F, CHR 0x94, CHR 0x8D] @ '' '' @ [CHR 0xE0, CHR 0xB8, CHR 0xA3,
             CHR 0xE0, CHR 0xB8, CHR 0xB2, CHR 0xE0, CHR 0xB8, CHR 0xA2, CHR 0xE0, CHR 0xB8,
             CHR 0xA5, CHR 0xE0, CHR 0xB8, CHR 0xB0, CHR 0xE0, CHR 0xB9, CHR 0x80, CHR 0xE0,
             CHR 0xB8, CHR 0xAD, CHR 0xE0, CHR 0xB8, CHR 0xB5, CHR 0xE0, CHR 0xB8, CHR 0xA2,
             CHR 0xE0, CHR 0xB8, CHR 0x94] @ '' Capacity (Capacity Breakdown)'',
           headers = [k_customer_type, k_capacity, k_percent_of_total, k_recommended_share],
           rows =
             [[(k_customer_type, CStr ([CHR 0xE0, CHR 0xB8, CHR 0xA5, CHR 0xE0, CHR 0xB8,
              CHR 0xB9, CHR 0xE0, CHR 0xB8, CHR 0x81, CHR 0xE0, CHR 0xB8, CHR 0x84, CHR 0xE0,
              CHR 0xB9, CHR 0x89, CHR 0xE0, CHR 0xB8, CHR 0xB2, CHR 0xE0, CHR 0xB8, CHR 0x97,
              CHR 0xE0, CHR 0xB9, CHR 0x89, CHR 0xE0, CHR 0xB8, CHR 0xAD, CHR 0xE0, CHR 0xB8,
              CHR 0x87, CHR 0xE0, CHR 0xB8, CHR 0x96, CHR 0xE0, CHR 0xB8, CHR 0xB4, CHR 0xE0,
              CHR 0xB9, CHR 0x88, CHR 0xE0, CHR 0xB8, CHR 0x99])), (k_capacity,
              CNum (localCapacity (calculatedResults exportData))), (k_percent_of_total,
              percent_of_total digits (localCapacity (calculatedResults exportData)) totalCap),
              (k_recommended_share, CStr ''60-70%'')],
              [(k_customer_type, CStr ([CHR 0xE0, CHR 0xB8, CHR 0x99, CHR 0xE0, CHR 0xB8,
              CHR 0xB1, CHR 0xE0, CHR 0xB8, CHR 0x81, CHR 0xE0, CHR 0xB8, CHR 0x97, CHR 0xE0,
              CHR 0xB9, CHR 0x88, CHR 0xE0, CHR 0xB8, CHR 0xAD, CHR 0xE0, CHR 0xB8, CHR 0x87,
              CHR 0xE0, CHR 0xB9, CHR 0x80, CHR 0xE0, CHR 0xB8, CHR 0x97, CHR 0xE0, CHR 0xB8,
              CHR 0xB5, CHR 0xE0, CHR 0xB9, CHR 0x88, CHR 0xE0, CHR 0xB8, CHR 0xA2, CHR 0xE0,
              CHR 0xB8, CHR 0xA7])), (k_capacity,
              CNum (touristCapacity (calculatedResults exportData))), (k_percent_of_total,
              percent_of_total digits (touristCapacity (calculatedResults exportData)) totalCap),
              (k_recommended_share, CStr ''20-30%'')],
              [(k_customer_type, CStr ''Walk-in''), (k_capacity,
              CNum (walkInCapacity (calculatedResults exportData))), (k_percent_of_total,
              percent_of_total digits (walkInCapacity (calculatedResults exportData)) totalCap),
              (k_recommended_share, CStr ''10-15%'')]]\<rparr>)"

definition convertToCSVSections :: "(real \<Rightarrow> string) \<Rightarrow> FullExportData \<Rightarrow> CsvSection list" where
  "convertToCSVSections digits exportData =
     [metadata_section exportData, input_section exportData, results_section exportData,
      analysis_section digits exportData, breakdown_section digits exportData]"

subsection \<open>Example inputs of the export\<close>

text \<open>
  The application's default values; the results of a calculator with no capacity at
  all; results with a surplus of 60 dishes; and a fixed reading of the clock.
\<close>

definition sample_values :: CalculatorValues where
  "sample_values =
     \<lparr>localCustomers = Fin 100, touristCustomers = Fin 50, localFrequency = Fin 7,
      touristFrequency = Fin 30, targetDishes = Fin 200, avgGroupSize = Fin 3,
      dishesPerPerson = Fin 2, walkInDaily = Fin 20, weekdayShowUp = Fin 85,
      weekendShowUp = Fin 75, noShowRate = Fin 15\<rparr>"

definition idle_results :: CalculationResults where
  "idle_results =
     \<lparr>localActiveBase = Fin 0, touristActiveBase = Fin 0, localCapacity = Fin 0,
      touristCapacity = Fin 0, walkInCapacity = Fin 0, totalCapacity = Fin 0,
      groupsPerDay = Fin 0, gap = Fin (- 200), results_utilizationRate = Fin 0\<rparr>"

definition surplus_results :: CalculationResults where
  "surplus_results =
     \<lparr>localActiveBase = Fin 700, touristActiveBase = Fin 3000, localCapacity = Fin 180,
      touristCapacity = Fin 50, walkInCapacity = Fin 30, totalCapacity = Fin 260,
      groupsPerDay = Fin 43, gap = Fin 60, results_utilizationRate = Fin 77\<rparr>"

definition sample_metadata :: ExportMetadata where
  "sample_metadata =
     \<lparr>exportDate = ''03/11/2569'', exportTime = ''10:15:00'',
      appName = ''Customer Rotation Calculator'', version = ''1.0.0'',
      timezone = ''Asia/Bangkok''\<rparr>"


text \<open>
  A target of 23 dishes against a capacity of 40, where the quotient times 100 is the
  double just below 57.5; and a target of 3 dishes with a gap of \<open>3.6 - 3\<close>, which is
  the double just above six tenths and equal to the double \<open>3 * 0.2\<close>.
\<close>

definition half_values :: CalculatorValues where
  "half_values = sample_values\<lparr>targetDishes := Fin 23\<rparr>"

definition half_results :: CalculationResults where
  "half_results = surplus_results\<lparr>totalCapacity := Fin 40, gap := Fin 17\<rparr>"

definition tight_values :: CalculatorValues where
  "tight_values = sample_values\<lparr>targetDishes := Fin 3\<rparr>"

definition tight_results :: CalculationResults where
  "tight_results =
     surplus_results\<lparr>totalCapacity := Fin (8106479329266893 / 2251799813685248),
       gap := Fin (1351079888211149 / 2251799813685248)\<rparr>"

section \<open>Properties of the text functions\<close>

lemma digit_char_eval:
  "digit_char 0 = CHR ''0''" "digit_char (Suc 0) = CHR ''1''" "digit_char 2 = CHR ''2''"
  "digit_char 3 = CHR ''3''" "digit_char 4 = CHR ''4''" "digit_char 5 = CHR ''5''"
  "digit_char 6 = CHR ''6''" "digit_char 7 = CHR ''7''" "digit_char 8 = CHR ''8''"
  "digit_char 9 = CHR ''9''"
  by code_simp+

lemma join_with_empty:
  "sep \<noteq> [] \<Longrightarrow> join_with sep ls = [] \<longleftrightarrow> ls = [] \<or> ls = [[]]"
  by (induction sep ls rule: join_with.induct) simp_all

lemma join_with_length: "length ls \<le> Suc (length (join_with [c] ls))"
  by (induction "[c]" ls rule: join_with.induct) simp_all

section \<open>Properties of the rounding to a double\<close>

lemma exp_search_bounds:
  "0 < a \<Longrightarrow> 2 powi lo \<le> a \<Longrightarrow> a < 2 powi (lo + 2 ^ n) \<Longrightarrow>
   2 powi (exp_search n lo a) \<le> a \<and> a < 2 powi (exp_search n lo a + 1)"
proof (induction n arbitrary: lo)
  case 0
  then show ?case by simp
next
  case (Suc n)
  show ?case
  proof (cases "2 powi (lo + 2 ^ n) \<le> a")
    case True
    have "lo + 2 ^ n + 2 ^ n = lo + 2 ^ Suc n" by simp
    with Suc.prems(3) have "a < 2 powi (lo + 2 ^ n + 2 ^ n)" by (simp only:)
    with Suc.IH [of "lo + 2 ^ n"] Suc.prems(1) True show ?thesis by simp
  next
    case False
    with Suc.IH [of lo] Suc.prems show ?thesis by simp
  qed
qed

lemma binade_bounds:
  assumes "2 powi (- 2048) \<le> a" and "a < 2 powi 2048"
  shows "2 powi (binade a) \<le> a \<and> a < 2 powi (binade a + 1)"
proof -
  have "(0::real) < 2 powi (- 2048)" by (simp add: power_int_minus)
  with assms(1) have pos: "0 < a" by linarith
  have "(- 2048 :: int) + 2 ^ 12 = 2048" by simp
  with assms(2) have "a < 2 powi (- 2048 + 2 ^ 12)" by simp
  from exp_search_bounds [OF pos assms(1) this] show ?thesis
    by (simp add: binade_def)
qed

lemma binade_unique:
  assumes "2 powi e \<le> a" and "a < 2 powi (e + 1)" and "- 2048 \<le> e" and "e < 2048"
  shows "binade a = e"
proof -
  have "(2::real) powi (- 2048) \<le> 2 powi e"
    using assms(3) by (intro power_int_increasing) simp_all
  with assms(1) have lo: "2 powi (- 2048) \<le> a" by linarith
  have "(2::real) powi (e + 1) \<le> 2 powi 2048"
    using assms(4) by (intro power_int_increasing) simp_all
  with assms(2) have hi: "a < 2 powi 2048" by linarith
  from binade_bounds [OF lo hi] have b: "2 powi (binade a) \<le> a" "a < 2 powi (binade a + 1)"
    by simp_all
  have "\<not> binade a < e"
  proof
    assume "binade a < e"
    then have "(2::real) powi (binade a + 1) \<le> 2 powi e"
      by (intro power_int_increasing) simp_all
    with b(2) assms(1) show False by linarith
  qed
  moreover have "\<not> e < binade a"
  proof
    assume "e < binade a"
    then have "(2::real) powi (e + 1) \<le> 2 powi (binade a)"
      by (intro power_int_increasing) simp_all
    with b(1) assms(2) show False by linarith
  qed
  ultimately show ?thesis by linarith
qed

lemma round_half_even_near: "\<bar>of_int (round_half_even q) - q\<bar> \<le> 1 / 2"
proof -
  have "of_int \<lfloor>q\<rfloor> \<le> q" "q < of_int \<lfloor>q\<rfloor> + 1" by linarith+
  then show ?thesis
    by (auto simp: round_half_even_def Let_def)
qed


lemma powi_split: "(2::real) powi (a + b) = 2 powi a * 2 powi b"
  by (simp add: power_int_add)

lemma powi_pos: "(0::real) < 2 powi k"
  by simp

lemma fround_at:
  assumes "2 powi e \<le> \<bar>r\<bar>" and "\<bar>r\<bar> < 2 powi (e + 1)" and "- 1022 \<le> e" and "e \<le> 1023"
    and "m = of_int (round_half_even (\<bar>r\<bar> / 2 powi (e - 52))) * 2 powi (e - 52)"
    and "m < 2 powi 1024"
  shows "fround r = Fin (if r < 0 then - m else m)"
proof -
  have rpos: "0 < \<bar>r\<bar>" using assms(1) powi_pos [of e] by linarith
  then have rne: "r \<noteq> 0" by auto
  have b: "binade \<bar>r\<bar> = e"
    using assms(1-4) by (intro binade_unique) simp_all
  have up: "(0::real) < 2 powi (e - 52)" by (rule powi_pos)
  have "2 powi e = (2::real) powi (e - 52) * 2 powi 52"
    using powi_split [of "e - 52" 52] by simp
  with assms(1) have "2 powi (e - 52) * (2::real) powi 52 \<le> \<bar>r\<bar>" by simp
  then have "(2::real) powi 52 \<le> \<bar>r\<bar> / 2 powi (e - 52)"
    using up by (simp add: field_simps)
  then have "1 \<le> \<bar>r\<bar> / 2 powi (e - 52) - 1 / 2" by simp
  moreover have "\<bar>r\<bar> / 2 powi (e - 52) - 1 / 2 \<le> of_int (round_half_even (\<bar>r\<bar> / 2 powi (e - 52)))"
    using round_half_even_near [of "\<bar>r\<bar> / 2 powi (e - 52)"] by linarith
  ultimately have "(0::real) < of_int (round_half_even (\<bar>r\<bar> / 2 powi (e - 52)))" by linarith
  with up assms(5) have mpos: "0 < m" by simp
  from assms(3) have mx: "max e (- 1022) = e" by simp
  have "fround r = (if m = 0 then zero_of (r < 0)
                    else if 2 powi 1024 \<le> m then inf_of (r < 0)
                    else Fin (if r < 0 then - m else m))"
    using rne by (simp only: fround_def Let_def b mx assms(5) if_False)
  also have "\<dots> = Fin (if r < 0 then - m else m)"
    using mpos assms(6) by (simp only: if_False not_le [symmetric]) auto
  finally show ?thesis .
qed

lemma fround_pos_at:
  assumes "0 < r" and "2 powi e \<le> r" and "r < 2 powi (e + 1)" and "- 1022 \<le> e" and "e \<le> 1023"
    and "round_half_even (r / 2 powi (e - 52)) = n" and "of_int n * 2 powi (e - 52) = m"
    and "m < 2 powi 1024"
  shows "fround r = Fin m"
proof -
  from assms(1) have a: "\<bar>r\<bar> = r" by simp
  have "fround r = Fin (if r < 0 then - m else m)"
    by (rule fround_at [of e]) (simp_all only: a assms)
  with assms(1) show ?thesis by simp
qed

lemma fround_error:
  assumes "2 powi (- 1022) \<le> \<bar>r\<bar>" and "\<bar>r\<bar> \<le> 2 powi 1023"
  shows "\<exists>m. fround r = Fin m \<and> \<bar>m - r\<bar> \<le> \<bar>r\<bar> * 2 powi (- 53)
             \<and> (0 < r \<longrightarrow> 0 < m) \<and> (r < 0 \<longrightarrow> m < 0)"
proof -
  define a where "a = \<bar>r\<bar>"
  define e where "e = binade a"
  define ulp :: real where "ulp = 2 powi (e - 52)"
  define m where "m = of_int (round_half_even (a / ulp)) * ulp"
  have lo: "2 powi (- 2048) \<le> a"
  proof -
    have "(2::real) powi (- 2048) \<le> 2 powi (- 1022)"
      by (intro power_int_increasing) simp_all
    with assms(1) show ?thesis unfolding a_def by linarith
  qed
  have hi: "a < 2 powi 2048"
  proof -
    have "(2::real) powi 1023 < 2 powi 2048"
      by (intro power_int_strict_increasing) simp_all
    with assms(2) show ?thesis unfolding a_def by linarith
  qed
  from binade_bounds [OF lo hi] have b: "2 powi e \<le> a" "a < 2 powi (e + 1)"
    unfolding e_def by simp_all
  have e_lo: "- 1022 \<le> e"
  proof (rule ccontr)
    assume "\<not> - 1022 \<le> e"
    then have "(2::real) powi (e + 1) \<le> 2 powi (- 1022)"
      by (intro power_int_increasing) simp_all
    with b(2) assms(1) show False unfolding a_def by linarith
  qed
  have e_hi: "e \<le> 1023"
  proof (rule ccontr)
    assume "\<not> e \<le> 1023"
    then have "(2::real) powi 1023 < 2 powi e"
      by (intro power_int_strict_increasing) simp_all
    with b(1) assms(2) show False unfolding a_def by linarith
  qed
  have up: "0 < ulp" unfolding ulp_def by (rule powi_pos)
  have near: "\<bar>m - a\<bar> \<le> ulp / 2"
  proof -
    have "m - a = (of_int (round_half_even (a / ulp)) - a / ulp) * ulp"
      using up by (simp add: m_def field_simps)
    then have "\<bar>m - a\<bar> = \<bar>of_int (round_half_even (a / ulp)) - a / ulp\<bar> * ulp"
      using up by (simp add: abs_mult)
    also have "\<dots> \<le> (1 / 2) * ulp"
      using round_half_even_near [of "a / ulp"] up by (intro mult_right_mono) simp_all
    finally show ?thesis by simp
  qed
  have half: "ulp / 2 = 2 powi e * 2 powi (- 53)"
  proof -
    have "(2::real) powi (e - 52) = 2 powi e * 2 powi (- 52)"
      using powi_split [of e "- 52"] by simp
    moreover have "(2::real) powi (- 52) / 2 = 2 powi (- 53)"
      by (simp add: power_int_minus)
    ultimately show ?thesis unfolding ulp_def by simp
  qed
  have rel: "ulp / 2 \<le> a * 2 powi (- 53)"
    unfolding half using b(1) powi_pos [of "- 53"] by (intro mult_right_mono) simp_all
  have small: "ulp / 2 < 2 powi 1023"
  proof -
    have "(2::real) powi (- 53) < 1" by (simp add: power_int_minus)
    then have "2 powi e * (2::real) powi (- 53) < 2 powi e * 1"
      using powi_pos [of e] by (intro mult_strict_left_mono) simp_all
    moreover have "(2::real) powi e \<le> 2 powi 1023"
      using e_hi by (intro power_int_increasing) simp_all
    ultimately show ?thesis unfolding half by linarith
  qed
  have "(2::real) powi 1024 = 2 powi 1023 + 2 powi 1023"
    using powi_split [of 1023 1] by simp
  with near small assms(2) have m_hi: "m < 2 powi 1024" unfolding a_def by linarith
  have m_eq: "m = of_int (round_half_even (\<bar>r\<bar> / 2 powi (e - 52))) * 2 powi (e - 52)"
    unfolding m_def ulp_def a_def by simp
  from fround_at [OF b(1) [unfolded a_def] b(2) [unfolded a_def] e_lo e_hi m_eq m_hi]
  have f: "fround r = Fin (if r < 0 then - m else m)" .
  have apos: "0 < a" using b(1) powi_pos [of e] by linarith
  have "a * 2 powi (- 53) < a * 1"
    using apos by (intro mult_strict_left_mono) (simp_all add: power_int_minus)
  with near rel have mpos: "0 < m" by linarith
  from near rel have n2: "\<bar>m - a\<bar> \<le> a * 2 powi (- 53)" by linarith
  show ?thesis
  proof (cases "r < 0")
    case True
    then have ar: "a = - r" unfolding a_def by simp
    have "\<bar>- m - r\<bar> = \<bar>m - a\<bar>" unfolding ar by (simp add: abs_minus_commute)
    with n2 have "\<bar>- m - r\<bar> \<le> \<bar>r\<bar> * 2 powi (- 53)" unfolding a_def by simp
    moreover from f True have "fround r = Fin (- m)" by simp
    ultimately show ?thesis using True mpos by (intro exI [of _ "- m"]) simp
  next
    case False
    with apos have ar: "a = r" and rp: "0 < r" unfolding a_def by auto
    from n2 have "\<bar>m - r\<bar> \<le> \<bar>r\<bar> * 2 powi (- 53)" unfolding a_def [symmetric] ar .
    moreover from f False have "fround r = Fin m" by simp
    ultimately show ?thesis using False mpos by (intro exI [of _ m]) simp
  qed
qed

subsection \<open>Products and quotients of doubles\<close>

lemma powi_le_mono: "a \<le> b \<Longrightarrow> (2::real) powi a \<le> 2 powi b"
  by (intro power_int_increasing) simp_all

lemma js_mul_Fin: "a \<noteq> 0 \<Longrightarrow> b \<noteq> 0 \<Longrightarrow> js_mul (Fin a) (Fin b) = fround (a * b)"
  by (simp add: js_mul_def is_zero_def is_inf_def)

lemma js_div_Fin: "a \<noteq> 0 \<Longrightarrow> b \<noteq> 0 \<Longrightarrow> js_div (Fin a) (Fin b) = fround (a / b)"
  by (simp add: js_div_def is_zero_def is_inf_def)

lemma js_mul_error:
  assumes "2 powi (- 1022) \<le> \<bar>a * b\<bar>" and "\<bar>a * b\<bar> \<le> 2 powi 1023"
  shows "\<exists>m. js_mul (Fin a) (Fin b) = Fin m \<and> \<bar>m - a * b\<bar> \<le> \<bar>a * b\<bar> * 2 powi (- 53)
             \<and> (0 < a * b \<longrightarrow> 0 < m) \<and> (a * b < 0 \<longrightarrow> m < 0)"
proof -
  have "0 < \<bar>a * b\<bar>" using assms(1) powi_pos [of "- 1022"] by linarith
  then have "a \<noteq> 0" "b \<noteq> 0" by auto
  then have "js_mul (Fin a) (Fin b) = fround (a * b)" by (rule js_mul_Fin)
  with fround_error [OF assms] show ?thesis by simp
qed

lemma js_div_error:
  assumes "2 powi (- 1022) \<le> \<bar>a / b\<bar>" and "\<bar>a / b\<bar> \<le> 2 powi 1023"
  shows "\<exists>m. js_div (Fin a) (Fin b) = Fin m \<and> \<bar>m - a / b\<bar> \<le> \<bar>a / b\<bar> * 2 powi (- 53)
             \<and> (0 < a / b \<longrightarrow> 0 < m) \<and> (a / b < 0 \<longrightarrow> m < 0)"
proof -
  have "0 < \<bar>a / b\<bar>" using assms(1) powi_pos [of "- 1022"] by linarith
  then have "a \<noteq> 0" "b \<noteq> 0" by auto
  then have "js_div (Fin a) (Fin b) = fround (a / b)" by (rule js_div_Fin)
  with fround_error [OF assms] show ?thesis by simp
qed

text \<open>
  A number times the double nearest to a fraction between a sixteenth and a quarter
  is the exact product up to \<open>2^-53\<close> of the size of the number.
\<close>

lemma js_mul_fraction:
  assumes t1: "2 powi (- 1000) \<le> \<bar>t\<bar>" and t2: "\<bar>t\<bar> \<le> 2 powi 1000"
    and q1: "1 / 16 \<le> q" and q2: "q \<le> 1 / 4"
  shows "\<exists>m. js_mul (Fin t) (fround q) = Fin m \<and> \<bar>m - t * q\<bar> \<le> \<bar>t\<bar> * 2 powi (- 53)"
proof -
  define eps :: real where "eps = 2 powi (- 53)"
  have eps0: "0 < eps" unfolding eps_def by (rule powi_pos)
  have eps1: "eps \<le> 1 / 1024" unfolding eps_def by (simp add: power_int_minus)
  have qpos: "0 < q" using q1 by linarith
  have "(2::real) powi (- 1022) \<le> 2 powi (- 4)" by (rule powi_le_mono) simp
  moreover have "(2::real) powi (- 4) = 1 / 16" by (simp add: power_int_minus)
  ultimately have q_lo: "2 powi (- 1022) \<le> \<bar>q\<bar>" using q1 by linarith
  have "(2::real) powi 0 \<le> 2 powi 1023" by (rule powi_le_mono) simp
  then have q_hi: "\<bar>q\<bar> \<le> 2 powi 1023" using q2 qpos by simp
  from fround_error [OF q_lo q_hi] qpos obtain c
    where c: "fround q = Fin c" "\<bar>c - q\<bar> \<le> \<bar>q\<bar> * eps" "0 < c"
    unfolding eps_def by blast
  have aq: "\<bar>q\<bar> = q" using qpos by simp
  have "q * eps \<le> q * (1 / 1024)"
    using eps1 qpos by (intro mult_left_mono) simp_all
  then have "q * eps \<le> q / 1024" by simp
  with c(2) have cq: "\<bar>c - q\<bar> \<le> q / 1024" unfolding aq by linarith
  with q1 q2 have c_lo: "1 / 32 \<le> c" and c_hi: "c \<le> 1 / 2" by linarith+
  have tpos: "0 < \<bar>t\<bar>" using t1 powi_pos [of "- 1000"] by linarith
  have tc: "\<bar>t * c\<bar> = \<bar>t\<bar> * c" using c(3) by (simp add: abs_mult)
  have p_lo: "2 powi (- 1022) \<le> \<bar>t * c\<bar>"
  proof -
    have "(2::real) powi (- 1022) \<le> 2 powi (- 1005)" by (rule powi_le_mono) simp
    also have "(2::real) powi (- 1005) = 2 powi (- 1000) * 2 powi (- 5)"
      using powi_split [of "- 1000" "- 5"] by simp
    also have "\<dots> = 2 powi (- 1000) * (1 / 32)" by (simp add: power_int_minus)
    also have "\<dots> \<le> \<bar>t\<bar> * c"
      using t1 c_lo powi_pos [of "- 1000"] by (intro mult_mono) simp_all
    finally show ?thesis unfolding tc .
  qed
  have p_hi: "\<bar>t * c\<bar> \<le> 2 powi 1023"
  proof -
    have "\<bar>t\<bar> * c \<le> 2 powi 1000 * 1"
      using t2 c_hi c(3) by (intro mult_mono) simp_all
    also have "(2::real) powi 1000 * 1 \<le> 2 powi 1023"
      using powi_le_mono [of 1000 1023] by simp
    finally show ?thesis unfolding tc .
  qed
  from js_mul_error [OF p_lo p_hi] obtain m
    where m: "js_mul (Fin t) (Fin c) = Fin m" "\<bar>m - t * c\<bar> \<le> \<bar>t * c\<bar> * eps"
    unfolding eps_def by blast
  have a: "\<bar>m - t * c\<bar> \<le> \<bar>t\<bar> * c * eps" using m(2) unfolding tc .
  have "\<bar>t * c - t * q\<bar> = \<bar>t\<bar> * \<bar>c - q\<bar>"
    by (simp add: abs_mult right_diff_distrib [symmetric])
  also have "\<dots> \<le> \<bar>t\<bar> * (q * eps)"
    using c(2) unfolding aq by (intro mult_left_mono) simp_all
  finally have b: "\<bar>t * c - t * q\<bar> \<le> \<bar>t\<bar> * (q * eps)" .
  have "\<bar>m - t * q\<bar> \<le> \<bar>m - t * c\<bar> + \<bar>t * c - t * q\<bar>" by linarith
  also have "\<dots> \<le> \<bar>t\<bar> * c * eps + \<bar>t\<bar> * (q * eps)" using a b by linarith
  also have "\<dots> = (\<bar>t\<bar> * eps) * (c + q)" by (simp add: algebra_simps)
  also have "\<dots> \<le> (\<bar>t\<bar> * eps) * 1"
    using c_hi q2 tpos eps0 by (intro mult_left_mono) simp_all
  finally have "\<bar>m - t * q\<bar> \<le> \<bar>t\<bar> * eps" by simp
  with m(1) c(1) show ?thesis unfolding eps_def by auto
qed

text \<open>
  A quotient of two positive numbers times 100 is the exact value up to \<open>2^-51\<close> of
  its size.
\<close>

lemma js_percent_error:
  assumes "0 < t" and "0 < c" and r1: "2 powi (- 1000) \<le> t / c" and r2: "t / c \<le> 2 powi 1000"
  shows "\<exists>p. js_mul (js_div (Fin t) (Fin c)) (Fin 100) = Fin p \<and> 0 < p
             \<and> \<bar>p - 100 * t / c\<bar> \<le> (100 * t / c) * 2 powi (- 51)"
proof -
  define eps :: real where "eps = 2 powi (- 53)"
  define r where "r = t / c"
  define L :: real where "L = 2 powi (- 1000)"
  define H :: real where "H = 2 powi 1000"
  have eps0: "0 < eps" unfolding eps_def by (rule powi_pos)
  have eps1: "eps \<le> 1 / 1024" unfolding eps_def by (simp add: power_int_minus)
  have e4: "4 * eps = 2 powi (- 51)"
    using powi_split [of 2 "- 53"] unfolding eps_def by simp
  have rpos: "0 < r" unfolding r_def using assms(1,2) by simp
  have ar: "\<bar>t / c\<bar> = r" unfolding r_def using assms(1,2) by (intro abs_of_pos) simp
  have rL: "L \<le> r" unfolding L_def r_def by (rule r1)
  have rH: "r \<le> H" unfolding H_def r_def by (rule r2)
  have Lpos: "0 < L" unfolding L_def by (rule powi_pos)
  have L1: "2 powi (- 1022) \<le> L / 2"
  proof -
    have "(2::real) powi (- 1022) \<le> 2 powi (- 1000 + - 1)" by (rule powi_le_mono) simp
    also have "\<dots> = L * 2 powi (- 1)" unfolding L_def by (rule powi_split)
    also have "\<dots> = L / 2" by (simp add: power_int_minus)
    finally show ?thesis .
  qed
  have H1: "H * 256 \<le> 2 powi 1023"
  proof -
    have "(2::real) powi 8 = 256" by simp
    then have "H * 256 = 2 powi 1000 * 2 powi 8" unfolding H_def by (simp only:)
    also have "\<dots> = 2 powi (1000 + 8)" by (rule powi_split [symmetric])
    also have "\<dots> \<le> 2 powi 1023" by (rule powi_le_mono) simp
    finally show ?thesis .
  qed
  have lo: "2 powi (- 1022) \<le> \<bar>t / c\<bar>"
    unfolding ar using L1 rL Lpos by linarith
  have hi: "\<bar>t / c\<bar> \<le> 2 powi 1023"
    unfolding ar using H1 rH rpos by linarith
  from js_div_error [OF lo hi] rpos obtain q
    where q: "js_div (Fin t) (Fin c) = Fin q" "\<bar>q - r\<bar> \<le> r * eps" "0 < q"
    unfolding eps_def ar r_def by blast
  have "r * eps \<le> r * (1 / 1024)"
    using eps1 rpos by (intro mult_left_mono) simp_all
  then have "r * eps \<le> r / 1024" by simp
  with q(2) have q_lo: "r / 2 \<le> q" and q_hi: "q \<le> 2 * r" using rpos by linarith+
  have aq: "\<bar>q * 100\<bar> = q * 100" using q(3) by simp
  have p_lo: "2 powi (- 1022) \<le> \<bar>q * 100\<bar>"
    unfolding aq using L1 rL q_lo q(3) by linarith
  have p_hi: "\<bar>q * 100\<bar> \<le> 2 powi 1023"
    unfolding aq using H1 rH q_hi rpos by linarith
  from js_mul_error [OF p_lo p_hi] q(3) obtain p
    where p: "js_mul (Fin q) (Fin 100) = Fin p" "\<bar>p - q * 100\<bar> \<le> \<bar>q * 100\<bar> * eps" "0 < p"
    unfolding eps_def by auto
  have "q * eps \<le> (2 * r) * eps"
    using q_hi eps0 by (intro mult_right_mono) simp_all
  with p(2) have a: "\<bar>p - q * 100\<bar> \<le> 200 * (r * eps)" unfolding aq by simp
  have b: "\<bar>q * 100 - 100 * r\<bar> \<le> 100 * (r * eps)" using q(2) by simp
  have "\<bar>p - 100 * r\<bar> \<le> \<bar>p - q * 100\<bar> + \<bar>q * 100 - 100 * r\<bar>" by linarith
  also have "\<dots> \<le> 300 * (r * eps)" using a b by linarith
  also have "\<dots> \<le> 400 * (r * eps)" using rpos eps0 by simp
  also have "\<dots> = (100 * r) * (4 * eps)" by simp
  finally have "\<bar>p - 100 * r\<bar> \<le> (100 * r) * 2 powi (- 51)" unfolding e4 .
  with p(1,3) q(1) show ?thesis unfolding r_def by auto
qed

subsection \<open>The doubles of the examples\<close>

lemma fround_two_tenths: "fround (2 / 10) = Fin (3602879701896397 / 18014398509481984)"
  by (rule fround_pos_at [where e = "- 3" and n = 7205759403792794])
     (simp_all add: round_half_even_def power_int_minus)

lemma fround_fifth: "fround (1 / 5) = Fin (3602879701896397 / 18014398509481984)"
  using fround_two_tenths by simp

lemma three_times_two_tenths:
  "js_mul (Fin 3) (fround (2 / 10)) = Fin (1351079888211149 / 2251799813685248)"
proof -
  have "fround (10808639105689191 / 18014398509481984)
      = Fin (1351079888211149 / 2251799813685248)"
    by (rule fround_pos_at [where e = "- 1" and n = 5404319552844596])
       (simp_all add: round_half_even_def power_int_minus)
  then show ?thesis by (simp add: fround_fifth js_mul_Fin)
qed

lemma percent_23_of_40:
  "js_mul (js_div (Fin 23) (Fin 40)) (Fin 100) = Fin (8092405580431359 / 140737488355328)"
proof -
  have d: "fround (23 / 40) = Fin (2589569785738035 / 4503599627370496)"
    by (rule fround_pos_at [where e = "- 1" and n = 5179139571476070])
       (simp_all add: round_half_even_def power_int_minus)
  have m: "fround (64739244643450875 / 1125899906842624)
      = Fin (8092405580431359 / 140737488355328)"
    by (rule fround_pos_at [where e = 5 and n = 8092405580431359])
       (simp_all add: round_half_even_def power_int_minus)
  show ?thesis by (simp add: js_div_Fin js_mul_Fin d m)
qed

lemma percent_23_of_80:
  "js_mul (js_div (Fin 23) (Fin 80)) (Fin 100) = Fin (8092405580431359 / 281474976710656)"
proof -
  have d: "fround (23 / 80) = Fin (2589569785738035 / 9007199254740992)"
    by (rule fround_pos_at [where e = "- 2" and n = 5179139571476070])
       (simp_all add: round_half_even_def power_int_minus)
  have m: "fround (64739244643450875 / 2251799813685248)
      = Fin (8092405580431359 / 281474976710656)"
    by (rule fround_pos_at [where e = 4 and n = 8092405580431359])
       (simp_all add: round_half_even_def power_int_minus)
  show ?thesis by (simp add: js_div_Fin js_mul_Fin d m)
qed

section \<open>Properties of the persistent state container\<close>

subsection \<open>The storage probe and the render\<close>

lemma getStorageManager_storage: "fst (getStorageManager e) = probe_ok e"
  by (simp add: getStorageManager_def probe_ok_def setItem_def Let_def)

lemma getStorageManager_env:
  "snd (getStorageManager e) =
     (if \<not> window_defined e then e
      else if rejects e ''__storage_test__'' ''test'' then e\<lparr>writes := writes e @ [probe_entry]\<rparr>
      else e\<lparr>writes := writes e @ [probe_entry],
             items := (items e)(''__storage_test__'' := None)\<rparr>)"
  by (cases e) (simp add: getStorageManager_def setItem_def removeItem_def probe_entry_def Let_def)

lemma render_container:
  "fst (render c e) = c\<lparr>storage := probe_ok e,
       listening := (isInitializedRef c \<and> probe_ok e \<and> storageType c = localStorage)\<rparr>"
proof -
  obtain st e' where g: "getStorageManager e = (st, e')" by (cases "getStorageManager e")
  with getStorageManager_storage [of e] have "st = probe_ok e" by simp
  with g show ?thesis by (simp add: render_def)
qed

lemma render_env: "snd (render c e) = snd (getStorageManager e)"
  by (simp add: render_def split: prod.splits)

lemma render_eq:
  "render c e = (c\<lparr>storage := probe_ok e,
       listening := (isInitializedRef c \<and> probe_ok e \<and> storageType c = localStorage)\<rparr>,
     snd (getStorageManager e))"
  using render_container [of c e] render_env [of c e] by (cases "render c e") simp

lemma probe_fields [simp]:
  "timers (snd (getStorageManager e)) = timers e"
  "next_id (snd (getStorageManager e)) = next_id e"
  "now (snd (getStorageManager e)) = now e"
  "rejects (snd (getStorageManager e)) = rejects e"
  "window_defined (snd (getStorageManager e)) = window_defined e"
  "number_text (snd (getStorageManager e)) = number_text e"
  by (simp_all add: getStorageManager_env)

lemma probe_ok_probe [simp]: "probe_ok (snd (getStorageManager e)) = probe_ok e"
  by (simp add: probe_ok_def)

lemma probe_writes:
  "writes (snd (getStorageManager e)) = writes e @ (if window_defined e then [probe_entry] else [])"
  by (simp add: getStorageManager_env)

lemma probe_writes_ok: "probe_ok e \<Longrightarrow> writes (snd (getStorageManager e)) = writes e @ [probe_entry]"
  by (simp add: getStorageManager_env probe_ok_def)

lemma probe_items_None: "items e k = None \<Longrightarrow> items (snd (getStorageManager e)) k = None"
  by (simp add: getStorageManager_env)

subsection \<open>The timer table stays consistent\<close>

lemma consistent_timers_le1: "consistent c e \<Longrightarrow> length (timers e) \<le> 1"
proof -
  assume h: "consistent c e"
  show ?thesis
  proof (cases "timers e")
    case Nil then show ?thesis by simp
  next
    case (Cons t ts)
    show ?thesis
    proof (cases ts)
      case Nil with Cons show ?thesis by simp
    next
      case (Cons t' ts')
      with h \<open>timers e = t # ts\<close> show ?thesis
        by (auto simp: consistent_def)
    qed
  qed
qed

lemma consistent_cancel:
  assumes "consistent c e"
  shows "timers (cancel_pending c e) = []"
proof (cases "debounceRef c")
  case None
  with assms have "timers e = []"
    by (cases "timers e") (auto simp: consistent_def)
  then show ?thesis by (simp add: cancel_pending_def truthy_def None)
next
  case (Some i)
  with assms have "i \<noteq> 0" and "list_all (\<lambda>t. tid t = i) (timers e)"
    by (auto simp: consistent_def list_all_iff)
  then have "filter (\<lambda>t. tid t \<noteq> i) (timers e) = []"
    by (auto simp: list_all_iff filter_empty_conv)
  with Some \<open>i \<noteq> 0\<close> show ?thesis
    by (simp add: cancel_pending_def truthy_def clearTimeout_def)
qed

lemma cancel_pending_other [simp]:
  "writes (cancel_pending c e) = writes e"
  "items (cancel_pending c e) = items e"
  "rejects (cancel_pending c e) = rejects e"
  "next_id (cancel_pending c e) = next_id e"
  "now (cancel_pending c e) = now e"
  "window_defined (cancel_pending c e) = window_defined e"
  "number_text (cancel_pending c e) = number_text e"
  by (simp_all add: cancel_pending_def clearTimeout_def)

lemma cancel_pending_eq:
  assumes "consistent c e"
  shows "cancel_pending c e = e\<lparr>timers := []\<rparr>"
  using consistent_cancel [OF assms]
  by (cases e) (simp add: cancel_pending_def clearTimeout_def split: if_splits)

lemma update_armed:
  assumes "consistent c e" "isInitializedRef c" "storage c"
  shows "setPersistentState c e u =
     (c\<lparr>debounceRef := Some (next_id e), state := next_state u (state c)\<rparr>,
      e\<lparr>timers := [\<lparr>tid = next_id e, due = now e + debounceMs c, tkey = key c,
                    tvalue = next_state u (state c)\<rparr>],
        next_id := Suc (next_id e)\<rparr>)"
  using assms
  by (simp add: setPersistentState_def saveToStorage_def Let_def setTimeout_def
      cancel_pending_eq)

lemma update_step:
  assumes "consistent c e" "isInitializedRef c" "\<not> unmounted c" "storage c"
  shows "step parse (c, e) (Update u) =
     (c\<lparr>debounceRef := Some (next_id e), state := next_state u (state c),
        listening := (storageType c = localStorage)\<rparr>,
      e\<lparr>timers := [\<lparr>tid = next_id e, due = now e + debounceMs c, tkey = key c,
                    tvalue = next_state u (state c)\<rparr>],
        next_id := Suc (next_id e),
        writes := writes e @ [probe_entry],
        items := (items e)(''__storage_test__'' := None)\<rparr>)"
proof -
  from assms(1,4) have ok: "probe_ok e" by (simp add: consistent_def)
  then have w: "window_defined e" and r: "\<not> rejects e ''__storage_test__'' ''test''"
    by (simp_all add: probe_ok_def)
  let ?e1 = "e\<lparr>timers := [\<lparr>tid = next_id e, due = now e + debounceMs c, tkey = key c,
                    tvalue = next_state u (state c)\<rparr>],
        next_id := Suc (next_id e)\<rparr>"
  have ok1: "probe_ok ?e1" using ok by (simp add: probe_ok_def)
  show ?thesis
    using assms(2-4) w r ok1
    by (simp add: update_armed [OF assms(1,2,4)] render_eq getStorageManager_env)
qed

lemma consistent_render:
  assumes "consistent c e"
  shows "consistent (fst (render c e)) (snd (render c e))"
  using assms
  by (auto simp: render_eq consistent_def getStorageManager_env probe_ok_def split: option.splits)

lemma consistent_setPersistentState:
  assumes "consistent c e"
  shows "consistent (fst (setPersistentState c e u)) (snd (setPersistentState c e u))"
proof (cases "isInitializedRef c \<and> storage c")
  case True
  with assms show ?thesis
    by (simp add: update_armed) (auto simp: consistent_def probe_ok_def split: option.splits)
next
  case False
  with assms show ?thesis
    by (auto simp: setPersistentState_def saveToStorage_def Let_def consistent_def split: option.splits)
qed

lemma consistent_clearStoredValue:
  assumes "consistent c e"
  shows "consistent c (clearStoredValue c e)"
  using assms
  by (simp add: clearStoredValue_def removeItem_def cancel_pending_eq)
     (auto simp: consistent_def probe_ok_def split: option.splits)

lemma fold_fire_timers: "timers (fold fire ts e) = timers e"
  by (induction ts arbitrary: e) (simp_all add: fire_def setItem_def Let_def)

lemma fold_fire_fields [simp]:
  "next_id (fold fire ts e) = next_id e"
  "window_defined (fold fire ts e) = window_defined e"
  "rejects (fold fire ts e) = rejects e"
  "number_text (fold fire ts e) = number_text e"
  by (induction ts arbitrary: e) (simp_all add: fire_def setItem_def Let_def)

lemma consistent_step:
  assumes "consistent c e"
  shows "consistent (fst (step parse (c, e) ev)) (snd (step parse (c, e) ev))"
proof (cases ev)
  case Mount
  with assms show ?thesis by (auto simp: mount_def consistent_def split: option.splits)
next
  case (Update u)
  show ?thesis
  proof (cases "unmounted c")
    case True
    with assms Update show ?thesis by simp
  next
    case False
    obtain c1 e1 where s: "setPersistentState c e u = (c1, e1)"
      by (cases "setPersistentState c e u")
    with consistent_setPersistentState [OF assms, of u] have "consistent c1 e1" by simp
    from consistent_render [OF this] False Update s show ?thesis by simp
  qed
next
  case Clear
  with consistent_clearStoredValue [OF assms] show ?thesis by simp
next
  case Reset
  have cl: "consistent (c\<lparr>state := defaultValue c\<rparr>) (clearStoredValue c e)"
    using consistent_clearStoredValue [OF assms] by (simp add: consistent_def)
  show ?thesis
  proof (cases "unmounted c")
    case True
    with Reset consistent_clearStoredValue [OF assms] show ?thesis by simp
  next
    case False
    with Reset consistent_render [OF cl] show ?thesis by (simp add: resetToDefault_def)
  qed
next
  case (StorageEvent k v)
  have h: "consistent (handleStorageChange parse c k v) e"
    using assms by (auto simp: handleStorageChange_def consistent_def split: option.splits)
  from consistent_render [OF h] assms StorageEvent show ?thesis by simp
next
  case (Tick d)
  with assms show ?thesis
    by (auto simp: advance_def Let_def consistent_def list_all_iff distinct_map_filter
        fold_fire_timers probe_ok_def split: option.splits)
next
  case Unmount
  with assms show ?thesis
    by (simp add: unmount_def cancel_pending_eq) (auto simp: consistent_def probe_ok_def split: option.splits)
qed

lemma consistent_run:
  "consistent (fst s) (snd s) \<Longrightarrow> consistent (fst (run parse s evs)) (snd (run parse s evs))"
  unfolding run_def
proof (induction evs arbitrary: s)
  case Nil then show ?case by simp
next
  case (Cons ev evs)
  obtain c e where s: "s = (c, e)" by (cases s)
  with Cons.prems have "consistent (fst (step parse s ev)) (snd (step parse s ev))"
    by (simp add: consistent_step)
  from Cons.IH [OF this] show ?case by simp
qed

lemma fold_fire_writes:
  "writes (fold fire ts e)
     = writes e @ map (\<lambda>t. (tkey t, JSON_stringify (number_text e) (tvalue t))) ts"
  by (induction ts arbitrary: e) (simp_all add: fire_def setItem_def Let_def)

lemma advance_not_due:
  assumes "list_all (\<lambda>t. now e + d < due t) (timers e)"
  shows "advance d e = e\<lparr>now := now e + d\<rparr>"
proof -
  from assms have "filter (\<lambda>t. due t \<le> now e + d) (timers e) = []"
    by (auto simp: list_all_iff filter_empty_conv)
  moreover from assms have "filter (\<lambda>t. \<not> due t \<le> now e + d) (timers e) = timers e"
    by (auto simp: list_all_iff filter_id_conv)
  ultimately show ?thesis by (cases e) (simp add: advance_def Let_def)
qed

lemma advance_single_due:
  assumes "timers e = [t]" "due t \<le> now e + d"
  shows "writes (advance d e) = writes e @ [(tkey t, JSON_stringify (number_text e) (tvalue t))]"
    and "timers (advance d e) = []"
  using assms by (simp_all add: advance_def Let_def fire_def setItem_def)

lemma burst_run:
  assumes "consistent c e" "isInitializedRef c" "\<not> unmounted c" "storage c"
    and "list_all (\<lambda>p. fst p < debounceMs c) rest"
  shows "state (fst (run parse (c, e) (burst u rest))) = burst_state (state c) u rest
       \<and> writes (snd (run parse (c, e) (burst u rest)))
           = writes e @ replicate (Suc (length rest)) probe_entry
       \<and> armed (fst (run parse (c, e) (burst u rest))) (snd (run parse (c, e) (burst u rest)))
       \<and> key (fst (run parse (c, e) (burst u rest))) = key c
       \<and> debounceMs (fst (run parse (c, e) (burst u rest))) = debounceMs c
       \<and> number_text (snd (run parse (c, e) (burst u rest))) = number_text e"
  using assms
proof (induction u rest arbitrary: c e rule: burst.induct)
  case (1 u)
  then show ?case
    by (simp add: run_def update_step armed_def del: step.simps)
next
  case (2 u gap u' rest)
  let ?c1 = "c\<lparr>debounceRef := Some (next_id e), state := next_state u (state c),
        listening := (storageType c = localStorage)\<rparr>"
  let ?e1 = "e\<lparr>timers := [\<lparr>tid = next_id e, due = now e + debounceMs c, tkey = key c,
                    tvalue = next_state u (state c)\<rparr>],
        next_id := Suc (next_id e),
        writes := writes e @ [probe_entry],
        items := (items e)(''__storage_test__'' := None)\<rparr>"
  have up: "step parse (c, e) (Update u) = (?c1, ?e1)"
    using "2.prems" by (simp add: update_step del: step.simps)
  from "2.prems" have gap: "gap < debounceMs c" by simp
  then have adv: "advance gap ?e1 = ?e1\<lparr>now := now e + gap\<rparr>"
    by (simp add: advance_not_due)
  let ?e2 = "?e1\<lparr>now := now e + gap\<rparr>"
  have c1: "consistent ?c1 ?e1"
    using consistent_step [OF "2.prems"(1), of parse "Update u"] up by simp
  have c2: "consistent ?c1 ?e2"
    using consistent_step [OF c1, of parse "Tick gap"] adv by simp
  have run_eq: "run parse (c, e) (burst u ((gap, u') # rest)) = run parse (?c1, ?e2) (burst u' rest)"
    using up adv by (simp add: run_def)
  have "isInitializedRef ?c1" "\<not> unmounted ?c1" "storage ?c1"
    "list_all (\<lambda>p. fst p < debounceMs ?c1) rest"
    using "2.prems" by simp_all
  from "2.IH" [OF c2 this] show ?case
    unfolding run_eq by (simp add: replicate_append_same)
qed

subsection \<open>The two example containers\<close>

lemma mounted_fresh:
  "mounted fresh_env =
     (\<lparr>key = ''calculator-values'', defaultValue = defaultValues, debounceMs = 500,
       storageType = localStorage, storage = True, state = defaultValues,
       debounceRef = None, isInitializedRef = True, listening = True, unmounted = False\<rparr>,
      fresh_env\<lparr>writes := [(''__storage_test__'', ''test'')]\<rparr>)"
  by (simp add: mounted_def useCalculatorState_def usePersistentState_def getStorageManager_def
      setItem_def removeItem_def fresh_env_def Let_def initial_state_def getItem_def mount_def
      STORAGE_KEY_def DEBOUNCE_MS_def)

lemma mounted_disabled:
  "mounted disabled_env =
     (\<lparr>key = ''calculator-values'', defaultValue = defaultValues, debounceMs = 500,
       storageType = localStorage, storage = False, state = defaultValues,
       debounceRef = None, isInitializedRef = True, listening = False, unmounted = False\<rparr>,
      disabled_env\<lparr>writes := [(''__storage_test__'', ''test'')]\<rparr>)"
  by (simp add: mounted_def useCalculatorState_def usePersistentState_def getStorageManager_def
      setItem_def removeItem_def fresh_env_def disabled_env_def Let_def initial_state_def getItem_def mount_def
      STORAGE_KEY_def DEBOUNCE_MS_def)

subsection \<open>Debounce coalescing\<close>

text \<open>
  Claim C1, for a container that has storage. Every update sets the in-memory state at
  once, and an update made while the container has no storage leaves the browser as it
  is: no timer is armed. In a consistent state of an initialized container that has
  storage, a burst of updates that are each less than \<open>debounceMs\<close> apart leaves the
  state at the value of the last update and never has more than one timer pending;
  while it lasts the only \<open>setItem\<close> calls are the probes of the renders, one for each
  update, and exactly one timer is left armed; when \<open>debounceMs\<close> or more have then
  passed, exactly one more \<open>setItem\<close> has been made, under the container's key, with the
  serialisation of the last update's value, and no timer is left.
\<close>

theorem debounce_coalescing:
  assumes "consistent c e" and "isInitializedRef c" and "\<not> unmounted c" and "storage c"
    and "list_all (\<lambda>p. fst p < debounceMs c) rest" and "debounceMs c \<le> d"
  shows "state (fst (setPersistentState ca ea ua)) = next_state ua (state ca)
       \<and> (\<not> storage ca \<longrightarrow> snd (setPersistentState ca ea ua) = ea)
       \<and> state (fst (run parse (c, e) (burst u rest))) = burst_state (state c) u rest
       \<and> (\<forall>n. length (timers (snd (run parse (c, e) (take n (burst u rest))))) \<le> 1)
       \<and> writes (snd (run parse (c, e) (burst u rest)))
           = writes e @ replicate (Suc (length rest)) probe_entry
       \<and> length (timers (snd (run parse (c, e) (burst u rest)))) = 1
       \<and> writes (snd (run parse (c, e) (burst u rest @ [Tick d])))
           = writes e @ replicate (Suc (length rest)) probe_entry
             @ [(key c, JSON_stringify (number_text e) (burst_state (state c) u rest))]
       \<and> timers (snd (run parse (c, e) (burst u rest @ [Tick d]))) = []"
proof -
  let ?s = "run parse (c, e) (burst u rest)"
  note b = burst_run [OF assms(1-5), of parse u]
  from b obtain i where t: "timers (snd ?s) =
      [\<lparr>tid = i, due = now (snd ?s) + debounceMs (fst ?s), tkey = key (fst ?s), tvalue = state (fst ?s)\<rparr>]"
    by (auto simp: armed_def)
  have tick: "run parse (c, e) (burst u rest @ [Tick d]) = (fst ?s, advance d (snd ?s))"
    by (cases ?s) (simp add: run_def)
  have due: "due \<lparr>tid = i, due = now (snd ?s) + debounceMs (fst ?s), tkey = key (fst ?s),
        tvalue = state (fst ?s)\<rparr> \<le> now (snd ?s) + d"
    using b assms(6) by simp
  have "state (fst (setPersistentState ca ea ua)) = next_state ua (state ca)"
    by (simp add: setPersistentState_def Let_def split: prod.splits)
  moreover have "\<not> storage ca \<longrightarrow> snd (setPersistentState ca ea ua) = ea"
    by (simp add: setPersistentState_def saveToStorage_def Let_def)
  moreover have "\<forall>n. length (timers (snd (run parse (c, e) (take n (burst u rest))))) \<le> 1"
  proof
    fix n
    have "consistent (fst (run parse (c, e) (take n (burst u rest))))
            (snd (run parse (c, e) (take n (burst u rest))))"
      using consistent_run [of "(c, e)" parse] assms(1) by simp
    then show "length (timers (snd (run parse (c, e) (take n (burst u rest))))) \<le> 1"
      by (rule consistent_timers_le1)
  qed
  moreover have "writes (snd (run parse (c, e) (burst u rest @ [Tick d])))
           = writes e @ replicate (Suc (length rest)) probe_entry
             @ [(key c, JSON_stringify (number_text e) (burst_state (state c) u rest))]"
    using advance_single_due(1) [OF t due] b by (simp add: tick)
  moreover have "timers (snd (run parse (c, e) (burst u rest @ [Tick d]))) = []"
    using advance_single_due(2) [OF t due] by (simp add: tick)
  ultimately show ?thesis using b t by simp
qed

text \<open>
  The calculator's container in a fresh browser: three updates of \<open>targetDishes\<close>,
  100 ms and 499 ms apart, then 500 ms of quiet. The store has been probed four
  times, by the first render and by the render after each update, before the one write
  under the calculator's key. And an update of the container in the browser without
  storage leaves that browser as it is.
\<close>

theorem debounce_coalescing_witness:
  "consistent (fst (mounted fresh_env)) (snd (mounted fresh_env))
   \<and> isInitializedRef (fst (mounted fresh_env)) \<and> \<not> unmounted (fst (mounted fresh_env))
   \<and> storage (fst (mounted fresh_env))
   \<and> list_all (\<lambda>p. fst p < debounceMs (fst (mounted fresh_env)))
        [(100, updateValue ''targetDishes'' (Fin 251)), (499, updateValue ''targetDishes'' (Fin 252))]
   \<and> debounceMs (fst (mounted fresh_env)) \<le> 500
   \<and> \<not> storage (fst (mounted disabled_env))
   \<and> snd (setPersistentState (fst (mounted disabled_env)) (snd (mounted disabled_env))
          (updateValue ''targetDishes'' (Fin 250)))
      = snd (mounted disabled_env)
   \<and> writes (snd (run no_parse (mounted fresh_env)
        (burst (updateValue ''targetDishes'' (Fin 250))
           [(100, updateValue ''targetDishes'' (Fin 251)), (499, updateValue ''targetDishes'' (Fin 252))]
         @ [Tick 500])))
      = [(''__storage_test__'', ''test''), (''__storage_test__'', ''test''),
         (''__storage_test__'', ''test''), (''__storage_test__'', ''test''),
         (''calculator-values'',
          JSON_stringify unprinted
            (burst_state defaultValues (updateValue ''targetDishes'' (Fin 250))
               [(100, updateValue ''targetDishes'' (Fin 251)),
                (499, updateValue ''targetDishes'' (Fin 252))]))]"
proof -
  let ?c = "fst (mounted fresh_env)" and ?e = "snd (mounted fresh_env)"
  let ?dc = "fst (mounted disabled_env)" and ?de = "snd (mounted disabled_env)"
  have h1: "consistent ?c ?e"
    unfolding mounted_fresh by (simp add: consistent_def fresh_env_def probe_ok_def)
  have h2: "isInitializedRef ?c" and h3: "\<not> unmounted ?c" and h4: "storage ?c"
    by (simp_all add: mounted_fresh)
  have h5: "list_all (\<lambda>p. fst p < debounceMs ?c)
        [(100, updateValue ''targetDishes'' (Fin 251)), (499, updateValue ''targetDishes'' (Fin 252))]"
    by (simp add: mounted_fresh)
  have h6: "debounceMs ?c \<le> 500"
    by (simp add: mounted_fresh)
  have h7: "\<not> storage ?dc"
    by (simp add: mounted_disabled)
  note th = debounce_coalescing [where ca = ?dc and ea = ?de
      and ua = "updateValue ''targetDishes'' (Fin 250)" and parse = no_parse
      and u = "updateValue ''targetDishes'' (Fin 250)", OF h1 h2 h3 h4 h5 h6]
  from th h7 have a: "snd (setPersistentState ?dc ?de (updateValue ''targetDishes'' (Fin 250))) = ?de"
    by blast
  from th
  have "writes (snd (run no_parse (?c, ?e)
        (burst (updateValue ''targetDishes'' (Fin 250))
           [(100, updateValue ''targetDishes'' (Fin 251)), (499, updateValue ''targetDishes'' (Fin 252))]
         @ [Tick 500])))
      = writes ?e @ replicate (Suc (length
           [(100::nat, updateValue ''targetDishes'' (Fin 251)), (499, updateValue ''targetDishes'' (Fin 252))]))
           probe_entry
        @ [(key ?c,
          JSON_stringify (number_text ?e)
            (burst_state (state ?c) (updateValue ''targetDishes'' (Fin 250))
               [(100, updateValue ''targetDishes'' (Fin 251)),
                (499, updateValue ''targetDishes'' (Fin 252))]))]"
    by blast
  moreover have "writes ?e = [(''__storage_test__'', ''test'')]" "key ?c = ''calculator-values''"
    "state ?c = defaultValues" "number_text ?e = unprinted"
    unfolding mounted_fresh by (simp_all add: fresh_env_def)
  ultimately have b: "writes (snd (run no_parse (mounted fresh_env)
        (burst (updateValue ''targetDishes'' (Fin 250))
           [(100, updateValue ''targetDishes'' (Fin 251)), (499, updateValue ''targetDishes'' (Fin 252))]
         @ [Tick 500])))
      = [(''__storage_test__'', ''test''), (''__storage_test__'', ''test''),
         (''__storage_test__'', ''test''), (''__storage_test__'', ''test''),
         (''calculator-values'',
          JSON_stringify unprinted
            (burst_state defaultValues (updateValue ''targetDishes'' (Fin 250))
               [(100, updateValue ''targetDishes'' (Fin 251)),
                (499, updateValue ''targetDishes'' (Fin 252))]))]"
    by (simp add: probe_entry_def)
  from h1 h2 h3 h4 h5 h6 h7 a b show ?thesis by blast
qed

text \<open>
  Claim C1 as stated speaks of every container. In a browser whose storage is
  disabled the probe fails, the container keeps its state in memory only and
  \<open>saveToStorage\<close> returns at once: after an update no timer is pending, and when
  \<open>debounceMs\<close> have passed the only \<open>setItem\<close> calls made are the two probes, which
  threw, and nothing is stored under the calculator's key.
\<close>

theorem debounce_without_storage_counterexample:
  "isInitializedRef (fst (mounted disabled_env))
   \<and> timers (snd (run no_parse (mounted disabled_env) [Update (Value (JNum (Fin 1)))])) = []
   \<and> state (fst (run no_parse (mounted disabled_env) [Update (Value (JNum (Fin 1))), Tick 500]))
       = JNum (Fin 1)
   \<and> writes (snd (run no_parse (mounted disabled_env) [Update (Value (JNum (Fin 1))), Tick 500]))
       = [(''__storage_test__'', ''test''), (''__storage_test__'', ''test'')]
   \<and> items (snd (run no_parse (mounted disabled_env) [Update (Value (JNum (Fin 1))), Tick 500]))
        ''calculator-values'' = None"
  unfolding mounted_disabled
  by (simp add: run_def setPersistentState_def saveToStorage_def Let_def advance_def
      disabled_env_def fresh_env_def render_eq getStorageManager_env probe_ok_def probe_entry_def)

subsection \<open>Clearing the stored value\<close>








subsection \<open>Object spread\<close>

lemma insert_index_keys: "fst ` set (insert_index k v ps) = insert k (fst ` set ps)"
  by (induction ps) auto

lemma map_of_insert_index:
  "k \<notin> fst ` set ps \<Longrightarrow> map_of (insert_index k v ps) k' = (if k' = k then Some v else map_of ps k')"
  by (induction ps) auto

lemma distinct_insert_index:
  "k \<notin> fst ` set ps \<Longrightarrow> distinct (map fst ps) \<Longrightarrow> distinct (map fst (insert_index k v ps))"
proof (induction ps)
  case Nil then show ?case by simp
next
  case (Cons p ps)
  then show ?case using insert_index_keys [of k v ps] by auto
qed

lemma map_of_replace_other:
  "k' \<noteq> k \<Longrightarrow> map_of (map (\<lambda>p. if fst p = k then (k, v) else p) ps) k' = map_of ps k'"
  by (induction ps) auto

lemma map_of_replace_same:
  "k \<in> fst ` set ps \<Longrightarrow> map_of (map (\<lambda>p. if fst p = k then (k, v) else p) ps) k = Some v"
  by (induction ps) auto

lemma map_fst_replace:
  "map fst (map (\<lambda>p. if fst p = k then (k, v) else p) ps) = map fst ps"
  by (induction ps) auto

lemma map_of_CreateDataProperty:
  "map_of (CreateDataProperty ps k v) k' = (if k' = k then Some v else map_of ps k')"
proof (cases "k \<in> fst ` set ps")
  case True
  then show ?thesis
    by (simp add: CreateDataProperty_def map_of_replace_other map_of_replace_same)
next
  case False
  then have "map_of ps k = None"
    by (simp add: map_of_eq_None_iff)
  with False show ?thesis
    by (auto simp: CreateDataProperty_def map_of_insert_index map_add_def split: option.splits)
qed

lemma keys_CreateDataProperty:
  "fst ` set (CreateDataProperty ps k v) = insert k (fst ` set ps)"
proof (cases "k \<in> fst ` set ps")
  case True
  have "fst ` set (map (\<lambda>p. if fst p = k then (k, v) else p) ps) = fst ` set ps"
    using map_fst_replace [of k v ps] by (metis set_map)
  with True show ?thesis
    by (auto simp: CreateDataProperty_def)
next
  case False
  then show ?thesis
    by (simp add: CreateDataProperty_def insert_index_keys)
qed

lemma distinct_CreateDataProperty:
  assumes "distinct (map fst ps)"
  shows "distinct (map fst (CreateDataProperty ps k v))"
proof (cases "k \<in> fst ` set ps")
  case True
  with assms map_fst_replace [of k v ps] show ?thesis
    by (simp add: CreateDataProperty_def del: map_map)
next
  case False
  with assms show ?thesis
    by (simp add: CreateDataProperty_def distinct_insert_index)
qed

lemma map_of_fold_create:
  "distinct (map fst src) \<Longrightarrow>
   map_of (fold (\<lambda>p t. CreateDataProperty t (fst p) (snd p)) src target) k
     = (case map_of src k of Some v \<Rightarrow> Some v | None \<Rightarrow> map_of target k)"
proof (induction src arbitrary: target)
  case Nil then show ?case by simp
next
  case (Cons p src)
  then have "map_of src (fst p) = None"
    by (simp add: map_of_eq_None_iff)
  with Cons show ?case
    by (cases p) (auto simp: map_of_CreateDataProperty split: option.splits)
qed

lemma distinct_fold_create:
  "distinct (map fst target) \<Longrightarrow>
   distinct (map fst (fold (\<lambda>p t. CreateDataProperty t (fst p) (snd p)) src target))"
  by (induction src arbitrary: target) (simp_all add: distinct_CreateDataProperty)

lemma keys_fold_create:
  "fst ` set (fold (\<lambda>p t. CreateDataProperty t (fst p) (snd p)) src target)
     = fst ` set target \<union> fst ` set src"
  by (induction src arbitrary: target) (auto simp: keys_CreateDataProperty)

lemma keys_spread2:
  "fst ` set (own_properties (spread2 D S))
     = fst ` set (own_properties D) \<union> fst ` set (own_properties S)"
  by (simp add: spread2_def CopyDataProperties_def keys_fold_create)

lemma map_of_spread2:
  assumes "distinct (map fst (own_properties D))" and "distinct (map fst (own_properties S))"
  shows "map_of (own_properties (spread2 D S)) k
     = (case map_of (own_properties S) k of Some v \<Rightarrow> Some v | None \<Rightarrow> map_of (own_properties D) k)"
  using assms by (simp add: spread2_def CopyDataProperties_def map_of_fold_create distinct_fold_create
      split: option.splits)

lemma distinct_spread2: "distinct (map fst (own_properties (spread2 D S)))"
  by (simp add: spread2_def CopyDataProperties_def distinct_fold_create)

text \<open>
  Claim C2, as the code has it. For an object-shaped default \<open>D\<close> and a parsed stored
  value \<open>S\<close>, the merge made at the initial load and on a storage event holds, under
  each key, the value of \<open>S\<close> where \<open>S\<close> has the key and the value of \<open>D\<close>
  otherwise; its fields are those of \<open>D\<close> together with those of \<open>S\<close>, each once.
  So every field of \<open>D\<close> is there, \<open>S\<close> overrides on the shared ones, and a field of
  \<open>S\<close> that \<open>D\<close> lacks is carried into the result.
\<close>

theorem shape_merge_fields:
  assumes "distinct (map fst d)" and "distinct (map fst (own_properties S))"
  shows "map_of (own_properties (merge_parsed (JObj d) S)) k
           = (case map_of (own_properties S) k of Some v \<Rightarrow> Some v | None \<Rightarrow> map_of d k)
       \<and> fst ` set (own_properties (merge_parsed (JObj d) S))
           = fst ` set d \<union> fst ` set (own_properties S)
       \<and> distinct (map fst (own_properties (merge_parsed (JObj d) S)))
       \<and> (items e k0 = Some stored \<and> parse stored = Some S
            \<longrightarrow> initial_state parse True e k0 (JObj d) = merge_parsed (JObj d) S)
       \<and> (key c = k0 \<and> defaultValue c = JObj d \<and> parse stored = Some S
            \<longrightarrow> state (handleStorageChange parse c (Some k0) (Some stored)) = merge_parsed (JObj d) S)"
proof -
  have m: "map_of (own_properties (merge_parsed (JObj d) S)) k
           = (case map_of (own_properties S) k of Some v \<Rightarrow> Some v | None \<Rightarrow> map_of d k)" for k
    using map_of_spread2 [of "JObj d" S k] assms by (simp add: merge_parsed_def cong: option.case_cong)
  have "fst ` set (own_properties (merge_parsed (JObj d) S))
           = fst ` set d \<union> fst ` set (own_properties S)"
    using keys_spread2 [of "JObj d" S] by (simp add: merge_parsed_def)
  moreover have "distinct (map fst (own_properties (merge_parsed (JObj d) S)))"
    by (simp add: merge_parsed_def distinct_spread2)
  ultimately show ?thesis using m
    by (simp add: initial_state_def getItem_def handleStorageChange_def)
qed

text \<open>
  The calculator's defaults merged with a stored value that has one field of its own:
  the field \<open>tableCount\<close>, absent from the defaults, is in the state the container
  loads.
\<close>

lemma merge_legacy:
  "merge_parsed defaultValues legacy_value = JObj
     [(''localCustomers'', JNum (Fin 100)), (''touristCustomers'', JNum (Fin 50)),
      (''localFrequency'', JNum (Fin 7)), (''touristFrequency'', JNum (Fin 30)),
      (''targetDishes'', JNum (Fin 300)), (''avgGroupSize'', JNum (Fin 3)),
      (''dishesPerPerson'', JNum (Fin 2)), (''walkInDaily'', JNum (Fin 20)),
      (''weekdayShowUp'', JNum (Fin 85)), (''weekendShowUp'', JNum (Fin 75)),
      (''noShowRate'', JNum (Fin 15)), (''tableCount'', JNum (Fin 12))]"
  by (simp add: merge_parsed_def defaultValues_def legacy_value_def spread2_def
      CopyDataProperties_def CreateDataProperty_def is_array_index_def is_digit_def)

theorem shape_merge_unknown_field_counterexample:
  "initial_state (parse_only legacy_value) True legacy_env STORAGE_KEY defaultValues
     = merge_parsed defaultValues legacy_value
   \<and> map_of (own_properties (merge_parsed defaultValues legacy_value)) ''tableCount'' = Some (JNum (Fin 12))
   \<and> map_of (own_properties defaultValues) ''tableCount'' = None"
proof -
  have "initial_state (parse_only legacy_value) True legacy_env STORAGE_KEY defaultValues
     = merge_parsed defaultValues legacy_value"
    by (simp add: initial_state_def getItem_def legacy_env_def parse_only_def)
  moreover have "map_of (own_properties (merge_parsed defaultValues legacy_value)) ''tableCount''
     = Some (JNum (Fin 12))"
    unfolding merge_legacy by simp
  moreover have "map_of (own_properties defaultValues) ''tableCount'' = None"
    by (simp add: defaultValues_def)
  ultimately show ?thesis by simp
qed

theorem shape_merge_fields_witness:
  "distinct (map fst (own_properties defaultValues))
   \<and> distinct (map fst (own_properties legacy_value))
   \<and> items legacy_env STORAGE_KEY = Some (JSON_stringify unprinted legacy_value)
   \<and> parse_only legacy_value (JSON_stringify unprinted legacy_value) = Some legacy_value
   \<and> key (fst (mounted fresh_env)) = STORAGE_KEY
   \<and> defaultValue (fst (mounted fresh_env)) = defaultValues
   \<and> map_of (own_properties (merge_parsed defaultValues legacy_value)) ''targetDishes''
        = Some (JNum (Fin 300))
   \<and> map_of (own_properties (merge_parsed defaultValues legacy_value)) ''noShowRate''
        = Some (JNum (Fin 15))
   \<and> initial_state (parse_only legacy_value) True legacy_env STORAGE_KEY defaultValues
        = merge_parsed defaultValues legacy_value
   \<and> state (handleStorageChange (parse_only legacy_value) (fst (mounted fresh_env))
         (Some STORAGE_KEY) (Some (JSON_stringify unprinted legacy_value)))
        = merge_parsed defaultValues legacy_value"
proof -
  obtain d where d: "defaultValues = JObj d"
    by (simp add: defaultValues_def)
  have h1: "distinct (map fst d)"
    using d by (auto simp: defaultValues_def)
  have h2: "distinct (map fst (own_properties legacy_value))"
    by (simp add: legacy_value_def)
  have h3: "items legacy_env STORAGE_KEY = Some (JSON_stringify unprinted legacy_value)"
    by (simp add: legacy_env_def)
  have h4: "parse_only legacy_value (JSON_stringify unprinted legacy_value) = Some legacy_value"
    by (simp add: parse_only_def)
  have h5: "key (fst (mounted fresh_env)) = STORAGE_KEY"
    and h6: "defaultValue (fst (mounted fresh_env)) = JObj d"
    unfolding mounted_fresh by (simp_all add: STORAGE_KEY_def d)
  have v1: "map_of (own_properties legacy_value) ''targetDishes'' = Some (JNum (Fin 300))"
    and v2: "map_of (own_properties legacy_value) ''noShowRate'' = None"
    by (simp_all add: legacy_value_def)
  have v3: "map_of d ''noShowRate'' = Some (JNum (Fin 15))"
    using d by (auto simp: defaultValues_def)
  from shape_merge_fields [OF h1 h2, of "''targetDishes''" legacy_env STORAGE_KEY
      "JSON_stringify unprinted legacy_value" "parse_only legacy_value" "fst (mounted fresh_env)"]
    shape_merge_fields [OF h1 h2, of "''noShowRate''"]
    h1 h2 h3 h4 h5 h6 v1 v2 v3
  show ?thesis
    by (simp add: d)
qed

section \<open>Properties of the calculator's state adapter\<close>

text \<open>
  Claim C8. \<open>hasUnsavedChanges\<close> compares the serialisations of the state and of the
  defaults, and a serialisation lists the fields in the order the object has them. The
  calculator's container takes the defaults with the first two fields in the other
  order as its state when \<open>setValues\<close> is called with them; that state has the fields of
  the defaults, each with the value the defaults give it, and \<open>hasUnsavedChanges\<close>
  returns true for it, while it returns false for the defaults themselves.
\<close>

theorem hasUnsavedChanges_field_order:
  "state (fst (run no_parse (mounted fresh_env) [Update (Value reordered_values)])) = reordered_values
   \<and> set (own_properties reordered_values) = set (own_properties defaultValues)
   \<and> distinct (map fst (own_properties reordered_values))
   \<and> distinct (map fst (own_properties defaultValues))
   \<and> hasUnsavedChanges unprinted reordered_values defaultValues
   \<and> \<not> hasUnsavedChanges unprinted defaultValues defaultValues"
proof -
  have "state (fst (run no_parse (mounted fresh_env) [Update (Value reordered_values)])) = reordered_values"
    unfolding mounted_fresh
    by (simp add: run_def setPersistentState_def Let_def render_eq split: prod.splits)
  moreover have "set (own_properties reordered_values) = set (own_properties defaultValues)"
    by (simp add: reordered_values_def defaultValues_def insert_commute)
  moreover have "distinct (map fst (own_properties reordered_values))"
    "distinct (map fst (own_properties defaultValues))"
    by (simp_all add: reordered_values_def defaultValues_def)
  moreover have "hasUnsavedChanges unprinted reordered_values defaultValues"
    by (simp add: hasUnsavedChanges_def reordered_values_def defaultValues_def quote_json_def
        quote_char_def)
  moreover have "\<not> hasUnsavedChanges unprinted defaultValues defaultValues"
    by (simp add: hasUnsavedChanges_def)
  ultimately show ?thesis by simp
qed

section \<open>Properties of the CSV encoder\<close>

subsection \<open>Escaping a cell\<close>

lemma read_quoted_close:
  "r = [] \<or> hd r \<noteq> dquote \<Longrightarrow> read_quoted (dquote # r) = Some ([], r)"
  by (cases r) auto

lemma read_quoted_other:
  "c \<noteq> dquote \<Longrightarrow> xs \<noteq> [] \<Longrightarrow>
   read_quoted (c # xs) = map_option (\<lambda>p. (c # fst p, snd p)) (read_quoted xs)"
  by (cases xs) auto

lemma read_quoted_doubled:
  assumes "r = [] \<or> hd r \<noteq> dquote"
  shows "read_quoted (double_quotes s @ dquote # r) = Some (s, r)"
proof (induction s)
  case Nil
  from assms show ?case by (simp add: double_quotes_def read_quoted_close)
next
  case (Cons c s)
  show ?case
  proof (cases "c = dquote")
    case True
    with Cons show ?thesis by (simp add: double_quotes_def)
  next
    case False
    have "double_quotes (c # s) @ dquote # r = c # (double_quotes s @ dquote # r)"
      using False by (simp add: double_quotes_def)
    with False Cons show ?thesis
      by (simp add: read_quoted_other)
  qed
qed

lemma read_plain:
  assumes "\<forall>c\<in>set s. \<not> is_break c \<and> c \<noteq> dquote" and "r = [] \<or> is_break (hd r)"
  shows "csv_read_field (s @ r) = Some (s, r)"
proof -
  have tw: "takeWhile (\<lambda>x. \<not> is_break x) (s @ r) = s"
    using assms by (cases r) auto
  have dw: "dropWhile (\<lambda>x. \<not> is_break x) (s @ r) = r"
    using assms by (cases r) (auto simp: dropWhile_append)
  show ?thesis
  proof (cases "s @ r")
    case Nil
    then show ?thesis by (simp add: csv_read_field_def)
  next
    case (Cons c cs)
    have "c \<noteq> dquote"
    proof (cases s)
      case Nil
      with Cons assms(2) show ?thesis by (auto simp: is_break_def)
    next
      case (Cons a list)
      with \<open>s @ r = c # cs\<close> assms(1) show ?thesis by auto
    qed
    with Cons tw dw show ?thesis by (simp add: csv_read_field_def)
  qed
qed

lemma read_formatted:
  assumes "r = [] \<or> is_break (hd r)"
  shows "csv_read_field (formatCsvValue digits (CStr s) @ r) = Some (s, r)"
proof (cases "includes_char s CHR '','' \<or> includes_char s dquote
                  \<or> includes_char s LF \<or> includes_char s CR")
  case True
  from assms have "r = [] \<or> hd r \<noteq> dquote" by (auto simp: is_break_def)
  from read_quoted_doubled [OF this, of s] True show ?thesis
    by (simp add: formatCsvValue_def csv_read_field_def)
next
  case False
  then have "\<forall>c\<in>set s. \<not> is_break c \<and> c \<noteq> dquote"
    by (auto simp: includes_char_def is_break_def)
  from read_plain [OF this assms] False show ?thesis
    by (simp add: formatCsvValue_def)
qed

lemma format_as_text:
  "v \<noteq> CNull \<Longrightarrow> v \<noteq> CUndefined \<Longrightarrow>
   formatCsvValue digits v = formatCsvValue digits (CStr (String_of digits v))"
  by (simp add: formatCsvValue_def)

lemma read_formatted_cell:
  assumes "r = [] \<or> is_break (hd r)"
  shows "csv_read_field (formatCsvValue digits v @ r) = Some (cell_text digits v, r)"
proof (cases "v = CNull \<or> v = CUndefined")
  case True
  have "csv_read_field ([] @ r) = Some ([], r)"
    by (rule read_plain) (simp_all add: assms)
  with True show ?thesis by (auto simp: formatCsvValue_def cell_text_def)
next
  case False
  then have "formatCsvValue digits v = formatCsvValue digits (CStr (String_of digits v))"
    by (intro format_as_text) simp_all
  with False read_formatted [OF assms, of digits "String_of digits v"] show ?thesis
    by (simp add: cell_text_def)
qed

text \<open>
  Claim C3. \<open>formatCsvValue\<close> gives the empty text for \<open>null\<close> and \<open>undefined\<close>;
  any other value is turned into text first, and a text with a comma, a quote or a line
  break in it is wrapped in quotes with every quote inside doubled, any other text is
  left as it is. Reading the result back by the field rule of RFC 4180 gives the
  original text and leaves what follows the field (nothing, or the next separator or
  line break with the rest) untouched.
\<close>

theorem formatCsvValue_round_trip:
  "formatCsvValue digits CNull = [] \<and> formatCsvValue digits CUndefined = []
   \<and> formatCsvValue digits (CStr s) =
       (if includes_char s CHR '','' \<or> includes_char s dquote \<or> includes_char s LF \<or> includes_char s CR
        then dquote # double_quotes s @ [dquote] else s)
   \<and> formatCsvValue digits (CNum n) = formatCsvValue digits (CStr (Number_toString digits n))
   \<and> formatCsvValue digits (CBool b) = formatCsvValue digits (CStr (if b then ''true'' else ''false''))
   \<and> formatCsvValue digits (CNative s) = formatCsvValue digits (CStr s)
   \<and> csv_read_field (formatCsvValue digits (CStr s)) = Some (s, [])
   \<and> csv_read_field (formatCsvValue digits (CStr s) @ CHR '','' # rest) = Some (s, CHR '','' # rest)
   \<and> csv_read_field (formatCsvValue digits (CStr s) @ LF # rest) = Some (s, LF # rest)
   \<and> csv_read_field (formatCsvValue digits (CStr s) @ CR # rest) = Some (s, CR # rest)"
  using read_formatted [of "[]" digits s] read_formatted [of "CHR '','' # rest" digits s]
    read_formatted [of "LF # rest" digits s] read_formatted [of "CR # rest" digits s]
  by (simp add: is_break_def) (simp add: formatCsvValue_def)

theorem formatCsvValue_round_trip_witness:
  "formatCsvValue unprinted (CStr (''say '' @ [dquote] @ ''hi'' @ [dquote] @ '', ok''))
     = [dquote] @ ''say '' @ [dquote, dquote] @ ''hi'' @ [dquote, dquote] @ '', ok'' @ [dquote]
   \<and> csv_read_field ([dquote] @ ''say '' @ [dquote, dquote] @ ''hi'' @ [dquote, dquote] @ '', ok''
         @ [dquote] @ '',next'')
     = Some (''say '' @ [dquote] @ ''hi'' @ [dquote] @ '', ok'', '',next'')
   \<and> formatCsvValue unprinted (CNum (Fin 12)) = ''12''"
proof -
  let ?s = "''say '' @ [dquote] @ ''hi'' @ [dquote] @ '', ok''"
  have f: "formatCsvValue unprinted (CStr ?s)
     = [dquote] @ ''say '' @ [dquote, dquote] @ ''hi'' @ [dquote, dquote] @ '', ok'' @ [dquote]"
    by (simp add: formatCsvValue_def includes_char_def double_quotes_def)
  have n: "formatCsvValue unprinted (CStr ''12'') = ''12''"
    by (simp add: formatCsvValue_def includes_char_def)
  have t: "Number_toString unprinted (Fin 12) = ''12''"
    by (simp add: Number_toString_def show_int_def show_nat.simps digit_char_eval)
  note rt = formatCsvValue_round_trip [of unprinted ?s "Fin 12" True "''next''"]
  from rt have r: "csv_read_field (formatCsvValue unprinted (CStr ?s) @ CHR '','' # ''next'')
      = Some (?s, CHR '','' # ''next'')"
    by blast
  from rt have "formatCsvValue unprinted (CNum (Fin 12))
      = formatCsvValue unprinted (CStr (Number_toString unprinted (Fin 12)))"
    by blast
  then have m: "formatCsvValue unprinted (CNum (Fin 12)) = ''12''"
    by (simp only: t n)
  from r have "csv_read_field (([dquote] @ ''say '' @ [dquote, dquote] @ ''hi'' @ [dquote, dquote]
        @ '', ok'' @ [dquote]) @ CHR '','' # ''next'') = Some (?s, CHR '','' # ''next'')"
    by (simp only: f)
  with f m show ?thesis by simp
qed

subsection \<open>The lines of the sections\<close>

lemma fold_push_row:
  "fold (push_row digits native hs) rs acc = acc @ map (row_line digits native hs) rs"
  by (induction rs arbitrary: acc) (simp_all add: push_row_def row_line_def comp_def)

lemma push_section_lines:
  "push_section digits native n i s acc
     = acc @ section_lines digits native s @ (if i < n - 1 then [[]] else [])"
  by (simp add: push_section_def section_lines_def header_line_def fold_push_row Let_def)

lemma sections_loop_lines:
  "n = i + length ss \<Longrightarrow>
   sections_loop digits native n i ss acc = acc @ sections_lines digits native ss"
proof (induction ss arbitrary: i acc)
  case Nil
  then show ?case by simp
next
  case (Cons s ss)
  show ?case
  proof (cases ss)
    case Nil
    with Cons.prems show ?thesis by (simp add: push_section_lines)
  next
    case (Cons t ts)
    with Cons.prems have "i < n - 1" by simp
    then have "sections_loop digits native n i (s # ss) acc
        = sections_loop digits native n (Suc i) ss (acc @ section_lines digits native s @ [[]])"
      by (simp add: push_section_lines)
    also have "\<dots> = (acc @ section_lines digits native s @ [[]]) @ sections_lines digits native ss"
      by (rule Cons.IH) (simp add: Cons.prems)
    also have "\<dots> = acc @ sections_lines digits native (s # ss)"
      using Cons by simp
    finally show ?thesis .
  qed
qed

subsection \<open>Reading a line back\<close>

lemma read_fields_join:
  assumes "vs \<noteq> []" and "length vs \<le> n"
  shows "read_fields n (join_with '','' (map (formatCsvValue digits) vs))
       = Some (map (cell_text digits) vs)"
  using assms
proof (induction vs arbitrary: n)
  case Nil
  then show ?case by simp
next
  case (Cons v vs)
  then obtain m where n: "n = Suc m" by (cases n) auto
  show ?case
  proof (cases vs)
    case Nil
    have "csv_read_field (formatCsvValue digits v @ []) = Some (cell_text digits v, [])"
      by (rule read_formatted_cell) simp
    with Nil n show ?thesis by simp
  next
    case (Cons w ws)
    let ?rest = "join_with '','' (map (formatCsvValue digits) (w # ws))"
    have j: "join_with '','' (map (formatCsvValue digits) (v # vs))
        = formatCsvValue digits v @ CHR '','' # ?rest"
      using Cons by simp
    have f: "csv_read_field (formatCsvValue digits v @ CHR '','' # ?rest)
        = Some (cell_text digits v, CHR '','' # ?rest)"
      by (rule read_formatted_cell) (simp add: is_break_def)
    have "read_fields m ?rest = Some (map (cell_text digits) (w # ws))"
      using Cons.IH [of m] Cons.prems Cons n by simp
    with j f n Cons show ?thesis by simp
  qed
qed

lemma csv_read_record_join:
  assumes "vs \<noteq> []"
  shows "csv_read_record (join_with '','' (map (formatCsvValue digits) vs))
       = Some (map (cell_text digits) vs)"
proof -
  have "length vs \<le> Suc (length (join_with '','' (map (formatCsvValue digits) vs)))"
    using join_with_length [of "map (formatCsvValue digits) vs" "CHR '',''"] by simp
  from read_fields_join [OF assms this] show ?thesis
    by (simp add: csv_read_record_def)
qed

subsection \<open>The end of the text\<close>

lemma format_end: "formatCsvValue digits v \<noteq> [] \<Longrightarrow> last (formatCsvValue digits v) \<noteq> LF"
proof -
  assume ne: "formatCsvValue digits v \<noteq> []"
  then have v: "v \<noteq> CNull" "v \<noteq> CUndefined" by (auto simp: formatCsvValue_def)
  let ?s = "String_of digits v"
  show ?thesis
  proof (cases "includes_char ?s CHR '','' \<or> includes_char ?s dquote
                  \<or> includes_char ?s LF \<or> includes_char ?s CR")
    case True
    with v have "formatCsvValue digits v = (dquote # double_quotes ?s) @ [dquote]"
      by (simp add: formatCsvValue_def)
    then show ?thesis by (simp only: last_snoc) simp
  next
    case False
    with v have e: "formatCsvValue digits v = ?s" by (simp add: formatCsvValue_def)
    with ne have "last ?s \<in> set ?s" by simp
    with False e show ?thesis by (auto simp: includes_char_def)
  qed
qed

lemma join_comma_end:
  assumes "\<forall>x\<in>set xs. x \<noteq> [] \<longrightarrow> last x \<noteq> LF" and "join_with '','' xs \<noteq> []"
  shows "last (join_with '','' xs) \<noteq> LF"
  using assms
proof (induction "'',''" xs rule: join_with.induct)
  case 1
  then show ?case by simp
next
  case (2 x)
  then show ?case by simp
next
  case (3 x y ys)
  show ?case
  proof (cases "join_with '','' (y # ys) = []")
    case True
    then show ?thesis by simp
  next
    case False
    with 3 show ?thesis by simp
  qed
qed

lemma cells_line_end:
  "join_with '','' (map (formatCsvValue digits) vs) \<noteq> [] \<Longrightarrow>
   last (join_with '','' (map (formatCsvValue digits) vs)) \<noteq> LF"
  by (rule join_comma_end) (auto simp: format_end)

lemma section_line_end:
  assumes "l \<in> set (section_lines digits native s)" and "l \<noteq> []"
  shows "last l \<noteq> LF"
proof -
  have r: "row_line digits native hs row \<noteq> [] \<Longrightarrow> last (row_line digits native hs row) \<noteq> LF"
    for hs row
  proof -
    assume ne: "row_line digits native hs row \<noteq> []"
    have "row_line digits native hs row
        = join_with '','' (map (formatCsvValue digits)
            (if hs \<noteq> [] then map (get_cell native row) hs else map snd row))"
      by (simp add: row_line_def comp_def)
    with ne cells_line_end show ?thesis by metis
  qed
  have h: "header_line digits hs \<noteq> [] \<Longrightarrow> last (header_line digits hs) \<noteq> LF" for hs
  proof -
    assume ne: "header_line digits hs \<noteq> []"
    have "header_line digits hs = join_with '','' (map (formatCsvValue digits) (map CStr hs))"
      by (simp add: header_line_def comp_def)
    with ne cells_line_end show ?thesis by metis
  qed
  from assms r h format_end [of digits "CStr (title s)"] show ?thesis
    by (auto simp: section_lines_def split: if_splits)
qed

lemma sections_line_end:
  "l \<in> set (sections_lines digits native ss) \<Longrightarrow> l \<noteq> [] \<Longrightarrow> last l \<noteq> LF"
  by (induction digits native ss rule: sections_lines.induct) (auto simp: section_line_end)

lemma join_lines_end:
  assumes "\<forall>l\<in>set ls. l \<noteq> [] \<longrightarrow> last l \<noteq> LF"
  shows "(join_with [LF] ls \<noteq> [] \<and> last (join_with [LF] ls) = LF)
       \<longleftrightarrow> (2 \<le> length ls \<and> last ls = [])"
  using assms
proof (induction "[LF]" ls rule: join_with.induct)
  case 1
  then show ?case by simp
next
  case (2 x)
  then show ?case by auto
next
  case (3 x y ys)
  show ?case
  proof (cases "join_with [LF] (y # ys) = []")
    case True
    then have "y # ys = [[]]" by (simp add: join_with_empty)
    with True show ?thesis by simp
  next
    case False
    have ih: "(last (join_with [LF] (y # ys)) = LF) \<longleftrightarrow> (2 \<le> length (y # ys) \<and> last (y # ys) = [])"
      using 3 False by simp
    have "last (y # ys) = [] \<Longrightarrow> 2 \<le> length (y # ys)"
    proof (cases ys)
      case Nil
      assume "last (y # ys) = []"
      with Nil False show ?thesis by simp
    next
      case (Cons z zs)
      then show ?thesis by simp
    qed
    with ih False show ?thesis by auto
  qed
qed

text \<open>
  Claim C4. The text \<open>sectionsToCSV\<close> returns is the lines of the sections, in the
  order given, joined by single newlines: for each section the escaped title and a
  blank line if the title is there, the escaped headers joined by commas if there are
  headers, then a line per row, its cells escaped and in the order of the headers (in
  the order of the row's own fields if there are no headers); and one blank line
  between two sections, none after the last. The escaping is such that a title line, a
  header line and the line of a row, read as a record, give back the title, the
  headers and the texts of the cells in that order. The text ends with a newline
  exactly when it has more than one line and its last line is empty.
\<close>

theorem sectionsToCSV_structure:
  "sectionsToCSV digits native sections = join_with [LF] (sections_lines digits native sections)
   \<and> csv_read_record (formatCsvValue digits (CStr t)) = Some [t]
   \<and> (hs \<noteq> [] \<longrightarrow>
        csv_read_record (header_line digits hs) = Some hs
        \<and> csv_read_record (row_line digits native hs row)
            = Some (map (\<lambda>h. cell_text digits (get_cell native row h)) hs))
   \<and> (row \<noteq> [] \<longrightarrow>
        csv_read_record (row_line digits native [] row)
          = Some (map (\<lambda>p. cell_text digits (snd p)) row))
   \<and> ((sectionsToCSV digits native sections \<noteq> []
         \<and> last (sectionsToCSV digits native sections) = LF)
        \<longleftrightarrow> (2 \<le> length (sections_lines digits native sections)
             \<and> last (sections_lines digits native sections) = []))"
proof -
  have s: "sectionsToCSV digits native sections = join_with [LF] (sections_lines digits native sections)"
    by (simp add: sectionsToCSV_def sections_loop_lines)
  have t: "csv_read_record (formatCsvValue digits (CStr t)) = Some [t]"
    using csv_read_record_join [of "[CStr t]" digits] by (simp add: cell_text_def)
  have h: "csv_read_record (header_line digits hs) = Some hs" if "hs \<noteq> []"
    using csv_read_record_join [of "map CStr hs" digits] that
    by (simp add: header_line_def comp_def cell_text_def)
  have r: "csv_read_record (row_line digits native hs row)
            = Some (map (\<lambda>h. cell_text digits (get_cell native row h)) hs)" if "hs \<noteq> []"
    using csv_read_record_join [of "map (get_cell native row) hs" digits] that
    by (simp add: row_line_def comp_def)
  have o: "csv_read_record (row_line digits native [] row)
          = Some (map (\<lambda>p. cell_text digits (snd p)) row)" if "row \<noteq> []"
    using csv_read_record_join [of "map snd row" digits] that
    by (simp add: row_line_def comp_def)
  have e: "(join_with [LF] (sections_lines digits native sections) \<noteq> []
         \<and> last (join_with [LF] (sections_lines digits native sections)) = LF)
        \<longleftrightarrow> (2 \<le> length (sections_lines digits native sections)
             \<and> last (sections_lines digits native sections) = [])"
    by (rule join_lines_end) (auto simp: sections_line_end)
  from s t h r o e show ?thesis by simp
qed

text \<open>
  The two example sections, and a row with a quote and a comma in a cell under four
  headers, of which the third is no field of the row and the fourth is a member every
  object inherits.
\<close>

theorem sectionsToCSV_structure_witness:
  "quoted_headers \<noteq> [] \<and> quoted_row \<noteq> []
   \<and> sectionsToCSV unprinted native_text example_sections
     = ''Report'' @ [LF] @ [LF] @ ''item,value'' @ [LF]
       @ [dquote] @ ''rice, steamed'' @ [dquote] @ '',12'' @ [LF]
       @ ''tea,'' @ [LF] @ [LF] @ ''ok,true''
   \<and> row_line unprinted native_text quoted_headers quoted_row
     = ''2,'' @ [dquote] @ ''6'' @ [dquote, dquote] @ '' pan, deep'' @ [dquote]
       @ '',,function valueOf() { [native code] }''
   \<and> csv_read_record (row_line unprinted native_text quoted_headers quoted_row)
     = Some [''2'', ''6'' @ [dquote] @ '' pan, deep'', [], ''function valueOf() { [native code] }'']
   \<and> csv_read_record (row_line unprinted native_text [] quoted_row)
     = Some [''6'' @ [dquote] @ '' pan, deep'', ''2'']
   \<and> \<not> (sectionsToCSV unprinted native_text example_sections \<noteq> []
         \<and> last (sectionsToCSV unprinted native_text example_sections) = LF)"
proof -
  have t12: "Number_toString unprinted (Fin 12) = ''12''"
    and t2: "Number_toString unprinted (Fin 2) = ''2''"
    by (simp_all add: Number_toString_def show_int_def show_nat.simps digit_char_eval)
  have h1: "quoted_headers \<noteq> []" and h2: "quoted_row \<noteq> []"
    by (simp_all add: quoted_headers_def quoted_row_def)
  have ls: "sections_lines unprinted native_text example_sections
     = [''Report'', [], ''item,value'', [dquote] @ ''rice, steamed'' @ [dquote] @ '',12'',
        ''tea,'', [], ''ok,true'']"
    by (simp add: example_sections_def section_lines_def header_line_def row_line_def
        formatCsvValue_def includes_char_def double_quotes_def get_cell_def prototype_members_def t12)
  have cells: "map (\<lambda>h. cell_text unprinted (get_cell native_text quoted_row h)) quoted_headers
     = [''2'', ''6'' @ [dquote] @ '' pan, deep'', [], ''function valueOf() { [native code] }'']"
    by (simp add: quoted_headers_def quoted_row_def get_cell_def prototype_members_def
        cell_text_def native_text_def t2)
  have own: "map (\<lambda>p. cell_text unprinted (snd p)) quoted_row = [''6'' @ [dquote] @ '' pan, deep'', ''2'']"
    by (simp add: quoted_row_def cell_text_def t2)
  have line: "row_line unprinted native_text quoted_headers quoted_row
     = ''2,'' @ [dquote] @ ''6'' @ [dquote, dquote] @ '' pan, deep'' @ [dquote]
       @ '',,function valueOf() { [native code] }''"
    by (simp add: row_line_def quoted_headers_def quoted_row_def get_cell_def prototype_members_def
        formatCsvValue_def includes_char_def double_quotes_def native_text_def t2)
  note th = sectionsToCSV_structure [of unprinted native_text example_sections "''Report''"
      quoted_headers quoted_row]
  from th have a: "sectionsToCSV unprinted native_text example_sections
      = join_with [LF] (sections_lines unprinted native_text example_sections)"
    by blast
  from th h1 have b: "csv_read_record (row_line unprinted native_text quoted_headers quoted_row)
      = Some (map (\<lambda>h. cell_text unprinted (get_cell native_text quoted_row h)) quoted_headers)"
    by blast
  from th h2 have c: "csv_read_record (row_line unprinted native_text [] quoted_row)
      = Some (map (\<lambda>p. cell_text unprinted (snd p)) quoted_row)"
    by blast
  from th have d: "(sectionsToCSV unprinted native_text example_sections \<noteq> []
         \<and> last (sectionsToCSV unprinted native_text example_sections) = LF)
        \<longleftrightarrow> (2 \<le> length (sections_lines unprinted native_text example_sections)
             \<and> last (sections_lines unprinted native_text example_sections) = [])"
    by blast
  have a': "sectionsToCSV unprinted native_text example_sections
     = ''Report'' @ [LF] @ [LF] @ ''item,value'' @ [LF]
       @ [dquote] @ ''rice, steamed'' @ [dquote] @ '',12'' @ [LF]
       @ ''tea,'' @ [LF] @ [LF] @ ''ok,true''"
    unfolding a ls by simp
  have d': "\<not> (sectionsToCSV unprinted native_text example_sections \<noteq> []
         \<and> last (sectionsToCSV unprinted native_text example_sections) = LF)"
    unfolding d ls by simp
  from h1 h2 a' line b c d' show ?thesis
    unfolding cells own by blast
qed

text \<open>
  Claim C4 as stated has no newline at the end of the text. A section that is its
  title alone, when it is the last one, ends with the blank line that follows a title,
  and the text ends with a newline.
\<close>

theorem sectionsToCSV_trailing_newline_counterexample:
  "sectionsToCSV unprinted native_text title_only_sections = ''T'' @ [LF]"
  by (simp add: sectionsToCSV_def title_only_sections_def push_section_def Let_def
      formatCsvValue_def includes_char_def)

subsection \<open>Validation\<close>

lemma strip_leading_none: "lead_len seqs s = 0 \<Longrightarrow> strip_leading seqs s = s"
  by (subst strip_leading.simps) simp

lemma lead_len_Nil: "lead_len seqs [] = 0"
proof -
  have "filter (\<lambda>w. w \<noteq> [] \<and> take (length w) [] = w) seqs = []"
    by (induction seqs) auto
  then show ?thesis by (simp add: lead_len_def)
qed

lemma trim_Nil: "trim [] = []"
  by (simp add: trim_def strip_leading_none lead_len_Nil)

lemma lead_len_plain:
  assumes "s \<noteq> []" and "plain (hd s)" and "list_all (\<lambda>w. w = [] \<or> \<not> plain (hd w)) seqs"
  shows "lead_len seqs s = 0"
proof -
  have "\<not> (w \<noteq> [] \<and> take (length w) s = w)" if "w \<in> set seqs" for w
  proof
    assume a: "w \<noteq> [] \<and> take (length w) s = w"
    then have "hd w = hd (take (length w) s)" by simp
    also have "\<dots> = hd s" using a assms(1) by (cases s; cases w) auto
    finally have "plain (hd w)" using assms(2) by simp
    with that a assms(3) show False by (auto simp: list_all_iff)
  qed
  then have "filter (\<lambda>w. w \<noteq> [] \<and> take (length w) s = w) seqs = []"
    by (auto simp: filter_empty_conv)
  then show ?thesis by (simp add: lead_len_def)
qed

lemma whitespace_not_plain:
  "list_all (\<lambda>w. w = [] \<or> \<not> plain (hd w)) whitespace"
  "list_all (\<lambda>w. w = [] \<or> \<not> plain (hd w)) (map rev whitespace)"
  by (simp_all add: whitespace_def plain_def)

lemma trim_plain:
  assumes "s \<noteq> []" and "plain (hd s)" and "plain (last s)"
  shows "trim s = s"
proof -
  have "strip_leading whitespace s = s"
    using assms(1,2) whitespace_not_plain(1) by (simp add: strip_leading_none lead_len_plain)
  moreover have "strip_leading (map rev whitespace) (rev s) = rev s"
    using assms(1,3) whitespace_not_plain(2)
    by (simp add: strip_leading_none lead_len_plain hd_rev)
  ultimately show ?thesis by (simp add: trim_def)
qed

text \<open>
  Claim C9 has the warning report the 1-based line numbers of the offending lines. The
  numbers the code reports are positions among the non-blank lines: in the text
  \<open>a,b\<close>, blank line, \<open>c\<close> the line with the wrong number of fields is the third
  line, and the warning names line 2, which is the blank one.
\<close>

theorem validateCsvContent_blank_line_numbering:
  "split_on LF blank_line_csv = [''a,b'', [], ''c'']
   \<and> inconsistentLines [''a,b'', ''c''] = [(1, 1)]
   \<and> validateCsvContent blank_line_csv
       = \<lparr>isValid = True,
          warnings = [''Inconsistent column counts found in lines: 2''],
          errors = []\<rparr>"
proof -
  have sp: "split_on LF blank_line_csv = [''a,b'', [], ''c'']"
    by (simp add: blank_line_csv_def)
  have t: "trim blank_line_csv = blank_line_csv" "trim ''a,b'' = ''a,b''" "trim ''c'' = ''c''"
    by (rule trim_plain; simp add: blank_line_csv_def plain_def)+
  have ne: "blank_line_csv \<noteq> []" by (simp add: blank_line_csv_def)
  have inc: "inconsistentLines [''a,b'', ''c''] = [(1, 1)]"
    by (simp add: inconsistentLines_def upt_rec)
  have rep: "\<not> includes_text blank_line_csv replacement_text"
    by (simp add: blank_line_csv_def replacement_text_def)
  have len: "\<not> 10 * 1048576 < length blank_line_csv"
    by (simp add: blank_line_csv_def)
  have two: "show_nat (Suc (Suc 0)) = ''2''"
    using digit_char_eval(3) by (subst show_nat.simps) (simp add: numeral_2_eq_2)
  show ?thesis
    using sp inc rep len ne
    by (simp add: validateCsvContent_def Let_def t trim_Nil two)
qed

section \<open>Properties of the export aggregator\<close>

subsection \<open>The analysis summary\<close>

lemma js_ge_not_lt: "js_ge x y \<Longrightarrow> \<not> js_lt x y"
  by (simp add: js_ge_def)

lemma analysis_texts_distinct:
  "recommend_expand \<noteq> recommend_adequate" "recommend_urgent \<noteq> recommend_moderate"
  "status_exceeds \<noteq> status_below" "capacity_sufficient \<noteq> capacity_insufficient"
  by (simp_all add: recommend_expand_def recommend_adequate_def recommend_urgent_def
      recommend_moderate_def status_exceeds_def status_below_def capacity_sufficient_def
      capacity_insufficient_def)

lemma status_branches:
  "(js_ge (gap results) (Fin 0) \<longrightarrow>
      status (createAnalysisSummary values results) = status_exceeds
      \<and> capacityStatus (createAnalysisSummary values results) = capacity_sufficient
      \<and> (recommendation (createAnalysisSummary values results) = recommend_expand
           \<longleftrightarrow> js_gt (gap results) (js_mul (targetDishes values) (fround (2 / 10))))
      \<and> (recommendation (createAnalysisSummary values results) = recommend_adequate
           \<longleftrightarrow> \<not> js_gt (gap results) (js_mul (targetDishes values) (fround (2 / 10)))))
   \<and> (js_lt (gap results) (Fin 0) \<longrightarrow>
      status (createAnalysisSummary values results) = status_below
      \<and> capacityStatus (createAnalysisSummary values results) = capacity_insufficient
      \<and> (recommendation (createAnalysisSummary values results) = recommend_urgent
           \<longleftrightarrow> js_gt (Math_abs (gap results)) (js_mul (targetDishes values) (fround (1 / 10))))
      \<and> (recommendation (createAnalysisSummary values results) = recommend_moderate
           \<longleftrightarrow> \<not> js_gt (Math_abs (gap results)) (js_mul (targetDishes values) (fround (1 / 10)))))"
  using analysis_texts_distinct js_ge_not_lt [of "gap results" "Fin 0"]
  by (auto simp: createAnalysisSummary_def Let_def)

lemma recommendation_thresholds:
  assumes g: "gap results = Fin g" and t: "targetDishes values = Fin t"
    and t1: "2 powi (- 1000) \<le> \<bar>t\<bar>" and t2: "\<bar>t\<bar> \<le> 2 powi 1000"
  shows "(0 \<le> g \<and> t / 5 + \<bar>t\<bar> * 2 powi (- 53) < g
            \<longrightarrow> recommendation (createAnalysisSummary values results) = recommend_expand)
       \<and> (0 \<le> g \<and> g < t / 5 - \<bar>t\<bar> * 2 powi (- 53)
            \<longrightarrow> recommendation (createAnalysisSummary values results) = recommend_adequate)
       \<and> (g < 0 \<and> t / 10 + \<bar>t\<bar> * 2 powi (- 53) < \<bar>g\<bar>
            \<longrightarrow> recommendation (createAnalysisSummary values results) = recommend_urgent)
       \<and> (g < 0 \<and> \<bar>g\<bar> < t / 10 - \<bar>t\<bar> * 2 powi (- 53)
            \<longrightarrow> recommendation (createAnalysisSummary values results) = recommend_moderate)"
proof -
  define d where "d = \<bar>t\<bar> * 2 powi (- 53)"
  from js_mul_fraction [OF t1 t2, of "1 / 5"] obtain m2
    where m2: "js_mul (Fin t) (fround (1 / 5)) = Fin m2" "\<bar>m2 - t / 5\<bar> \<le> d"
    unfolding d_def by auto
  from js_mul_fraction [OF t1 t2, of "1 / 10"] obtain m1
    where m1: "js_mul (Fin t) (fround (1 / 10)) = Fin m1" "\<bar>m1 - t / 10\<bar> \<le> d"
    unfolding d_def by auto
  have r: "recommendation (createAnalysisSummary values results)
      = (if 0 \<le> g then (if m2 < g then recommend_expand else recommend_adequate)
         else (if m1 < \<bar>g\<bar> then recommend_urgent else recommend_moderate))"
    by (simp add: createAnalysisSummary_def Let_def g t m1(1) m2(1) js_ge_def js_gt_def js_lt_def)
  have "0 \<le> g \<and> t / 5 + d < g
            \<longrightarrow> recommendation (createAnalysisSummary values results) = recommend_expand"
    unfolding r using m2(2) by auto
  moreover have "0 \<le> g \<and> g < t / 5 - d
            \<longrightarrow> recommendation (createAnalysisSummary values results) = recommend_adequate"
    unfolding r using m2(2) by auto
  moreover have "g < 0 \<and> t / 10 + d < \<bar>g\<bar>
            \<longrightarrow> recommendation (createAnalysisSummary values results) = recommend_urgent"
    unfolding r using m1(2) by auto
  moreover have "g < 0 \<and> \<bar>g\<bar> < t / 10 - d
            \<longrightarrow> recommendation (createAnalysisSummary values results) = recommend_moderate"
    unfolding r using m1(2) by auto
  ultimately show ?thesis unfolding d_def by blast
qed

text \<open>
  Claim C5. With a gap of at least 0 the summary has the status ``exceeds target'' and
  the capacity status ``sufficient'', and recommends expanding exactly when the gap is
  above the target dishes times 0.2, and otherwise says the capacity is adequate; with a
  gap below 0 it has the status ``below target'' and the capacity status
  ``insufficient'', and its recommendation is the urgent one exactly when the size of
  the gap is above the target dishes times 0.1, and the moderate one otherwise. The
  products are products of doubles: for a target whose size is between \<open>2^-1000\<close> and
  \<open>2^1000\<close> they are a fifth and a tenth of the target up to \<open>2^-53\<close> of its size, so a
  gap beyond that distance from the fifth (the tenth) of the target falls on the side
  the exact numbers give.
\<close>

theorem analysis_status_branching:
  "(js_ge (gap results) (Fin 0) \<longrightarrow>
      status (createAnalysisSummary values results) = status_exceeds
      \<and> capacityStatus (createAnalysisSummary values results) = capacity_sufficient
      \<and> (recommendation (createAnalysisSummary values results) = recommend_expand
           \<longleftrightarrow> js_gt (gap results) (js_mul (targetDishes values) (fround (2 / 10))))
      \<and> (recommendation (createAnalysisSummary values results) = recommend_adequate
           \<longleftrightarrow> \<not> js_gt (gap results) (js_mul (targetDishes values) (fround (2 / 10)))))
   \<and> (js_lt (gap results) (Fin 0) \<longrightarrow>
      status (createAnalysisSummary values results) = status_below
      \<and> capacityStatus (createAnalysisSummary values results) = capacity_insufficient
      \<and> (recommendation (createAnalysisSummary values results) = recommend_urgent
           \<longleftrightarrow> js_gt (Math_abs (gap results)) (js_mul (targetDishes values) (fround (1 / 10))))
      \<and> (recommendation (createAnalysisSummary values results) = recommend_moderate
           \<longleftrightarrow> \<not> js_gt (Math_abs (gap results)) (js_mul (targetDishes values) (fround (1 / 10)))))
   \<and> (gap results = Fin g \<and> targetDishes values = Fin t
        \<and> 2 powi (- 1000) \<le> \<bar>t\<bar> \<and> \<bar>t\<bar> \<le> 2 powi 1000 \<longrightarrow>
      (0 \<le> g \<and> t / 5 + \<bar>t\<bar> * 2 powi (- 53) < g
         \<longrightarrow> recommendation (createAnalysisSummary values results) = recommend_expand)
      \<and> (0 \<le> g \<and> g < t / 5 - \<bar>t\<bar> * 2 powi (- 53)
         \<longrightarrow> recommendation (createAnalysisSummary values results) = recommend_adequate)
      \<and> (g < 0 \<and> t / 10 + \<bar>t\<bar> * 2 powi (- 53) < \<bar>g\<bar>
         \<longrightarrow> recommendation (createAnalysisSummary values results) = recommend_urgent)
      \<and> (g < 0 \<and> \<bar>g\<bar> < t / 10 - \<bar>t\<bar> * 2 powi (- 53)
         \<longrightarrow> recommendation (createAnalysisSummary values results) = recommend_moderate))"
  using status_branches [of results "values"] recommendation_thresholds [of results g "values" t]
  by blast

text \<open>
  A target of 200 dishes with gaps of 60, 30, -200 and -10 dishes, on the two sides
  of 40 and of 20; and a target of 3 dishes with the gap \<open>3.6 - 3\<close>, which is above six
  tenths but not above the double \<open>3 * 0.2\<close>.
\<close>

theorem analysis_status_branching_witness:
  "js_ge (gap surplus_results) (Fin 0) \<and> js_lt (gap idle_results) (Fin 0)
   \<and> targetDishes sample_values = Fin 200
   \<and> 2 powi (- 1000) \<le> \<bar>200 :: real\<bar> \<and> \<bar>200 :: real\<bar> \<le> 2 powi 1000
   \<and> status (createAnalysisSummary sample_values surplus_results) = status_exceeds
   \<and> capacityStatus (createAnalysisSummary sample_values surplus_results) = capacity_sufficient
   \<and> recommendation (createAnalysisSummary sample_values surplus_results) = recommend_expand
   \<and> recommendation (createAnalysisSummary sample_values (surplus_results\<lparr>gap := Fin 30\<rparr>))
        = recommend_adequate
   \<and> status (createAnalysisSummary sample_values idle_results) = status_below
   \<and> capacityStatus (createAnalysisSummary sample_values idle_results) = capacity_insufficient
   \<and> recommendation (createAnalysisSummary sample_values idle_results) = recommend_urgent
   \<and> recommendation (createAnalysisSummary sample_values (idle_results\<lparr>gap := Fin (- 10)\<rparr>))
        = recommend_moderate
   \<and> js_ge (gap tight_results) (Fin 0)
   \<and> (3 :: real) / 5 < 1351079888211149 / 2251799813685248
   \<and> recommendation (createAnalysisSummary tight_values tight_results) = recommend_adequate"
proof -
  have eps: "(200 :: real) * 2 powi (- 53) < 1"
    by (simp add: power_int_minus)
  have r1: "2 powi (- 1000) \<le> \<bar>200 :: real\<bar>"
  proof -
    have "(2::real) powi (- 1000) \<le> 2 powi 0" by (rule powi_le_mono) simp
    then show ?thesis by simp
  qed
  have r2: "\<bar>200 :: real\<bar> \<le> 2 powi 1000"
  proof -
    have "(2::real) powi 8 \<le> 2 powi 1000" by (rule powi_le_mono) simp
    moreover have "(2::real) powi 8 = 256" by simp
    ultimately show ?thesis by linarith
  qed
  have t: "targetDishes sample_values = Fin 200"
    by (simp add: sample_values_def)
  have g60: "gap surplus_results = Fin 60" and g30: "gap (surplus_results\<lparr>gap := Fin 30\<rparr>) = Fin 30"
    and g200: "gap idle_results = Fin (- 200)"
    and g10: "gap (idle_results\<lparr>gap := Fin (- 10)\<rparr>) = Fin (- 10)"
    by (simp_all add: surplus_results_def idle_results_def)
  have h1: "js_ge (gap surplus_results) (Fin 0)"
    by (simp add: g60 js_ge_def js_lt_def)
  have h2: "js_lt (gap idle_results) (Fin 0)"
    by (simp add: g200 js_lt_def)
  have h3: "js_ge (gap tight_results) (Fin 0)"
    by (simp add: tight_results_def surplus_results_def js_ge_def js_lt_def)
  from analysis_status_branching [of surplus_results sample_values 60 200] h1 g60 t r1 r2 eps
  have a: "status (createAnalysisSummary sample_values surplus_results) = status_exceeds"
    "capacityStatus (createAnalysisSummary sample_values surplus_results) = capacity_sufficient"
    "recommendation (createAnalysisSummary sample_values surplus_results) = recommend_expand"
    by simp_all
  from analysis_status_branching [of "surplus_results\<lparr>gap := Fin 30\<rparr>" sample_values 30 200]
    g30 t r1 r2 eps
  have b: "recommendation (createAnalysisSummary sample_values (surplus_results\<lparr>gap := Fin 30\<rparr>))
        = recommend_adequate"
    by simp
  from analysis_status_branching [of idle_results sample_values "- 200" 200] h2 g200 t r1 r2 eps
  have c: "status (createAnalysisSummary sample_values idle_results) = status_below"
    "capacityStatus (createAnalysisSummary sample_values idle_results) = capacity_insufficient"
    "recommendation (createAnalysisSummary sample_values idle_results) = recommend_urgent"
    by simp_all
  from analysis_status_branching [of "idle_results\<lparr>gap := Fin (- 10)\<rparr>" sample_values "- 10" 200]
    g10 t r1 r2 eps
  have d: "recommendation (createAnalysisSummary sample_values (idle_results\<lparr>gap := Fin (- 10)\<rparr>))
        = recommend_moderate"
    by simp
  have "\<not> js_gt (gap tight_results) (js_mul (targetDishes tight_values) (fround (2 / 10)))"
    using three_times_two_tenths
    by (simp add: tight_results_def tight_values_def surplus_results_def sample_values_def
        js_gt_def js_lt_def)
  with analysis_status_branching [of tight_results tight_values] h3
  have e: "recommendation (createAnalysisSummary tight_values tight_results) = recommend_adequate"
    by blast
  have f: "(3 :: real) / 5 < 1351079888211149 / 2251799813685248" by simp
  from h1 h2 h3 t r1 r2 a b c d e f show ?thesis by blast
qed

subsection \<open>The utilization rate\<close>

lemma round_min_100: "Math_round (Math_min (Fin 100) x) = Math_min (Fin 100) (Math_round x)"
proof (cases x)
  case (Fin a)
  have r100: "\<lfloor>(100::real) + 1 / 2\<rfloor> = 100" by linarith
  show ?thesis
  proof (cases "a < 100")
    case True
    then have m: "Math_min (Fin 100) x = x"
      using Fin by (simp add: Math_min_def js_lt_def)
    show ?thesis
    proof (cases "a < 0 \<and> - (1 / 2) \<le> a")
      case z: True
      then have "Math_round x = NegZero" using Fin by simp
      moreover have "Math_min (Fin 100) NegZero = NegZero"
        by (simp add: Math_min_def js_lt_def)
      ultimately show ?thesis using m by simp
    next
      case nz: False
      then have rx: "Math_round x = Fin (of_int \<lfloor>a + 1 / 2\<rfloor>)" using Fin by auto
      from True have le: "\<lfloor>a + 1 / 2\<rfloor> \<le> 100" by linarith
      have "Math_min (Fin 100) (Fin (of_int \<lfloor>a + 1 / 2\<rfloor>)) = Fin (of_int \<lfloor>a + 1 / 2\<rfloor>)"
      proof (cases "\<lfloor>a + 1 / 2\<rfloor> = 100")
        case True
        then show ?thesis by (simp add: Math_min_def js_lt_def is_zero_def)
      next
        case False
        with le have "(of_int \<lfloor>a + 1 / 2\<rfloor> :: real) < 100" by linarith
        then show ?thesis by (simp add: Math_min_def js_lt_def)
      qed
      with rx m show ?thesis by simp
    qed
  next
    case False
    then have m: "Math_min (Fin 100) x = Fin 100"
      using Fin by (auto simp: Math_min_def js_lt_def is_zero_def)
    from False have "100 \<le> \<lfloor>a + 1 / 2\<rfloor>" by linarith
    then have ge: "(100 :: real) \<le> of_int \<lfloor>a + 1 / 2\<rfloor>" by linarith
    from False have rx: "Math_round x = Fin (of_int \<lfloor>a + 1 / 2\<rfloor>)" using Fin by auto
    have "Math_min (Fin 100) (Fin (of_int \<lfloor>a + 1 / 2\<rfloor>)) = Fin 100"
    proof (cases "\<lfloor>a + 1 / 2\<rfloor> = 100")
      case True
      then show ?thesis by (simp add: Math_min_def js_lt_def is_zero_def)
    next
      case False
      with ge have "(100 :: real) < of_int \<lfloor>a + 1 / 2\<rfloor>" by linarith
      then show ?thesis by (simp add: Math_min_def js_lt_def)
    qed
    moreover have "Math_round (Fin 100) = Fin 100" using r100 by simp
    ultimately show ?thesis using m rx by simp
  qed
next
  case PInf
  have "\<lfloor>(100::real) + 1 / 2\<rfloor> = 100" by linarith
  with PInf show ?thesis by (simp add: Math_min_def js_lt_def)
qed (simp_all add: Math_min_def js_lt_def is_zero_def)

lemma utilization_eq:
  "utilizationRate (createAnalysisSummary values results)
     = Math_round (Math_min (Fin 100)
         (js_mul (js_div (targetDishes values) (totalCapacity results)) (Fin 100)))"
  by (simp add: createAnalysisSummary_def Let_def)

lemma utilization_positive:
  assumes "targetDishes values = Fin t" and "totalCapacity results = Fin c"
    and "0 < t" and "0 < c" and "2 powi (- 1000) \<le> t / c" and "t / c \<le> 2 powi 1000"
  shows "\<exists>p. \<bar>p - 100 * t / c\<bar> \<le> (100 * t / c) * 2 powi (- 51)
            \<and> utilizationRate (createAnalysisSummary values results)
                = Fin (min 100 (of_int \<lfloor>p + 1 / 2\<rfloor>))"
proof -
  from js_percent_error [OF assms(3-6)] obtain p
    where p: "js_mul (js_div (Fin t) (Fin c)) (Fin 100) = Fin p" "0 < p"
      "\<bar>p - 100 * t / c\<bar> \<le> (100 * t / c) * 2 powi (- 51)"
    by blast
  have u: "utilizationRate (createAnalysisSummary values results)
      = Math_min (Fin 100) (Math_round (Fin p))"
    unfolding utilization_eq round_min_100 assms(1,2) p(1) ..
  from p(2) have "0 \<le> \<lfloor>p + 1 / 2\<rfloor>" by linarith
  have "Math_min (Fin 100) (Math_round (Fin p)) = Fin (min 100 (of_int \<lfloor>p + 1 / 2\<rfloor>))"
    using p(2) by (auto simp: Math_min_def js_lt_def is_zero_def min_def)
  with u p(3) show ?thesis by auto
qed

text \<open>
  Claim C6. The utilization rate of the summary is the smaller of 100 and the rounded
  value of target dishes over total capacity times 100 (the code rounds the smaller of
  100 and the unrounded value, which is the same number), where the quotient and the
  product are those of doubles: for a positive target and capacity whose quotient is
  between \<open>2^-1000\<close> and \<open>2^1000\<close>, the number that is rounded is the exact percentage up
  to \<open>2^-51\<close> of its size. With a total capacity of zero the rate is 100 for a positive
  target, \<open>-Infinity\<close> for a negative one and \<open>NaN\<close> for a target of zero.
\<close>

theorem utilization_rate_formula:
  "utilizationRate (createAnalysisSummary values results)
     = Math_min (Fin 100)
         (Math_round (js_mul (js_div (targetDishes values) (totalCapacity results)) (Fin 100)))
   \<and> (targetDishes values = Fin t \<and> totalCapacity results = Fin c \<and> 0 < t \<and> 0 < c
        \<and> 2 powi (- 1000) \<le> t / c \<and> t / c \<le> 2 powi 1000
        \<longrightarrow> (\<exists>p. \<bar>p - 100 * t / c\<bar> \<le> (100 * t / c) * 2 powi (- 51)
                 \<and> utilizationRate (createAnalysisSummary values results)
                     = Fin (min 100 (of_int \<lfloor>p + 1 / 2\<rfloor>))))
   \<and> (totalCapacity results = Fin 0 \<and> targetDishes values = Fin t \<and> 0 < t
        \<longrightarrow> utilizationRate (createAnalysisSummary values results) = Fin 100)
   \<and> (totalCapacity results = Fin 0 \<and> targetDishes values = Fin t \<and> t < 0
        \<longrightarrow> utilizationRate (createAnalysisSummary values results) = NInf)
   \<and> (totalCapacity results = Fin 0 \<and> targetDishes values = Fin 0
        \<longrightarrow> utilizationRate (createAnalysisSummary values results) = NaN)"
proof -
  have r100: "\<lfloor>(100::real) + 1 / 2\<rfloor> = 100" by linarith
  have f: "utilizationRate (createAnalysisSummary values results)
     = Math_min (Fin 100)
         (Math_round (js_mul (js_div (targetDishes values) (totalCapacity results)) (Fin 100)))"
    unfolding utilization_eq by (rule round_min_100)
  have z1: "utilizationRate (createAnalysisSummary values results) = Fin 100"
    if "totalCapacity results = Fin 0" "targetDishes values = Fin t" "0 < t"
    unfolding utilization_eq using that r100
    by (simp add: js_div_def js_mul_def is_zero_def is_inf_def inf_of_def Math_min_def js_lt_def)
  have z2: "utilizationRate (createAnalysisSummary values results) = NInf"
    if "totalCapacity results = Fin 0" "targetDishes values = Fin t" "t < 0"
    unfolding utilization_eq using that
    by (simp add: js_div_def js_mul_def is_zero_def is_inf_def inf_of_def Math_min_def js_lt_def)
  have z3: "utilizationRate (createAnalysisSummary values results) = NaN"
    if "totalCapacity results = Fin 0" "targetDishes values = Fin 0"
    unfolding utilization_eq using that
    by (simp add: js_div_def js_mul_def is_zero_def is_inf_def Math_min_def)
  from f z1 z2 z3 utilization_positive [of "values" t results c] show ?thesis by blast
qed

text \<open>
  A target of 23 dishes against a capacity of 40: the quotient times 100 is the double
  just below 57.5 and the rate is 57, where the exact numbers would give 58. A target
  of 200 against 260 gives 77, from the bound alone. And the three cases of a capacity
  of zero.
\<close>

theorem utilization_rate_formula_witness:
  "targetDishes half_values = Fin 23 \<and> totalCapacity half_results = Fin 40
   \<and> utilizationRate (createAnalysisSummary half_values half_results) = Fin 57
   \<and> targetDishes sample_values = Fin 200 \<and> totalCapacity surplus_results = Fin 260
   \<and> (0::real) < 200 \<and> (0::real) < 260
   \<and> 2 powi (- 1000) \<le> (200::real) / 260 \<and> (200::real) / 260 \<le> 2 powi 1000
   \<and> utilizationRate (createAnalysisSummary sample_values surplus_results) = Fin 77
   \<and> totalCapacity idle_results = Fin 0
   \<and> utilizationRate (createAnalysisSummary sample_values idle_results) = Fin 100
   \<and> targetDishes (sample_values\<lparr>targetDishes := Fin (- 5)\<rparr>) = Fin (- 5) \<and> (- 5 :: real) < 0
   \<and> utilizationRate (createAnalysisSummary (sample_values\<lparr>targetDishes := Fin (- 5)\<rparr>) idle_results)
        = NInf
   \<and> targetDishes (sample_values\<lparr>targetDishes := Fin 0\<rparr>) = Fin 0
   \<and> utilizationRate (createAnalysisSummary (sample_values\<lparr>targetDishes := Fin 0\<rparr>) idle_results) = NaN"
proof -
  have h1: "totalCapacity idle_results = Fin 0" and h2: "targetDishes sample_values = Fin 200"
    and h3: "targetDishes (sample_values\<lparr>targetDishes := Fin 0\<rparr>) = Fin 0"
    and h4: "targetDishes (sample_values\<lparr>targetDishes := Fin (- 5)\<rparr>) = Fin (- 5)"
    and h5: "totalCapacity surplus_results = Fin 260"
    and h6: "targetDishes half_values = Fin 23" and h7: "totalCapacity half_results = Fin 40"
    by (simp_all add: idle_results_def sample_values_def surplus_results_def half_values_def
        half_results_def)
  have pos: "(0::real) < 200" "(0::real) < 260" and neg: "(- 5 :: real) < 0" by simp_all
  have r1: "2 powi (- 1000) \<le> (200::real) / 260"
  proof -
    have "(2::real) powi (- 1000) \<le> 2 powi (- 1)" by (rule powi_le_mono) simp
    moreover have "(2::real) powi (- 1) = 1 / 2" by (simp add: power_int_minus)
    ultimately show ?thesis by simp
  qed
  have r2: "(200::real) / 260 \<le> 2 powi 1000"
  proof -
    have "(2::real) powi 0 \<le> 2 powi 1000" by (rule powi_le_mono) simp
    then show ?thesis by simp
  qed
  have fl: "\<lfloor>(8092405580431359 / 140737488355328 :: real) + 1 / 2\<rfloor> = 57" by linarith
  have "Math_min (Fin 100)
         (Math_round (js_mul (js_div (targetDishes half_values) (totalCapacity half_results)) (Fin 100)))
      = Fin 57"
    unfolding h6 h7 percent_23_of_40 using fl by (simp add: Math_min_def js_lt_def)
  with utilization_rate_formula [of half_values half_results]
  have a: "utilizationRate (createAnalysisSummary half_values half_results) = Fin 57"
    by simp
  from utilization_rate_formula [of sample_values surplus_results 200 260] h2 h5 pos r1 r2
  obtain p :: real where p: "\<bar>p - 100 * 200 / 260\<bar> \<le> (100 * 200 / 260) * 2 powi (- 51)"
      "utilizationRate (createAnalysisSummary sample_values surplus_results)
         = Fin (min 100 (of_int \<lfloor>p + 1 / 2\<rfloor>))"
    by blast
  have "(2::real) powi (- 51) \<le> 1 / 1024" by (simp add: power_int_minus)
  then have "(100 * 200 / 260) * (2::real) powi (- 51) \<le> (100 * 200 / 260) * (1 / 1024)"
    by (intro mult_left_mono) simp_all
  with p(1) have "\<bar>p - 100 * 200 / 260\<bar> \<le> (100 * 200 / 260) * (1 / 1024)" by linarith
  then have "\<lfloor>p + 1 / 2\<rfloor> = 77" by linarith
  with p(2) have b: "utilizationRate (createAnalysisSummary sample_values surplus_results) = Fin 77"
    by simp
  from utilization_rate_formula [of sample_values idle_results 200] h1 h2 pos
  have c: "utilizationRate (createAnalysisSummary sample_values idle_results) = Fin 100"
    by blast
  from utilization_rate_formula [of "sample_values\<lparr>targetDishes := Fin (- 5)\<rparr>" idle_results "- 5"]
    h1 h4 neg
  have d: "utilizationRate (createAnalysisSummary (sample_values\<lparr>targetDishes := Fin (- 5)\<rparr>) idle_results)
      = NInf"
    by blast
  from utilization_rate_formula [of "sample_values\<lparr>targetDishes := Fin 0\<rparr>" idle_results] h1 h3
  have e: "utilizationRate (createAnalysisSummary (sample_values\<lparr>targetDishes := Fin 0\<rparr>) idle_results) = NaN"
    by blast
  from a b c d e h1 h2 h3 h4 h5 h6 h7 pos neg r1 r2 show ?thesis by blast
qed

subsection \<open>The capacity breakdown\<close>

lemma breakdown_keys_distinct:
  "k_percent_of_total \<noteq> k_customer_type" "k_percent_of_total \<noteq> k_capacity"
  by (simp_all add: k_percent_of_total_def k_customer_type_def k_capacity_def)

text \<open>
  Claim C7. With a total capacity of 0, the cell under the header
  ``% of Total Capacity'' is the text \<open>0%\<close> in each of the three rows of the
  capacity breakdown, the fifth of the sections, and is written to the file as \<open>0%\<close>.
\<close>

theorem breakdown_zero_capacity:
  assumes "totalCapacity (calculatedResults exportData) = Fin 0"
  shows "map (\<lambda>row. get_cell native row k_percent_of_total)
           (rows (convertToCSVSections digits exportData ! 4))
         = [CStr ''0%'', CStr ''0%'', CStr ''0%'']
       \<and> map (\<lambda>row. formatCsvValue digits (get_cell native row k_percent_of_total))
           (rows (convertToCSVSections digits exportData ! 4))
         = [''0%'', ''0%'', ''0%'']"
proof -
  have p: "percent_of_total digits x (Fin 0) = CStr ''0%''" for x
    by (simp add: percent_of_total_def js_gt_def js_lt_def)
  have f: "formatCsvValue digits (CStr ''0%'') = ''0%''"
    by (simp add: formatCsvValue_def includes_char_def)
  have s: "convertToCSVSections digits exportData ! 4 = breakdown_section digits exportData"
    by (simp add: convertToCSVSections_def)
  have g: "map (\<lambda>row. get_cell native row k_percent_of_total) (rows (breakdown_section digits exportData))
         = [CStr ''0%'', CStr ''0%'', CStr ''0%'']"
    using assms breakdown_keys_distinct
    by (simp add: breakdown_section_def Let_def get_cell_def p)
  have "map (\<lambda>row. formatCsvValue digits (get_cell native row k_percent_of_total))
            (rows (breakdown_section digits exportData))
      = map (formatCsvValue digits)
          (map (\<lambda>row. get_cell native row k_percent_of_total) (rows (breakdown_section digits exportData)))"
    by (simp add: comp_def)
  also have "\<dots> = map (formatCsvValue digits) [CStr ''0%'', CStr ''0%'', CStr ''0%'']"
    by (simp only: g)
  also have "\<dots> = [''0%'', ''0%'', ''0%'']"
    by (simp add: f)
  finally show ?thesis
    using g unfolding s by simp
qed

text \<open>
  The export of the calculator with no capacity at all; and, where the guard lets the
  division through, 23 dishes of a capacity of 80, which is the double just below 28.75
  per cent and is written with one decimal as 28.7.
\<close>

theorem breakdown_zero_capacity_witness:
  "totalCapacity (calculatedResults (aggregateExportData sample_metadata sample_values idle_results)) = Fin 0
   \<and> map (\<lambda>row. formatCsvValue unprinted (get_cell native_text row k_percent_of_total))
        (rows (convertToCSVSections unprinted
                 (aggregateExportData sample_metadata sample_values idle_results) ! 4))
      = [''0%'', ''0%'', ''0%'']
   \<and> percent_of_total unprinted (Fin 23) (Fin 80) = CStr ''28.7%''"
proof -
  have h: "totalCapacity (calculatedResults (aggregateExportData sample_metadata sample_values idle_results)) = Fin 0"
    by (simp add: aggregateExportData_def idle_results_def)
  have fl: "\<lfloor>10 * \<bar>8092405580431359 / 281474976710656 :: real\<bar> + 1 / 2\<rfloor> = 287" by linarith
  have small: "\<not> 10 ^ 21 \<le> \<bar>8092405580431359 / 281474976710656 :: real\<bar>" by simp
  have "toFixed1 unprinted (Fin (8092405580431359 / 281474976710656)) = ''28.7''"
    unfolding toFixed1_def using small
    by (simp only: jsnum.case if_False Let_def fl)
       (simp add: show_nat.simps digit_char_eval)
  then have p: "percent_of_total unprinted (Fin 23) (Fin 80) = CStr ''28.7%''"
    by (simp add: percent_of_total_def js_gt_def js_lt_def percent_23_of_80)
  from breakdown_zero_capacity [OF h, of native_text unprinted] h p show ?thesis by blast
qed

end
